(* ===== verification/Prelude.thy ===== *)
theory Prelude
  imports Complex_Main "HOL-Library.Multiset" "HOL-Library.Sublist"
begin

text \<open>
  Shared vocabulary of the portfolio development: the JavaScript idioms the components
  use (\<open>a ?? b\<close>, \<open>v || fallback\<close>, \<open>String.prototype.trim\<close>,
  \<open>String.prototype.includes\<close>, reading an array past its end), the types that name
  the model's values (strings, milliseconds, timer handles), and generic lemmas on lists
  and multisets that the component theories share.  JavaScript strings are modelled as
  Isabelle strings (byte lists); where the source holds a non-ASCII character the model
  writes its UTF-8 bytes, which keeps string equality faithful.
\<close>

named_theorems view_defs "definitions of rendered views, unfolded by the view lemmas"
named_theorems queue_simps "facts about timer queues used by the event-loop proofs"

type_synonym jstring = string
type_synonym ms = nat
type_synonym handle = nat

subsection \<open>JavaScript idioms\<close>

text \<open>\<open>a ?? b\<close>: the left operand unless it is \<open>null\<close>/\<open>undefined\<close>.\<close>

definition js_nullish :: "'a option \<Rightarrow> 'a option \<Rightarrow> 'a option" where
  "js_nullish a b = (case a of None \<Rightarrow> b | Some x \<Rightarrow> Some x)"

text \<open>\<open>v || fallback\<close> on strings: the empty string is falsy.\<close>

definition js_or :: "jstring \<Rightarrow> jstring \<Rightarrow> jstring" where
  "js_or v fallback = (if v = [] then fallback else v)"

text \<open>
  \<open>String.prototype.trim\<close> on ASCII text: the white space and line terminators it strips
  are space, TAB, LF, VT, FF and CR.
\<close>

definition is_js_space :: "char \<Rightarrow> bool" where
  "is_js_space c \<longleftrightarrow> c \<in> {CHR '' '', CHR 0x09, CHR 0x0A, CHR 0x0B, CHR 0x0C, CHR 0x0D}"

definition js_trim :: "jstring \<Rightarrow> jstring" where
  "js_trim s = rev (dropWhile is_js_space (rev (dropWhile is_js_space s)))"

text \<open>\<open>xs[i]\<close>: \<open>undefined\<close> (here \<open>None\<close>) past the end of the array.\<close>

definition js_at :: "'a list \<Rightarrow> nat \<Rightarrow> 'a option" where
  "js_at xs i = (if i < length xs then Some (xs ! i) else None)"

text \<open>\<open>xs[i]\<close> for an integer index, as \<open>Math.floor\<close> produces one.\<close>

definition js_index :: "'a list \<Rightarrow> int \<Rightarrow> 'a option" where
  "js_index xs i = (if 0 \<le> i \<and> i < int (length xs) then Some (xs ! nat i) else None)"

text \<open>ASCII lower-casing, for the attribute values HTML compares case-insensitively.\<close>

definition js_lower :: "jstring \<Rightarrow> jstring" where
  "js_lower s = map (\<lambda>c. let n = (of_char c :: nat) in if 65 \<le> n \<and> n \<le> 90 then char_of (n + 32) else c) s"

text \<open>A number in a template literal: its decimal digits.\<close>

fun show_nat :: "nat \<Rightarrow> jstring" where
  "show_nat n = (if n < 10 then [char_of (48 + n)] else show_nat (n div 10) @ [char_of (48 + n mod 10)])"

text \<open>
  Percent-decoding, as a browser reads the body of a \<open>data:\<close> URL or the query of a
  \<open>mailto:\<close> link: \<open>%XY\<close> with two hexadecimal digits is the byte \<open>XY\<close>; a
  malformed escape is an error.
\<close>

definition hex_value :: "char \<Rightarrow> nat option" where
  "hex_value c =
     (let n = of_char c :: nat
      in if 48 \<le> n \<and> n \<le> 57 then Some (n - 48)
         else if 65 \<le> n \<and> n \<le> 70 then Some (n - 55)
         else if 97 \<le> n \<and> n \<le> 102 then Some (n - 87) else None)"

fun percent_decode :: "jstring \<Rightarrow> jstring option" where
  "percent_decode [] = Some []"
| "percent_decode (c # cs) =
     (if c = CHR ''%'' then
        (case cs of
           h1 # h2 # rest \<Rightarrow>
             (case (hex_value h1, hex_value h2) of
                (Some a, Some b) \<Rightarrow> map_option (Cons (char_of (16 * a + b))) (percent_decode rest)
              | _ \<Rightarrow> None)
         | _ \<Rightarrow> None)
      else map_option (Cons c) (percent_decode cs))"

subsection \<open>Characters outside ASCII\<close>

text \<open>The UTF-8 bytes of the non-ASCII characters the sources contain.\<close>

definition EM_DASH :: jstring where "EM_DASH = [CHR 0xE2, CHR 0x80, CHR 0x94]"
definition EN_DASH :: jstring where "EN_DASH = [CHR 0xE2, CHR 0x80, CHR 0x93]"
definition MIDDOT :: jstring where "MIDDOT = [CHR 0xC2, CHR 0xB7]"
definition RARROW :: jstring where "RARROW = [CHR 0xE2, CHR 0x86, CHR 0x92]"
definition NBSP :: jstring where "NBSP = [CHR 0xC2, CHR 0xA0]"
definition BULLET :: jstring where "BULLET = [CHR 0xE2, CHR 0x80, CHR 0xA2]"
definition ELLIPSIS :: jstring where "ELLIPSIS = [CHR 0xE2, CHR 0x80, CHR 0xA6]"
definition RSQUO :: jstring where "RSQUO = [CHR 0xE2, CHR 0x80, CHR 0x99]"
definition SPARKLES :: jstring where "SPARKLES = [CHR 0xE2, CHR 0x9C, CHR 0xA8]"

subsection \<open>Generic lemmas\<close>

lemma show_nat_01 [simp]: "show_nat 0 = ''0''" "show_nat 1 = ''1''" "show_nat (Suc 0) = ''1''"
  by code_simp+

lemma js_nullish_simps [simp]:
  "js_nullish None b = b" "js_nullish (Some x) b = Some x"
  by (simp_all add: js_nullish_def)

lemma js_or_nonempty [simp]: "fallback \<noteq> [] \<Longrightarrow> js_or v fallback \<noteq> []"
  by (simp add: js_or_def)

lemma js_at_Some_iff [simp]: "js_at xs i = Some x \<longleftrightarrow> i < length xs \<and> xs ! i = x"
  by (auto simp: js_at_def)

lemma js_index_Some_iff [simp]:
  "js_index xs i = Some x \<longleftrightarrow> 0 \<le> i \<and> i < int (length xs) \<and> xs ! nat i = x"
  by (auto simp: js_index_def)

lemma js_at_None_iff [simp]: "js_at xs i = None \<longleftrightarrow> length xs \<le> i"
  by (simp add: js_at_def)

text \<open>Removing by a key that is unique in the list removes exactly one element.\<close>

lemma filter_key_remove1 [queue_simps]:
  "distinct (map f xs) \<Longrightarrow> x \<in> set xs \<Longrightarrow> filter (\<lambda>y. f y \<noteq> f x) xs = remove1 x xs"
proof (induction xs)
  case Nil
  then show ?case by simp
next
  case (Cons y ys)
  show ?case
  proof (cases "y = x")
    case True
    with Cons.prems(1) have "\<forall>z\<in>set ys. f z \<noteq> f x" by (auto simp: image_iff)
    with True show ?thesis by (simp add: filter_id_conv)
  next
    case False
    with Cons.prems have "x \<in> set ys" and "f y \<noteq> f x" by auto
    with Cons.IH Cons.prems(1) False show ?thesis by simp
  qed
qed

text \<open>\<open>Array.prototype.find\<close> by a key that is unique in the list finds the element.\<close>

lemma find_unique_key [simp]:
  "distinct (map f xs) \<Longrightarrow> x \<in> set xs \<Longrightarrow> find (\<lambda>y. f y = f x) xs = Some x"
  by (induction xs) (auto simp: image_iff)

lemma sorted_wrt_map_filter [queue_simps]:
  "sorted_wrt R (map f xs) \<Longrightarrow> sorted_wrt R (map f (filter P xs))"
  by (simp add: sorted_wrt_map sorted_wrt_filter)

end
