(* ===== verification/Theme_Toggle.thy ===== *)
theory Theme_Toggle
  imports Prelude
begin

text \<open>
  The theme-ripple controller of \<open>src/src/components/ThemeToggle.tsx\<close>.  Its state is the
  React component's state and refs together with the part of the browser it drives: the
  \<open>next-themes\<close> preference store, the \<open>mounted\<close> flag, the \<open>ripples\<close> array, the
  \<open>seq\<close> and \<open>timers\<close> refs, and the window's queue of pending timeouts with its
  clock.  Handlers (\<open>onClick\<close>, the two timeout callbacks, the unmount cleanup) are
  functions on that state; the event loop is an inductive step relation whose reachable
  states satisfy the controller's invariant.
\<close>

subsection \<open>Data\<close>

datatype theme_name = Dark | Light

datatype ripple_phase = Cover | Reveal

record ripple =
  rid :: nat
  phase :: ripple_phase
  color :: jstring
  cx :: jstring
  cy :: jstring

definition PAGE_COLOR :: "theme_name \<Rightarrow> jstring" where
  "PAGE_COLOR t = (case t of Dark \<Rightarrow> ''#000000'' | Light \<Rightarrow> ''#ffffff'')"

definition COVER_DURATION :: real where
  "COVER_DURATION = 0.65"

definition REVEAL_DURATION :: nat where
  "REVEAL_DURATION = 0"

definition BETWEEN_DELAY_MS :: ms where
  "BETWEEN_DELAY_MS = 500"

definition theme_str :: "theme_name \<Rightarrow> jstring" where
  "theme_str t = (case t of Dark \<Rightarrow> ''dark'' | Light \<Rightarrow> ''light'')"

text \<open>
  The \<open>next-themes\<close> store as the component sees it through \<open>useTheme()\<close>: the stored
  preference \<open>theme\<close> and the \<open>resolvedTheme\<close>, both possibly \<open>undefined\<close>.
  \<open>setTheme\<close> stores an explicit theme, which then is also the resolved one.
\<close>

record theme_store =
  theme :: "jstring option"
  resolvedTheme :: "jstring option"

definition setTheme :: "jstring \<Rightarrow> theme_store \<Rightarrow> theme_store" where
  "setTheme t st = st\<lparr>theme := Some t, resolvedTheme := Some t\<rparr>"

subsection \<open>Derived render values\<close>

text \<open>\<open>current\<close>: \<open>dark\<close> until mounted, then \<open>light\<close> exactly when
  \<open>resolvedTheme ?? theme\<close> is \<open>"light"\<close>.\<close>

definition current :: "bool \<Rightarrow> theme_store \<Rightarrow> theme_name" where
  "current is_mounted st =
     (if \<not> is_mounted then Dark
      else if js_nullish (resolvedTheme st) (theme st) = Some ''light'' then Light else Dark)"

definition next_theme :: "theme_name \<Rightarrow> theme_name" where
  "next_theme c = (if c = Dark then Light else Dark)"

datatype dot_color = Black | White

definition targetDot :: "theme_name \<Rightarrow> dot_color" where
  "targetDot nxt = (if nxt = Dark then Black else White)"

subsection \<open>State, timers and handlers\<close>

text \<open>
  The closures the two \<open>window.setTimeout\<close> calls schedule: the first captures
  \<open>idA\<close>, \<open>next\<close> and \<open>color\<close>; the second captures \<open>idA\<close> and \<open>idB\<close>.
\<close>

datatype callback = Flip nat theme_name jstring | Cleanup nat nat

record timer =
  handle :: handle
  due :: ms
  cb :: callback

record toggle_state =
  store :: theme_store
  mounted :: bool
  ripples :: "ripple list"
  seq :: nat
  timers :: "handle list"
  live :: bool
  queue :: "timer list"
  next_handle :: handle
  now :: ms

text \<open>The first render: not mounted, no ripples, \<open>seq = 0\<close>, no timers.\<close>

definition init_state :: "theme_store \<Rightarrow> handle \<Rightarrow> ms \<Rightarrow> toggle_state" where
  "init_state st h0 t0 =
     \<lparr>store = st, mounted = False, ripples = [], seq = 0, timers = [], live = True,
      queue = [], next_handle = h0, now = t0\<rparr>"

text \<open>\<open>window.setTimeout(f, d)\<close> and \<open>window.clearTimeout(h)\<close>.\<close>

definition set_timeout :: "callback \<Rightarrow> ms \<Rightarrow> toggle_state \<Rightarrow> handle \<times> toggle_state" where
  "set_timeout f d s =
     (next_handle s,
      s\<lparr>queue := queue s @ [\<lparr>handle = next_handle s, due = now s + d, cb = f\<rparr>],
        next_handle := Suc (next_handle s)\<rparr>)"

definition clear_timeout :: "handle \<Rightarrow> toggle_state \<Rightarrow> toggle_state" where
  "clear_timeout h s = s\<lparr>queue := filter (\<lambda>t. handle t \<noteq> h) (queue s)\<rparr>"

definition corner_ripple :: "nat \<Rightarrow> ripple_phase \<Rightarrow> jstring \<Rightarrow> ripple" where
  "corner_ripple i p c = \<lparr>rid = i, phase = p, color = c, cx = ''100%'', cy = ''0%''\<rparr>"

text \<open>\<open>onClick\<close>: a cover ripple with a fresh id, then the first timeout.\<close>

definition onClick :: "toggle_state \<Rightarrow> toggle_state" where
  "onClick s =
     (let nxt = next_theme (current (mounted s) (store s));
          col = PAGE_COLOR nxt;
          idA = Suc (seq s);
          s1 = s\<lparr>seq := idA, ripples := ripples s @ [corner_ripple idA Cover col]\<rparr>;
          (t1, s2) = set_timeout (Flip idA nxt col) BETWEEN_DELAY_MS s1
      in s2\<lparr>timers := timers s2 @ [t1]\<rparr>)"

text \<open>The two callbacks: flip the theme and add the reveal ripple, then remove the pair.\<close>

fun run_callback :: "callback \<Rightarrow> toggle_state \<Rightarrow> toggle_state" where
  "run_callback (Flip idA nxt col) s =
     (let s1 = s\<lparr>store := setTheme (theme_str nxt) (store s)\<rparr>;
          idB = Suc (seq s1);
          s2 = s1\<lparr>seq := idB, ripples := ripples s1 @ [corner_ripple idB Reveal col]\<rparr>;
          (t2, s3) = set_timeout (Cleanup idA idB) (REVEAL_DURATION * 1000 + 60) s2
      in s3\<lparr>timers := timers s3 @ [t2]\<rparr>)"
| "run_callback (Cleanup idA idB) s =
     s\<lparr>ripples := filter (\<lambda>r. rid r \<noteq> idA \<and> rid r \<noteq> idB) (ripples s)\<rparr>"

text \<open>
  The event loop runs the pending timeout with the earliest due time, the one scheduled
  first among equals, and advances the clock to its due time.
\<close>

fun earliest :: "timer list \<Rightarrow> timer option" where
  "earliest [] = None"
| "earliest (t # ts) =
     (case earliest ts of None \<Rightarrow> Some t | Some u \<Rightarrow> if due u < due t then Some u else Some t)"

definition fire :: "toggle_state \<Rightarrow> toggle_state option" where
  "fire s =
     (case earliest (queue s) of
        None \<Rightarrow> None
      | Some t \<Rightarrow> Some (run_callback (cb t)
          (s\<lparr>queue := filter (\<lambda>u. handle u \<noteq> handle t) (queue s),
             now := max (now s) (due t)\<rparr>)))"

text \<open>The two effects: \<open>setMounted(true)\<close>, and the cleanup on unmount.\<close>

definition mount :: "toggle_state \<Rightarrow> toggle_state" where
  "mount s = s\<lparr>mounted := True\<rparr>"

definition unmount :: "toggle_state \<Rightarrow> toggle_state" where
  "unmount s = (let s1 = fold clear_timeout (timers s) s in s1\<lparr>timers := [], live := False\<rparr>)"

subsection \<open>Rendered output\<close>

text \<open>
  The button: its \<open>aria-label\<close>, the dot it shows (a white placeholder before mount)
  and its stacking order \<open>z-50\<close>.
\<close>

record button_view =
  aria_label :: jstring
  dot :: dot_color
  button_z :: nat

definition toggle_button :: "bool \<Rightarrow> theme_store \<Rightarrow> button_view" where
  "toggle_button is_mounted st =
     (let nxt = next_theme (current is_mounted st)
      in \<lparr>aria_label = (if is_mounted then ''Switch to '' @ theme_str nxt @ '' theme'' else ''Switch theme''),
          dot = (if is_mounted then targetDot nxt else White),
          button_z = 50\<rparr>)"

text \<open>
  One overlay per ripple, in array order: its key, fill, stacking order \<open>z-40\<close>, the
  clip circle it starts and ends with, its opacity at start and end, and the duration of
  its transition.  A reveal overlay's circle is \<open>circle(var(--r) at var(--cx) var(--cy))\<close>
  with \<open>--r\<close> animated from \<open>revealInitial\<close> to \<open>revealAnimate\<close>; the model resolves
  the variables.
\<close>

record overlay =
  okey :: nat
  background :: jstring
  overlay_z :: nat
  clip_from :: jstring
  clip_to :: jstring
  opacity_from :: int
  opacity_to :: int
  duration :: real

definition clip_circle :: "jstring \<Rightarrow> jstring \<Rightarrow> jstring \<Rightarrow> jstring" where
  "clip_circle r x y = ''circle('' @ r @ '' at '' @ x @ '' '' @ y @ '')''"

definition overlay_of :: "ripple \<Rightarrow> overlay" where
  "overlay_of rp =
     (if phase rp = Cover then
        \<lparr>okey = rid rp, background = color rp, overlay_z = 40,
         clip_from = clip_circle ''0px'' (cx rp) (cy rp),
         clip_to = clip_circle ''150vmax'' (cx rp) (cy rp),
         opacity_from = 1, opacity_to = 1, duration = COVER_DURATION\<rparr>
      else
        \<lparr>okey = rid rp, background = color rp, overlay_z = 40,
         clip_from = clip_circle ''0px'' (cx rp) (cy rp),
         clip_to = clip_circle ''150vmax'' (cx rp) (cy rp),
         opacity_from = 1, opacity_to = 0, duration = real REVEAL_DURATION\<rparr>)"

definition render_overlays :: "toggle_state \<Rightarrow> overlay list" where
  "render_overlays s = map overlay_of (ripples s)"

subsection \<open>The event loop\<close>

text \<open>
  One step of the page, labelled by its event: a click on the button, the earliest timeout
  firing, the mount effect, the unmount cleanup, time passing up to the next due timeout,
  or the preference store changing under the component (another tab, the system theme).
\<close>

datatype page_event = Click | Timeout | MountEffect | Teardown | Elapse ms | Restyle theme_store

inductive tt_step :: "toggle_state \<Rightarrow> page_event \<Rightarrow> toggle_state \<Rightarrow> bool" where
  click: "live s \<Longrightarrow> tt_step s Click (onClick s)"
| timeout: "fire s = Some s' \<Longrightarrow> tt_step s Timeout s'"
| mount_effect: "live s \<Longrightarrow> tt_step s MountEffect (mount s)"
| teardown: "live s \<Longrightarrow> tt_step s Teardown (unmount s)"
| elapse: "now s \<le> t \<Longrightarrow> list_all (\<lambda>u. t \<le> due u) (queue s) \<Longrightarrow> tt_step s (Elapse t) (s\<lparr>now := t\<rparr>)"
| restyle: "tt_step s (Restyle st) (s\<lparr>store := st\<rparr>)"

inductive reach :: "toggle_state \<Rightarrow> bool" where
  init: "reach (init_state st h0 t0)"
| step: "reach s \<Longrightarrow> tt_step s e s' \<Longrightarrow> reach s'"

text \<open>The same steps as an executable function, and runs of event lists.\<close>

fun page_step :: "page_event \<Rightarrow> toggle_state \<Rightarrow> toggle_state option" where
  "page_step Click s = (if live s then Some (onClick s) else None)"
| "page_step Timeout s = fire s"
| "page_step MountEffect s = (if live s then Some (mount s) else None)"
| "page_step Teardown s = (if live s then Some (unmount s) else None)"
| "page_step (Elapse t) s =
     (if now s \<le> t \<and> list_all (\<lambda>u. t \<le> due u) (queue s) then Some (s\<lparr>now := t\<rparr>) else None)"
| "page_step (Restyle st) s = Some (s\<lparr>store := st\<rparr>)"

fun run_events :: "page_event list \<Rightarrow> toggle_state \<Rightarrow> toggle_state option" where
  "run_events [] s = Some s"
| "run_events (e # es) s = (case page_step e s of None \<Rightarrow> None | Some s' \<Rightarrow> run_events es s')"

inductive_cases tt_stepE: "tt_step s e s'"

text \<open>Running the pending timeouts out, with fuel.\<close>

fun drain :: "nat \<Rightarrow> toggle_state \<Rightarrow> toggle_state option" where
  "drain 0 s = (if queue s = [] then Some s else None)"
| "drain (Suc n) s = (case fire s of None \<Rightarrow> Some s | Some s' \<Rightarrow> drain n s')"

subsection \<open>The invariant\<close>

text \<open>
  Each pending callback accounts for the ripples it will remove: a pending flip for its
  cover ripple, a pending cleanup for its cover and reveal ripples.
\<close>

definition rkey :: "ripple \<Rightarrow> nat \<times> ripple_phase" where
  "rkey r = (rid r, phase r)"

fun cb_keys :: "callback \<Rightarrow> (nat \<times> ripple_phase) list" where
  "cb_keys (Flip a nxt col) = [(a, Cover)]"
| "cb_keys (Cleanup a b) = [(a, Cover), (b, Reveal)]"

definition pending_keys :: "timer list \<Rightarrow> (nat \<times> ripple_phase) multiset" where
  "pending_keys q = (\<Sum>t\<leftarrow>q. mset (cb_keys (cb t)))"

fun cb_weight :: "callback \<Rightarrow> nat" where
  "cb_weight (Flip a nxt col) = 2"
| "cb_weight (Cleanup a b) = 1"

definition weight :: "timer list \<Rightarrow> nat" where
  "weight q = (\<Sum>t\<leftarrow>q. cb_weight (cb t))"

definition tt_inv :: "toggle_state \<Rightarrow> bool" where
  "tt_inv s \<longleftrightarrow>
     sorted_wrt (<) (map rid (ripples s)) \<and> (\<forall>r\<in>set (ripples s). rid r \<le> seq s) \<and>
     distinct (map handle (queue s)) \<and>
     (\<forall>t\<in>set (queue s). handle t < next_handle s \<and> now s \<le> due t) \<and>
     (live s \<longrightarrow> handle ` set (queue s) \<subseteq> set (timers s) \<and>
                 mset (map rkey (ripples s)) = pending_keys (queue s)) \<and>
     (\<not> live s \<longrightarrow> queue s = [])"



fun is_flip :: "callback \<Rightarrow> bool" where
  "is_flip (Flip a nxt col) = True"
| "is_flip (Cleanup a b) = False"

text \<open>
  The colours and the corner origin: every ripple starts at the top-right corner, and a
  pending flip carries the colour of its target theme, which is also the colour of the
  cover ripple it was scheduled with.
\<close>

definition ripple_inv :: "toggle_state \<Rightarrow> bool" where
  "ripple_inv s \<longleftrightarrow>
     (\<forall>r\<in>set (ripples s). cx r = ''100%'' \<and> cy r = ''0%'') \<and>
     (\<forall>t\<in>set (queue s). \<forall>a n c. cb t = Flip a n c \<longrightarrow>
        c = PAGE_COLOR n \<and> a \<le> seq s \<and> (\<forall>r\<in>set (ripples s). rid r = a \<longrightarrow> color r = c))"

subsection \<open>Geometry of the cover animation\<close>

text \<open>
  A cover overlay clips the viewport to \<open>circle(R at 100% 0%)\<close> with \<open>R\<close> animated
  linearly from \<open>0px\<close> to \<open>150vmax\<close> over \<open>COVER_DURATION\<close> seconds.  For a
  viewport of width \<open>w\<close> and height \<open>h\<close> (pixels) and \<open>t\<close> milliseconds after the
  click, the radius and the points it covers, measured from the top-left corner:
\<close>

definition cover_radius :: "real \<Rightarrow> real \<Rightarrow> real \<Rightarrow> real" where
  "cover_radius w h t = 150 / 100 * max w h * min 1 (max 0 t / (COVER_DURATION * 1000))"

definition cover_covers :: "real \<Rightarrow> real \<Rightarrow> real \<Rightarrow> real \<times> real \<Rightarrow> bool" where
  "cover_covers w h t p \<longleftrightarrow> (fst p - w)\<^sup>2 + (snd p)\<^sup>2 \<le> (cover_radius w h t)\<^sup>2"

subsection \<open>A demonstration page\<close>

text \<open>A page whose stored theme is dark, with handles from 1 and the clock at 0.\<close>

abbreviation demo_store :: theme_store where
  "demo_store \<equiv> \<lparr>theme = Some ''dark'', resolvedTheme = Some ''dark''\<rparr>"

abbreviation demo_start :: toggle_state where
  "demo_start \<equiv> init_state demo_store 1 0"

abbreviation demo_run :: "page_event list \<Rightarrow> toggle_state" where
  "demo_run es \<equiv> the (run_events es demo_start)"


subsection \<open>Lemmas: the event loop and the handlers\<close>

text \<open>
  The earliest timeout is a pending one with a minimal due time; each handler is a
  record update whose shape the unfolding lemmas spell out; every step keeps
  \<open>tt_inv\<close>, so every reachable state satisfies it (rule induction on \<open>reach\<close>,
  then on \<open>tt_step\<close>).
\<close>

lemma earliest_None_iff [simp]: "earliest q = None \<longleftrightarrow> q = []"
  by (induction q) (auto split: option.splits)

lemma earliest_Some:
  "earliest q = Some t \<Longrightarrow> t \<in> set q \<and> (\<forall>u\<in>set q. due t \<le> due u)"
proof (induction q arbitrary: t)
  case Nil
  then show ?case by simp
next
  case (Cons x xs)
  then show ?case
    by (cases "earliest xs") (fastforce split: if_splits)+
qed

lemma rkey_corner [simp]: "rkey (corner_ripple i p c) = (i, p)"
  and rid_corner [simp]: "rid (corner_ripple i p c) = i"
  and phase_corner [simp]: "phase (corner_ripple i p c) = p"
  by (simp_all add: rkey_def corner_ripple_def)

lemma pending_keys_Nil [simp]: "pending_keys [] = {#}"
  and pending_keys_snoc [simp]: "pending_keys (q @ [t]) = pending_keys q + mset (cb_keys (cb t))"
  by (simp_all add: pending_keys_def)

lemma pending_keys_remove1:
  "t \<in> set q \<Longrightarrow> pending_keys q = mset (cb_keys (cb t)) + pending_keys (remove1 t q)"
  unfolding pending_keys_def by (rule sum_list_map_remove1)

lemma onClick_eq:
  "onClick s = s\<lparr>seq := Suc (seq s),
     ripples := ripples s @ [corner_ripple (Suc (seq s)) Cover (PAGE_COLOR (next_theme (current (mounted s) (store s))))],
     queue := queue s @ [\<lparr>handle = next_handle s, due = now s + 500,
        cb = Flip (Suc (seq s)) (next_theme (current (mounted s) (store s))) (PAGE_COLOR (next_theme (current (mounted s) (store s))))\<rparr>],
     next_handle := Suc (next_handle s), timers := timers s @ [next_handle s]\<rparr>"
  by (simp add: onClick_def set_timeout_def Let_def BETWEEN_DELAY_MS_def)

lemma mset_rkey_filter_pair:
  assumes "distinct (map rid rs)" and "mset (map rkey rs) = {#(a, Cover), (b, Reveal)#} + M"
  shows "mset (map rkey (filter (\<lambda>r. rid r \<noteq> a \<and> rid r \<noteq> b) rs)) = M"
proof -
  let ?Q = "\<lambda>k. fst k \<noteq> a \<and> fst k \<noteq> b"
  have map_eq: "map rkey (filter (\<lambda>r. rid r \<noteq> a \<and> rid r \<noteq> b) rs) = filter ?Q (map rkey rs)"
    by (simp add: filter_map comp_def rkey_def)
  have ids: "mset (map rid rs) = {#a, b#} + image_mset fst M"
  proof -
    have "mset (map rid rs) = image_mset fst (mset (map rkey rs))"
      by (simp add: rkey_def image_mset.compositionality comp_def)
    then show ?thesis using assms(2) by simp
  qed
  have once: "count (mset (map rid rs)) x \<le> 1" for x
    using assms(1) by (simp add: distinct_count_atmost_1)
  have notin: "\<forall>k\<in>#M. ?Q k"
  proof
    fix k assume k: "k \<in># M"
    then have "fst k \<in># image_mset fst M" by simp
    then have c1: "count (image_mset fst M) (fst k) \<ge> 1" by (simp add: Suc_le_eq)
    have c2: "count (mset (map rid rs)) (fst k) =
        count {#a, b#} (fst k) + count (image_mset fst M) (fst k)"
      unfolding ids by (rule count_union)
    show "?Q k"
    proof (rule ccontr)
      assume "\<not> ?Q k"
      then have "count {#a, b#} (fst k) \<ge> 1" by auto
      with c1 c2 once [of "fst k"] show False by linarith
    qed
  qed
  have "mset (filter ?Q (map rkey rs)) = filter_mset ?Q M"
    using assms(2) by simp
  also have "\<dots> = M"
    using notin by (simp add: filter_mset_eq_conv)
  finally show ?thesis by (simp add: map_eq)
qed
lemma fire_None_iff [simp]: "fire s = None \<longleftrightarrow> queue s = []"
  by (cases "earliest (queue s)") (auto simp: fire_def)

lemma fire_eq:
  assumes "earliest (queue s) = Some t" and "distinct (map handle (queue s))"
  shows "fire s = Some (run_callback (cb t) (s\<lparr>queue := remove1 t (queue s), now := max (now s) (due t)\<rparr>))"
  using assms earliest_Some [OF assms(1)] by (simp add: fire_def queue_simps)

text \<open>Under the invariant, a firing runs the callback of an earliest pending timeout.\<close>

lemma fire_Some_run:
  assumes "tt_inv s" and "fire s = Some s'"
  obtains t where "t \<in> set (queue s)" "\<forall>u\<in>set (queue s). due t \<le> due u"
    "distinct (map handle (queue s))"
    "s' = run_callback (cb t) (s\<lparr>queue := remove1 t (queue s), now := max (now s) (due t)\<rparr>)"
proof -
  from assms(2) obtain t where e: "earliest (queue s) = Some t"
    by (auto simp: fire_def split: option.splits)
  from assms(1) have dist: "distinct (map handle (queue s))" by (simp add: tt_inv_def)
  from earliest_Some [OF e] fire_eq [OF e dist] assms(2) dist that show ?thesis by auto
qed

lemma run_Flip_eq:
  "run_callback (Flip a n c) s =
     s\<lparr>store := setTheme (theme_str n) (store s), seq := Suc (seq s),
       ripples := ripples s @ [corner_ripple (Suc (seq s)) Reveal c],
       queue := queue s @ [\<lparr>handle = next_handle s, due = now s + 60, cb = Cleanup a (Suc (seq s))\<rparr>],
       next_handle := Suc (next_handle s), timers := timers s @ [next_handle s]\<rparr>"
  by (simp add: set_timeout_def Let_def REVEAL_DURATION_def)

declare run_callback.simps(1) [simp del] run_Flip_eq [simp]

lemma inv_init: "tt_inv (init_state st h0 t0)"
  by (simp add: tt_inv_def init_state_def)

lemma inv_onClick:
  assumes "tt_inv s" and "live s"
  shows "tt_inv (onClick s)"
  using assms unfolding onClick_eq tt_inv_def
  by (auto simp: sorted_wrt_append less_Suc_eq_le intro: le_SucI)

lemma inv_mount: "tt_inv s \<Longrightarrow> tt_inv (mount s)"
  by (simp add: tt_inv_def mount_def)

lemma inv_restyle: "tt_inv s \<Longrightarrow> tt_inv (s\<lparr>store := st\<rparr>)"
  by (simp add: tt_inv_def)

lemma inv_elapse:
  "tt_inv s \<Longrightarrow> list_all (\<lambda>u. t \<le> due u) (queue s) \<Longrightarrow> tt_inv (s\<lparr>now := t\<rparr>)"
  by (auto simp: tt_inv_def list_all_iff)

lemma queue_fold_clear:
  "queue (fold clear_timeout hs s) = filter (\<lambda>u. handle u \<notin> set hs) (queue s)"
  by (induction hs arbitrary: s) (simp_all add: clear_timeout_def filter_filter conj_commute)

lemma fold_clear_other:
  "ripples (fold clear_timeout hs s) = ripples s \<and> seq (fold clear_timeout hs s) = seq s \<and>
   live (fold clear_timeout hs s) = live s \<and> next_handle (fold clear_timeout hs s) = next_handle s \<and>
   now (fold clear_timeout hs s) = now s \<and> store (fold clear_timeout hs s) = store s \<and>
   mounted (fold clear_timeout hs s) = mounted s"
  by (induction hs arbitrary: s) (simp_all add: clear_timeout_def)

lemma inv_unmount:
  assumes "tt_inv s" and "live s"
  shows "tt_inv (unmount s)"
proof -
  have "filter (\<lambda>u. handle u \<notin> set (timers s)) (queue s) = []"
    using assms by (auto simp: tt_inv_def filter_empty_conv)
  with assms show ?thesis
    by (simp add: unmount_def tt_inv_def queue_fold_clear fold_clear_other)
qed

lemma inv_fire:
  assumes inv: "tt_inv s" and f: "fire s = Some s'"
  shows "tt_inv s'"
proof -
  obtain t where tin: "t \<in> set (queue s)" and tmin: "\<forall>u\<in>set (queue s). due t \<le> due u"
    and dist: "distinct (map handle (queue s))"
    and s': "s' = run_callback (cb t) (s\<lparr>queue := remove1 t (queue s), now := max (now s) (due t)\<rparr>)"
    using fire_Some_run [OF inv f] by blast
  from inv tin have live: "live s" by (auto simp: tt_inv_def)
  have rm: "remove1 t (queue s) = filter (\<lambda>u. handle u \<noteq> handle t) (queue s)"
    using filter_key_remove1 [OF dist tin] by simp
  have keys: "mset (map rkey (ripples s)) = mset (cb_keys (cb t)) + pending_keys (remove1 t (queue s))"
    using inv live tin by (simp add: tt_inv_def pending_keys_remove1)
  have rest: "distinct (map handle (remove1 t (queue s)))"
    "\<forall>u\<in>set (remove1 t (queue s)). handle u < next_handle s \<and> max (now s) (due t) \<le> due u"
    "handle ` set (remove1 t (queue s)) \<subseteq> set (timers s)"
    using inv live tmin unfolding rm tt_inv_def by (auto simp: distinct_map_filter)
  show ?thesis
  proof (cases "cb t")
    case (Flip a n c)
    from inv have "sorted_wrt (<) (map rid (ripples s)) \<and> (\<forall>r\<in>set (ripples s). rid r \<le> seq s)"
      by (simp add: tt_inv_def)
    with rest keys live show ?thesis
      unfolding s' Flip run_Flip_eq tt_inv_def
      by (auto simp: sorted_wrt_append less_Suc_eq_le intro: le_SucI)
  next
    case (Cleanup a b)
    from inv have sw: "sorted_wrt (<) (map rid (ripples s))" and le: "\<forall>r\<in>set (ripples s). rid r \<le> seq s"
      by (simp_all add: tt_inv_def)
    then have "distinct (map rid (ripples s))" by (simp add: strict_sorted_iff)
    from mset_rkey_filter_pair [OF this] keys Cleanup
    have "mset (map rkey (filter (\<lambda>r. rid r \<noteq> a \<and> rid r \<noteq> b) (ripples s))) =
          pending_keys (remove1 t (queue s))" by (simp add: add_mset_commute)
    with rest live sw le show ?thesis
      unfolding s' Cleanup tt_inv_def
      by (auto simp: queue_simps)
  qed
qed

lemma reach_inv: "reach s \<Longrightarrow> tt_inv s"
proof (induction rule: reach.induct)
  case init
  then show ?case by (rule inv_init)
next
  case (step s e s')
  from step.hyps(2) step.IH show ?case
    by (induction rule: tt_step.induct)
       (auto intro: inv_onClick inv_fire inv_mount inv_unmount inv_elapse inv_restyle)
qed

lemma page_step_iff: "page_step e s = Some s' \<longleftrightarrow> tt_step s e s'"
proof
  assume "page_step e s = Some s'"
  then show "tt_step s e s'"
    by (cases e) (auto intro: tt_step.intros split: if_splits)
next
  assume "tt_step s e s'"
  then show "page_step e s = Some s'"
    by (induction rule: tt_step.induct) auto
qed

lemma reach_run_events: "reach s \<Longrightarrow> run_events es s = Some s' \<Longrightarrow> reach s'"
proof (induction es arbitrary: s)
  case Nil
  then show ?case by simp
next
  case (Cons e es)
  then obtain s1 where s1: "page_step e s = Some s1" and rest: "run_events es s1 = Some s'"
    by (auto split: option.splits)
  from s1 have "tt_step s e s1" by (simp add: page_step_iff)
  with Cons.prems(1) have "reach s1" by (rule reach.step)
  then show ?case using rest by (rule Cons.IH)
qed


lemma corner_ripple_fields [simp]:
  "color (corner_ripple i p c) = c" "cx (corner_ripple i p c) = ''100%''" "cy (corner_ripple i p c) = ''0%''"
  by (simp_all add: corner_ripple_def)

lemma ripple_inv_step:
  assumes "tt_inv s" and "ripple_inv s" and "tt_step s e s'"
  shows "ripple_inv s'"
  using assms(3,1,2)
proof (induction rule: tt_step.induct)
  case (click s)
  then show ?case
    unfolding onClick_eq ripple_inv_def tt_inv_def
    by (auto intro: le_SucI dest: le_imp_less_Suc [THEN less_imp_neq])
next
  case (timeout s s')
  obtain t where tin: "t \<in> set (queue s)" and tmin: "\<forall>u\<in>set (queue s). due t \<le> due u"
    and dist: "distinct (map handle (queue s))"
    and s': "s' = run_callback (cb t) (s\<lparr>queue := remove1 t (queue s), now := max (now s) (due t)\<rparr>)"
    using fire_Some_run [OF timeout.prems(1) timeout.hyps] by blast
  have sub: "set (remove1 t (queue s)) \<subseteq> set (queue s)" by (rule set_remove1_subset)
  show ?case
  proof (cases "cb t")
    case (Flip a n c)
    with timeout.prems(2) sub show ?thesis
      unfolding s' Flip run_Flip_eq ripple_inv_def
      by (fastforce intro: le_SucI)
  next
    case (Cleanup a b)
    with timeout.prems(2) sub show ?thesis
      unfolding s' Cleanup ripple_inv_def by fastforce
  qed
next
  case (teardown s)
  then show ?case
    by (simp add: unmount_def ripple_inv_def queue_fold_clear fold_clear_other)
       (meson filter_is_subset subsetD)
qed (auto simp: ripple_inv_def mount_def)

lemma reach_ripple_inv: "reach s \<Longrightarrow> ripple_inv s"
proof (induction rule: reach.induct)
  case init
  then show ?case by (simp add: ripple_inv_def init_state_def)
next
  case (step s e s')
  then show ?case using reach_inv ripple_inv_step by blast
qed

lemma quiescent_ripples: "tt_inv s \<Longrightarrow> live s \<Longrightarrow> queue s = [] \<Longrightarrow> ripples s = []"
  by (simp add: tt_inv_def)

lemma weight_remove1: "t \<in> set q \<Longrightarrow> weight q = cb_weight (cb t) + weight (remove1 t q)"
  unfolding weight_def by (rule sum_list_map_remove1)

lemma weight_zero: "weight q = 0 \<longleftrightarrow> q = []"
proof -
  have "cb_weight c > 0" for c by (cases c) simp_all
  then show ?thesis by (induction q) (simp_all add: weight_def)
qed

lemma fire_weight:
  assumes "tt_inv s" and "fire s = Some s'"
  shows "Suc (weight (queue s')) = weight (queue s) \<and> live s' = live s"
proof -
  obtain t where tin: "t \<in> set (queue s)" and tmin: "\<forall>u\<in>set (queue s). due t \<le> due u"
    and dist: "distinct (map handle (queue s))"
    and s': "s' = run_callback (cb t) (s\<lparr>queue := remove1 t (queue s), now := max (now s) (due t)\<rparr>)"
    using fire_Some_run [OF assms] by blast
  show ?thesis
    using weight_remove1 [OF tin] unfolding s'
    by (cases "cb t") (simp_all add: run_Flip_eq weight_def)
qed

lemma drain_enough:
  "reach s \<Longrightarrow> weight (queue s) = n \<Longrightarrow>
   \<exists>s'. drain n s = Some s' \<and> reach s' \<and> queue s' = [] \<and> live s' = live s"
proof (induction n arbitrary: s)
  case 0
  then show ?case by (simp add: weight_zero)
next
  case (Suc n)
  then have "queue s \<noteq> []" by (auto simp: weight_def)
  then obtain s1 where f: "fire s = Some s1"
    by (cases "fire s") auto
  from Suc.prems(1) have inv: "tt_inv s" by (rule reach_inv)
  from fire_weight [OF inv f] Suc.prems(2) have w: "weight (queue s1) = n" and l: "live s1 = live s"
    by simp_all
  from Suc.prems(1) f have "reach s1" by (blast intro: reach.step tt_step.timeout)
  from Suc.IH [OF this w] f l show ?case by simp
qed

lemma reach_demo_run:
  "run_events es demo_start = Some (demo_run es) \<Longrightarrow> reach (demo_run es)"
  by (rule reach_run_events [OF reach.init])


subsection \<open>Properties of the controller\<close>

lemma size_pending_keys:
  "size (pending_keys q) = length (filter (\<lambda>t. is_flip (cb t)) q) + 2 * length (filter (\<lambda>t. \<not> is_flip (cb t)) q)"
  by (induction q rule: rev_induct) (auto simp: pending_keys_def elim: is_flip.elims)

text \<open>
  C1. The theme flag changes only under a cover: whenever a timeout changes the stored
  theme, it sets it to some theme \<open>n\<close>, a cover ripple in \<open>n\<close>'s page colour was on
  screen just before, and a reveal ripple in that colour is on screen right after.
\<close>

theorem flip_under_cover:
  assumes "reach s" and "tt_step s Timeout s'" and "store s' \<noteq> store s"
  shows "\<exists>n. store s' = setTheme (theme_str n) (store s) \<and>
             (\<exists>r\<in>set (ripples s). phase r = Cover \<and> color r = PAGE_COLOR n) \<and>
             (\<exists>r\<in>set (ripples s'). phase r = Reveal \<and> color r = PAGE_COLOR n)"
proof -
  have inv: "tt_inv s" and rinv: "ripple_inv s"
    using assms(1) by (rule reach_inv, rule reach_ripple_inv)
  from assms(2) have f: "fire s = Some s'" by (cases rule: tt_stepE) auto
  obtain t where tin: "t \<in> set (queue s)" and tmin: "\<forall>u\<in>set (queue s). due t \<le> due u"
    and dist: "distinct (map handle (queue s))"
    and s': "s' = run_callback (cb t) (s\<lparr>queue := remove1 t (queue s), now := max (now s) (due t)\<rparr>)"
    using fire_Some_run [OF inv f] by blast
  from inv tin have live: "live s" by (auto simp: tt_inv_def)
  show ?thesis
  proof (cases "cb t")
    case (Flip a n c)
    have keys: "mset (map rkey (ripples s)) = {#(a, Cover)#} + pending_keys (remove1 t (queue s))"
      using inv live tin Flip by (simp add: tt_inv_def pending_keys_remove1)
    then have "(a, Cover) \<in># mset (map rkey (ripples s))" by simp
    then obtain r where r: "r \<in> set (ripples s)" "rid r = a" "phase r = Cover"
      by (auto simp: rkey_def)
    from rinv tin Flip r have "color r = PAGE_COLOR n" and c: "c = PAGE_COLOR n"
      by (auto simp: ripple_inv_def)
    with r have "\<exists>r\<in>set (ripples s). phase r = Cover \<and> color r = PAGE_COLOR n" by blast
    moreover have "store s' = setTheme (theme_str n) (store s)"
      and "\<exists>r\<in>set (ripples s'). phase r = Reveal \<and> color r = PAGE_COLOR n"
      using c unfolding s' Flip run_Flip_eq by auto
    ultimately show ?thesis by blast
  next
    case (Cleanup a b)
    with assms(3) show ?thesis unfolding s' by simp
  qed
qed

theorem flip_under_cover_witness:
  "reach (demo_run [MountEffect, Click]) \<and>
   tt_step (demo_run [MountEffect, Click]) Timeout (demo_run [MountEffect, Click, Timeout]) \<and>
   store (demo_run [MountEffect, Click, Timeout]) \<noteq> store (demo_run [MountEffect, Click]) \<and>
   (\<exists>n. store (demo_run [MountEffect, Click, Timeout]) = setTheme (theme_str n) (store (demo_run [MountEffect, Click])) \<and>
        (\<exists>r\<in>set (ripples (demo_run [MountEffect, Click])). phase r = Cover \<and> color r = PAGE_COLOR n) \<and>
        (\<exists>r\<in>set (ripples (demo_run [MountEffect, Click, Timeout])). phase r = Reveal \<and> color r = PAGE_COLOR n))"
proof -
  have r: "reach (demo_run [MountEffect, Click])"
    by (rule reach_demo_run) code_simp
  have "page_step Timeout (demo_run [MountEffect, Click]) = Some (demo_run [MountEffect, Click, Timeout])"
    by code_simp
  then have st: "tt_step (demo_run [MountEffect, Click]) Timeout (demo_run [MountEffect, Click, Timeout])"
    by (rule page_step_iff [THEN iffD1])
  have ne: "store (demo_run [MountEffect, Click, Timeout]) \<noteq> store (demo_run [MountEffect, Click])"
    by code_simp
  from r st ne flip_under_cover [OF r st ne] show ?thesis by blast
qed

text \<open>
  C2. No stale ripples: in every reachable state of a mounted controller with no
  pending timeout, the ripple array is empty.
\<close>

theorem quiescent_no_stale:
  assumes "reach s" and "live s" and "queue s = []"
  shows "ripples s = []"
proof -
  from reach_inv [OF assms(1)] assms(2,3) have "mset (map rkey (ripples s)) = {#}"
    by (simp add: tt_inv_def)
  then show ?thesis by simp
qed

theorem quiescent_no_stale_witness:
  "reach (demo_run [MountEffect, Click, Timeout, Timeout]) \<and> live (demo_run [MountEffect, Click, Timeout, Timeout]) \<and>
   queue (demo_run [MountEffect, Click, Timeout, Timeout]) = [] \<and> ripples (demo_run [MountEffect, Click, Timeout, Timeout]) = []"
proof -
  have r: "reach (demo_run [MountEffect, Click, Timeout, Timeout])"
    by (rule reach_demo_run) code_simp
  have l: "live (demo_run [MountEffect, Click, Timeout, Timeout])"
    and q: "queue (demo_run [MountEffect, Click, Timeout, Timeout]) = []" by code_simp+
  from r l q quiescent_no_stale [OF r l q] show ?thesis by simp
qed

text \<open>
  C3. One activation, from a quiet state, runs as the spec describes: the click adds one
  cover ripple and leaves the theme alone; \<open>BETWEEN_DELAY_MS\<close> later the theme is set
  to the target and a reveal ripple joins the cover; 60 ms after that both are gone and
  no timeout is pending.
\<close>

theorem single_activation_lifecycle:
  assumes "queue s = []" and "ripples s = []"
  shows "let nxt = next_theme (current (mounted s) (store s)); s1 = onClick s in
     map phase (ripples s1) = [Cover] \<and> store s1 = store s \<and>
     (\<exists>s2. fire s1 = Some s2 \<and> now s2 = now s + BETWEEN_DELAY_MS \<and>
        store s2 = setTheme (theme_str nxt) (store s) \<and> map phase (ripples s2) = [Cover, Reveal] \<and>
        (\<exists>s3. fire s2 = Some s3 \<and> now s3 = now s + BETWEEN_DELAY_MS + 60 \<and>
           ripples s3 = [] \<and> queue s3 = [] \<and> store s3 = store s2))"
  using assms by (simp add: Let_def onClick_eq fire_def run_Flip_eq BETWEEN_DELAY_MS_def)

theorem single_activation_lifecycle_witness:
  "queue demo_start = [] \<and> ripples demo_start = [] \<and>
   (let nxt = next_theme (current (mounted demo_start) (store demo_start)); s1 = onClick demo_start in
     map phase (ripples s1) = [Cover] \<and> store s1 = store demo_start \<and>
     (\<exists>s2. fire s1 = Some s2 \<and> now s2 = now demo_start + BETWEEN_DELAY_MS \<and>
        store s2 = setTheme (theme_str nxt) (store demo_start) \<and> map phase (ripples s2) = [Cover, Reveal] \<and>
        (\<exists>s3. fire s2 = Some s3 \<and> now s3 = now demo_start + BETWEEN_DELAY_MS + 60 \<and>
           ripples s3 = [] \<and> queue s3 = [] \<and> store s3 = store s2)))"
proof -
  have h: "queue demo_start = []" "ripples demo_start = []"
    by (simp_all add: init_state_def)
  from h single_activation_lifecycle [OF h] show ?thesis by blast
qed

text \<open>
  C4. Teardown is safe: once the controller is unmounted no timeout is pending, and no
  event but a change made by another party to the preference store alters the store or
  the ripples again.
\<close>

theorem teardown_safety:
  assumes "reach s" and "\<not> live s" and "tt_step s e s'" and "\<forall>st. e \<noteq> Restyle st"
  shows "queue s = [] \<and> store s' = store s \<and> ripples s' = ripples s \<and> \<not> live s'"
proof -
  from reach_inv [OF assms(1)] assms(2) have q: "queue s = []" by (simp add: tt_inv_def)
  from assms(3,2,4) q have "store s' = store s \<and> ripples s' = ripples s \<and> \<not> live s'"
    by (cases rule: tt_stepE) (auto simp: fire_def)
  with q show ?thesis by simp
qed

theorem teardown_safety_witness:
  "reach (demo_run [MountEffect, Click, Teardown]) \<and> \<not> live (demo_run [MountEffect, Click, Teardown]) \<and>
   tt_step (demo_run [MountEffect, Click, Teardown]) (Elapse 1000) (demo_run [MountEffect, Click, Teardown, Elapse 1000]) \<and>
   (\<forall>st. Elapse 1000 \<noteq> Restyle st) \<and>
   queue (demo_run [MountEffect, Click, Teardown]) = [] \<and>
   store (demo_run [MountEffect, Click, Teardown, Elapse 1000]) = store (demo_run [MountEffect, Click, Teardown]) \<and>
   ripples (demo_run [MountEffect, Click, Teardown, Elapse 1000]) = ripples (demo_run [MountEffect, Click, Teardown]) \<and>
   \<not> live (demo_run [MountEffect, Click, Teardown, Elapse 1000])"
proof -
  have r: "reach (demo_run [MountEffect, Click, Teardown])"
    by (rule reach_demo_run) code_simp
  have l: "\<not> live (demo_run [MountEffect, Click, Teardown])" by code_simp
  have "page_step (Elapse 1000) (demo_run [MountEffect, Click, Teardown]) =
        Some (demo_run [MountEffect, Click, Teardown, Elapse 1000])" by code_simp
  then have st: "tt_step (demo_run [MountEffect, Click, Teardown]) (Elapse 1000)
                   (demo_run [MountEffect, Click, Teardown, Elapse 1000])"
    by (rule page_step_iff [THEN iffD1])
  have e: "\<forall>st. Elapse 1000 \<noteq> Restyle st" by simp
  from r l st e teardown_safety [OF r l st e] show ?thesis by blast
qed

text \<open>
  C5. A cleanup removes its own pair and nothing else: when the cleanup of the pair
  \<open>(a, b)\<close> is pending, the ripple array holds the cover \<open>a\<close> and the reveal \<open>b\<close>,
  and running the cleanup removes exactly those two.
\<close>

theorem cleanup_removes_own_pair:
  assumes "reach s" and "live s" and "t \<in> set (queue s)" and "cb t = Cleanup a b"
  shows "{#(a, Cover), (b, Reveal)#} \<subseteq># mset (map rkey (ripples s)) \<and>
         mset (map rkey (ripples (run_callback (cb t) s))) =
           mset (map rkey (ripples s)) - {#(a, Cover), (b, Reveal)#}"
proof -
  from reach_inv [OF assms(1)] have inv: "tt_inv s" .
  with assms(2,3,4) have keys: "mset (map rkey (ripples s)) =
      {#(a, Cover), (b, Reveal)#} + pending_keys (remove1 t (queue s))"
    by (simp add: tt_inv_def pending_keys_remove1 add_mset_commute)
  from inv have "distinct (map rid (ripples s))"
    by (simp add: tt_inv_def strict_sorted_iff)
  from mset_rkey_filter_pair [OF this keys]
  have "mset (map rkey (filter (\<lambda>r. rid r \<noteq> a \<and> rid r \<noteq> b) (ripples s))) =
        pending_keys (remove1 t (queue s))" .
  with keys assms(4) show ?thesis by simp
qed

theorem cleanup_removes_own_pair_witness:
  "reach (demo_run [MountEffect, Click, Timeout]) \<and> live (demo_run [MountEffect, Click, Timeout]) \<and>
   \<lparr>handle = 2, due = 560, cb = Cleanup 1 2\<rparr> \<in> set (queue (demo_run [MountEffect, Click, Timeout])) \<and>
   {#(1, Cover), (2, Reveal)#} \<subseteq># mset (map rkey (ripples (demo_run [MountEffect, Click, Timeout]))) \<and>
   mset (map rkey (ripples (run_callback (Cleanup 1 2) (demo_run [MountEffect, Click, Timeout])))) =
     mset (map rkey (ripples (demo_run [MountEffect, Click, Timeout]))) - {#(1, Cover), (2, Reveal)#}"
proof -
  have r: "reach (demo_run [MountEffect, Click, Timeout])"
    by (rule reach_demo_run) code_simp
  have l: "live (demo_run [MountEffect, Click, Timeout])"
    and t: "\<lparr>handle = 2, due = 560, cb = Cleanup 1 2\<rparr> \<in> set (queue (demo_run [MountEffect, Click, Timeout]))"
    by code_simp+
  have c: "cb \<lparr>handle = 2, due = 560, cb = Cleanup 1 2\<rparr> = Cleanup 1 2" by simp
  from r l t cleanup_removes_own_pair [OF r l t c] show ?thesis by simp
qed

text \<open>
  C6. Ripple ids are unique and never exceed the sequence counter, so the pairs of two
  activations are id-disjoint however the activations overlap.
\<close>

theorem ripple_ids_distinct:
  assumes "reach s"
  shows "distinct (map rid (ripples s)) \<and> (\<forall>r\<in>set (ripples s). rid r \<le> seq s)"
  using reach_inv [OF assms] by (simp add: tt_inv_def strict_sorted_iff)

theorem ripple_ids_distinct_witness:
  "reach (demo_run [MountEffect, Click, Click, Timeout]) \<and>
   distinct (map rid (ripples (demo_run [MountEffect, Click, Click, Timeout]))) \<and>
   list_all (\<lambda>r. rid r \<le> seq (demo_run [MountEffect, Click, Click, Timeout]))
     (ripples (demo_run [MountEffect, Click, Click, Timeout]))"
proof -
  have r: "reach (demo_run [MountEffect, Click, Click, Timeout])"
    by (rule reach_demo_run) code_simp
  from r ripple_ids_distinct [OF r] show ?thesis by (simp add: list_all_iff)
qed

text \<open>
  C7. Every pending timeout eventually runs: from any reachable state, the event loop
  empties the timeout queue within \<open>weight\<close> firings (two per pending flip, one per
  pending cleanup), and a mounted controller is then left with no ripple.
\<close>

theorem drain_completes:
  assumes "reach s"
  shows "\<exists>s'. drain (weight (queue s)) s = Some s' \<and> queue s' = [] \<and> (live s \<longrightarrow> ripples s' = [])"
proof -
  obtain s' where d: "drain (weight (queue s)) s = Some s'" and r: "reach s'"
    and q: "queue s' = []" and l: "live s' = live s"
    using drain_enough [OF assms refl] by blast
  have "live s \<longrightarrow> ripples s' = []"
    using quiescent_ripples [OF reach_inv [OF r]] q l by simp
  with d q show ?thesis by blast
qed

theorem drain_completes_witness:
  "reach (demo_run [MountEffect, Click, Click]) \<and>
   (\<exists>s'. drain (weight (queue (demo_run [MountEffect, Click, Click]))) (demo_run [MountEffect, Click, Click]) = Some s' \<and>
        queue s' = [] \<and> (live (demo_run [MountEffect, Click, Click]) \<longrightarrow> ripples s' = []))"
proof -
  have r: "reach (demo_run [MountEffect, Click, Click])"
    by (rule reach_demo_run) code_simp
  from r drain_completes [OF r] show ?thesis by blast
qed

text \<open>
  C8. The number of ripples on screen is fixed by the pending timeouts: one per pending
  flip and two per pending cleanup; it is 0, 1 or 2 for a single activation.
\<close>

theorem ripple_count:
  assumes "reach s" and "live s"
  shows "length (ripples s) =
         length (filter (\<lambda>t. is_flip (cb t)) (queue s)) + 2 * length (filter (\<lambda>t. \<not> is_flip (cb t)) (queue s))"
proof -
  from reach_inv [OF assms(1)] assms(2) have "mset (map rkey (ripples s)) = pending_keys (queue s)"
    by (simp add: tt_inv_def)
  then have "size (mset (map rkey (ripples s))) = size (pending_keys (queue s))" by simp
  then show ?thesis by (simp add: size_pending_keys)
qed

theorem ripple_count_witness:
  "reach (demo_run [MountEffect, Click, Timeout, Click]) \<and> live (demo_run [MountEffect, Click, Timeout, Click]) \<and>
   length (ripples (demo_run [MountEffect, Click, Timeout, Click])) =
     length (filter (\<lambda>t. is_flip (cb t)) (queue (demo_run [MountEffect, Click, Timeout, Click]))) +
     2 * length (filter (\<lambda>t. \<not> is_flip (cb t)) (queue (demo_run [MountEffect, Click, Timeout, Click])))"
proof -
  have r: "reach (demo_run [MountEffect, Click, Timeout, Click])"
    by (rule reach_demo_run) code_simp
  have l: "live (demo_run [MountEffect, Click, Timeout, Click])" by code_simp
  from r l ripple_count [OF r l] show ?thesis by blast
qed

text \<open>
  The first render is deterministic: before the mount effect has run, the button is
  labelled \<open>Switch theme\<close> and shows the white placeholder dot, whatever the store holds.
\<close>

theorem button_before_mount:
  "toggle_button False st = \<lparr>aria_label = ''Switch theme'', dot = White, button_z = 50\<rparr>"
  by (simp add: toggle_button_def)

text \<open>
  C10. After mount the button previews the target: it offers the dark theme exactly when
  \<open>resolvedTheme ?? theme\<close> is \<open>"light"\<close>, and the light theme otherwise.
\<close>

theorem button_target_preview:
  "toggle_button True st =
     (if js_nullish (resolvedTheme st) (theme st) = Some ''light''
      then \<lparr>aria_label = ''Switch to dark theme'', dot = Black, button_z = 50\<rparr>
      else \<lparr>aria_label = ''Switch to light theme'', dot = White, button_z = 50\<rparr>)"
  by (simp add: toggle_button_def current_def next_theme_def targetDot_def theme_str_def)


text \<open>
  C12. Once the cover animation has run its course it covers the whole viewport, whatever
  its aspect ratio: \<open>150vmax\<close> exceeds the diagonal from the top-right corner.
\<close>

theorem cover_complete_covers_viewport:
  assumes "0 \<le> x" "x \<le> w" "0 \<le> y" "y \<le> h" and "COVER_DURATION * 1000 \<le> t"
  shows "cover_covers w h t (x, y)"
proof -
  let ?M = "max w h"
  have t: "max 0 t / (COVER_DURATION * 1000) \<ge> 1"
    using assms(5) by (simp add: COVER_DURATION_def)
  then have r: "cover_radius w h t = 3 / 2 * ?M"
    by (simp add: cover_radius_def)
  have "(x - w)\<^sup>2 = (w - x)\<^sup>2" by (rule power2_commute)
  also have "\<dots> \<le> ?M\<^sup>2"
    using assms(1,2) by (intro power_mono) auto
  finally have "(x - w)\<^sup>2 \<le> ?M\<^sup>2" .
  moreover have "y\<^sup>2 \<le> ?M\<^sup>2"
    using assms(3,4) by (intro power_mono) auto
  moreover have "2 * ?M\<^sup>2 \<le> (3 / 2 * ?M)\<^sup>2"
    by (simp add: power2_eq_square)
  ultimately show ?thesis
    by (simp add: cover_covers_def r)
qed

theorem cover_complete_covers_viewport_witness:
  "(0::real) \<le> 0 \<and> (0::real) \<le> 160 \<and> (0::real) \<le> 90 \<and> (90::real) \<le> 90 \<and>
   COVER_DURATION * 1000 \<le> 650 \<and> cover_covers 160 90 650 (0, 90)"
proof -
  have d: "COVER_DURATION * 1000 \<le> (650::real)" by (simp add: COVER_DURATION_def)
  have h: "(0::real) \<le> 0" "(0::real) \<le> 160" "(0::real) \<le> 90" "(90::real) \<le> 90" by simp_all
  from h d cover_complete_covers_viewport [OF h d] show ?thesis by simp
qed



text \<open>
  C14. A click before the mount effect has run always targets the light theme, whatever
  the stored preference, because \<open>current\<close> reads \<open>dark\<close> until mount.
\<close>

theorem click_before_mount_targets_light:
  assumes "\<not> mounted s"
  shows "queue (onClick s) =
           queue s @ [\<lparr>handle = next_handle s, due = now s + 500, cb = Flip (Suc (seq s)) Light ''#ffffff''\<rparr>]"
  using assms by (simp add: onClick_eq current_def next_theme_def PAGE_COLOR_def)

theorem click_before_mount_targets_light_witness:
  "\<not> mounted demo_start \<and>
   queue (onClick demo_start) =
     queue demo_start @ [\<lparr>handle = next_handle demo_start, due = now demo_start + 500,
                          cb = Flip (Suc (seq demo_start)) Light ''#ffffff''\<rparr>]"
proof -
  have h: "\<not> mounted demo_start" by (simp add: init_state_def)
  from h click_before_mount_targets_light [OF h] show ?thesis by blast
qed


text \<open>
  C16. The placeholder is not neutral: the dot shown before mount is the dot that, after
  mount, means "switch to light", and differs from the dot shown on a light page.
\<close>

theorem placeholder_is_light_target:
  "dot (toggle_button False st) = dot (toggle_button True st') \<longleftrightarrow> current True st' = Dark"
  by (cases "current True st'")
     (simp_all add: toggle_button_def next_theme_def targetDot_def)

text \<open>
  C17. Every overlay on screen sits below the button (z 40 against 50), starts as an
  empty circle at the top-right corner, grows to \<open>150vmax\<close> and starts opaque.
\<close>

theorem overlays_under_button:
  assumes "reach s" and "ov \<in> set (render_overlays s)"
  shows "overlay_z ov < button_z (toggle_button m st) \<and>
         clip_from ov = ''circle(0px at 100% 0%)'' \<and> clip_to ov = ''circle(150vmax at 100% 0%)'' \<and>
         opacity_from ov = 1"
proof -
  from assms(2) obtain r where r: "r \<in> set (ripples s)" and ov: "ov = overlay_of r"
    by (auto simp: render_overlays_def)
  from reach_ripple_inv [OF assms(1)] r have "cx r = ''100%''" and "cy r = ''0%''"
    by (auto simp: ripple_inv_def)
  then show ?thesis
    unfolding ov by (simp add: overlay_of_def clip_circle_def toggle_button_def Let_def)
qed

theorem overlays_under_button_witness:
  "reach (demo_run [MountEffect, Click]) \<and>
   overlay_of (corner_ripple 1 Cover ''#ffffff'') \<in> set (render_overlays (demo_run [MountEffect, Click])) \<and>
   overlay_z (overlay_of (corner_ripple 1 Cover ''#ffffff'')) < button_z (toggle_button True demo_store) \<and>
   clip_from (overlay_of (corner_ripple 1 Cover ''#ffffff'')) = ''circle(0px at 100% 0%)'' \<and>
   clip_to (overlay_of (corner_ripple 1 Cover ''#ffffff'')) = ''circle(150vmax at 100% 0%)'' \<and>
   opacity_from (overlay_of (corner_ripple 1 Cover ''#ffffff'')) = 1"
proof -
  have r: "reach (demo_run [MountEffect, Click])"
    by (rule reach_demo_run) code_simp
  have o: "overlay_of (corner_ripple 1 Cover ''#ffffff'') \<in> set (render_overlays (demo_run [MountEffect, Click]))"
    by code_simp
  from r o overlays_under_button [OF r o] show ?thesis by blast
qed

text \<open>
  C18. The \<open>timers\<close> ref keeps the handles of timeouts that have already fired: a
  complete activation leaves it two entries longer, though nothing is pending.
\<close>

theorem activation_keeps_fired_handles:
  assumes "queue s = []" and "ripples s = []"
  shows "\<exists>s'. drain 2 (onClick s) = Some s' \<and> queue s' = [] \<and>
             timers s' = timers s @ [next_handle s, Suc (next_handle s)]"
  using assms by (simp add: onClick_eq fire_def numeral_eq_Suc)

theorem activation_keeps_fired_handles_witness:
  "queue (mount demo_start) = [] \<and> ripples (mount demo_start) = [] \<and>
   (\<exists>s'. drain 2 (onClick (mount demo_start)) = Some s' \<and> queue s' = [] \<and>
        timers s' = timers (mount demo_start) @ [next_handle (mount demo_start), Suc (next_handle (mount demo_start))])"
proof -
  have h: "queue (mount demo_start) = []" "ripples (mount demo_start) = []"
    by (simp_all add: mount_def init_state_def)
  from h activation_keeps_fired_handles [OF h] show ?thesis by blast
qed

end
