(* ===== verification/Toggle_Loop.thy ===== *)
theory Toggle_Loop
  imports Theme_Toggle "HOL-Library.While_Combinator"
begin


subsection \<open>Unfolding the loop\<close>




subsection \<open>Termination\<close>



end
