(* ===== verification/Brand.thy ===== *)
theory Brand
  imports Prelude
begin

text \<open>
  The brand variant of \<open>src/src/lib/brandVariant.ts\<close> and its two clients, the favicon
  of \<open>src/src/components/RandomFavicon.tsx\<close> and the corner tile of
  \<open>src/src/components/BrandCorner.tsx\<close>.  The browser state they share is the window
  slot \<open>window.__brandVariant\<close> and the \<open>data-brand-variant\<close> attribute; the window is
  \<open>None\<close> on the server.  \<open>Math.random()\<close> is an argument, a real number.  The favicon
  builds an SVG string, percent-encodes it into a \<open>data:\<close> URL and replaces the
  icon links of the document head, modelled as a list of nodes.
\<close>

subsection \<open>The variant and its memoised pick\<close>

datatype variant = Blue | Ink | Banana | White

definition variant_str :: "variant \<Rightarrow> jstring" where
  "variant_str v = (case v of Blue \<Rightarrow> ''blue'' | Ink \<Rightarrow> ''ink'' | Banana \<Rightarrow> ''banana'' | White \<Rightarrow> ''white'')"

record window =
  brand_slot :: "variant option"
  dataset_brand :: "jstring option"

definition pool :: "variant list" where
  "pool = [Blue, Ink, Banana, White]"

text \<open>
  A JavaScript value assigned to a \<open>dataset\<close> entry is converted to a string, so an
  \<open>undefined\<close> pick would be stored as \<open>"undefined"\<close>.
\<close>

definition pickBrandVariant :: "real \<Rightarrow> window option \<Rightarrow> variant option \<times> window option" where
  "pickBrandVariant rnd w =
     (case w of
        None \<Rightarrow> (Some Blue, None)
      | Some win \<Rightarrow>
          (case brand_slot win of
             Some v \<Rightarrow> (Some v, Some win)
           | None \<Rightarrow>
               (let picked = js_index pool \<lfloor>rnd * real (length pool)\<rfloor>
                in (picked, Some (win\<lparr>brand_slot := picked,
                     dataset_brand := Some (case picked of None \<Rightarrow> ''undefined'' | Some v \<Rightarrow> variant_str v)\<rparr>)))))"

text \<open>
  The types the code declares for this state: \<open>window.__brandVariant?: Variant\<close>, and
  the \<open>data-brand-variant\<close> attribute, which the code writes only together with the
  slot.  A window conforms when its attribute is the literal of the variant in its slot,
  and both are absent otherwise; \<open>variant_of_str\<close> reads a literal back as a
  \<open>Variant\<close>.
\<close>

definition variant_of_str :: "jstring \<Rightarrow> variant option" where
  "variant_of_str x = find (\<lambda>v. variant_str v = x) pool"

definition window_conforms :: "window \<Rightarrow> bool" where
  "window_conforms w \<longleftrightarrow>
     (case brand_slot w of None \<Rightarrow> dataset_brand w = None | Some v \<Rightarrow> dataset_brand w = Some (variant_str v))"

subsection \<open>Colours\<close>

text \<open>\<open>getComputedStyle(...).getPropertyValue(name)\<close>: the empty string when unset.\<close>

type_synonym css_env = "jstring \<Rightarrow> jstring"

definition favicon_cssVar :: "css_env \<Rightarrow> jstring \<Rightarrow> jstring \<Rightarrow> jstring" where
  "favicon_cssVar env name fallback = js_or (js_trim (env name)) fallback"

definition corner_cssVar :: "css_env option \<Rightarrow> jstring \<Rightarrow> jstring \<Rightarrow> jstring" where
  "corner_cssVar env name fallback =
     (case env of None \<Rightarrow> fallback | Some e \<Rightarrow> js_or (js_trim (e name)) fallback)"

definition favicon_colours :: "css_env \<Rightarrow> variant \<Rightarrow> jstring \<times> jstring" where
  "favicon_colours env v =
     (let BLUE = favicon_cssVar env ''--pill-blue'' ''#2f2fff'';
          INK = favicon_cssVar env ''--pill-ink'' ''#141414'';
          BANANA = favicon_cssVar env ''--pill-banana'' ''#ffd84d'';
          WHITE = favicon_cssVar env ''--card-white'' ''#f7f7fb''
      in case v of Blue \<Rightarrow> (BLUE, WHITE) | Ink \<Rightarrow> (INK, WHITE)
                 | Banana \<Rightarrow> (BANANA, INK) | White \<Rightarrow> (WHITE, BLUE))"

record tile_style =
  bg :: jstring
  fg :: jstring
  border :: jstring

definition corner_style :: "css_env option \<Rightarrow> variant \<Rightarrow> tile_style" where
  "corner_style env v =
     (let BLUE = corner_cssVar env ''--pill-blue'' ''#2f2fff'';
          INK = corner_cssVar env ''--pill-ink'' ''#141414'';
          BANANA = corner_cssVar env ''--pill-banana'' ''#ffd84d'';
          WHITE = corner_cssVar env ''--card-white'' ''#f7f7fb''
      in case v of
           Blue \<Rightarrow> \<lparr>bg = BLUE, fg = WHITE, border = ''rgba(255,255,255,.10)''\<rparr>
         | Ink \<Rightarrow> \<lparr>bg = INK, fg = WHITE, border = ''rgba(255,255,255,.10)''\<rparr>
         | Banana \<Rightarrow> \<lparr>bg = BANANA, fg = INK, border = ''rgba(0,0,0,.14)''\<rparr>
         | White \<Rightarrow> \<lparr>bg = WHITE, fg = BLUE, border = ''rgba(0,0,0,.12)''\<rparr>)"

subsection \<open>The favicon\<close>

abbreviation nl :: jstring where
  "nl \<equiv> [CHR 0x0A]"

definition buildSVG :: "css_env \<Rightarrow> variant \<Rightarrow> jstring" where
  \<open>buildSVG env v =
     (let (bg, fg) = favicon_colours env v
      in nl @ ''<svg xmlns="http://www.w3.org/2000/svg" viewBox="0 0 256 256">'' @ nl @
         ''  <rect width="256" height="256" rx="36" fill="'' @ bg @ ''"/>'' @ nl @
         ''  <text x="22" y="204"'' @ nl @
         ''    font-family="ui-sans-serif, system-ui, -apple-system, Segoe UI, Roboto, Helvetica, Arial"'' @ nl @
         ''    font-weight="900" font-size="168" letter-spacing="-6"'' @ nl @
         ''    fill="'' @ fg @ ''" dominant-baseline="alphabetic">.ap</text>'' @ nl @
         ''</svg>'')\<close>

text \<open>
  \<open>encodeURIComponent\<close>: the unreserved characters stay, every other byte of the UTF-8
  text becomes \<open>%XX\<close> with upper-case hexadecimal digits.
\<close>

definition uri_unreserved :: "char \<Rightarrow> bool" where
  "uri_unreserved c \<longleftrightarrow>
     (let n = of_char c :: nat
      in (48 \<le> n \<and> n \<le> 57) \<or> (65 \<le> n \<and> n \<le> 90) \<or> (97 \<le> n \<and> n \<le> 122) \<or>
         c \<in> set (''-_.!~*'' @ [CHR 0x27] @ ''()''))"

definition hex_digit :: "nat \<Rightarrow> char" where
  "hex_digit n = ''0123456789ABCDEF'' ! n"

definition percent_byte :: "char \<Rightarrow> jstring" where
  "percent_byte c = [CHR ''%'', hex_digit (of_char c div 16), hex_digit (of_char c mod 16)]"

definition encodeURIComponent :: "jstring \<Rightarrow> jstring" where
  "encodeURIComponent s = concat (map (\<lambda>c. if uri_unreserved c then [c] else percent_byte c) s)"

definition svg_data_url :: "jstring \<Rightarrow> jstring" where
  "svg_data_url svg = ''data:image/svg+xml;utf8,'' @ encodeURIComponent svg"

text \<open>The document head: link elements and other nodes, in document order.\<close>

record link_el =
  rel :: jstring
  link_type :: "jstring option"
  href :: jstring

datatype head_node = LinkNode link_el | OtherNode jstring

text \<open>
  The selector of \<open>replaceAllIcons\<close>.  HTML compares \<open>rel\<close> values without regard to
  ASCII case, for \<open>=\<close> and for \<open>*=\<close> (substring) alike.
\<close>

definition icon_selector :: "link_el \<Rightarrow> bool" where
  "icon_selector l \<longleftrightarrow>
     (let r = js_lower (rel l)
      in r = ''icon'' \<or> r = ''shortcut icon'' \<or> sublist ''icon'' r \<or>
         r = ''apple-touch-icon'' \<or> r = ''mask-icon'')"

fun is_icon_node :: "head_node \<Rightarrow> bool" where
  "is_icon_node (LinkNode l) = icon_selector l"
| "is_icon_node (OtherNode x) = False"

text \<open>\<open>add(rel, type)\<close>, with the \<open>Date.now()\<close> it reads.\<close>

definition add_link :: "jstring \<Rightarrow> jstring option \<Rightarrow> jstring \<Rightarrow> nat \<Rightarrow> head_node list \<Rightarrow> head_node list" where
  "add_link r ty dataUrl stamp head =
     head @ [LinkNode \<lparr>rel = r, link_type = ty, href = dataUrl @ ''#'' @ show_nat stamp\<rparr>]"

definition replaceAllIcons :: "jstring \<Rightarrow> nat \<times> nat \<times> nat \<Rightarrow> head_node list \<Rightarrow> head_node list" where
  "replaceAllIcons dataUrl stamps head =
     (let (t1, t2, t3) = stamps;
          h0 = filter (\<lambda>n. \<not> is_icon_node n) head;
          h1 = add_link ''icon'' (Some ''image/svg+xml'') dataUrl t1 h0;
          h2 = add_link ''shortcut icon'' (Some ''image/svg+xml'') dataUrl t2 h1
      in add_link ''apple-touch-icon'' None dataUrl t3 h2)"

text \<open>
  \<open>run\<close>: pick, build, encode, replace.  Destructuring the colours of an \<open>undefined\<close>
  variant throws, which is \<open>None\<close> here.
\<close>

definition favicon_run ::
  "real \<Rightarrow> css_env \<Rightarrow> nat \<times> nat \<times> nat \<Rightarrow> window \<Rightarrow> head_node list \<Rightarrow> (window \<times> head_node list) option" where
  "favicon_run rnd env stamps win head =
     (case pickBrandVariant rnd (Some win) of
        (Some v, Some win') \<Rightarrow> Some (win', replaceAllIcons (svg_data_url (buildSVG env v)) stamps head)
      | _ \<Rightarrow> None)"

text \<open>
  What a browser renders for an icon link: the part of its \<open>href\<close> before the
  fragment, if it is an SVG \<open>data:\<close> URL, percent-decoded.
\<close>

definition data_url_body :: "jstring \<Rightarrow> jstring option" where
  "data_url_body u =
     (let base = takeWhile (\<lambda>c. c \<noteq> CHR ''#'') u; pre = ''data:image/svg+xml;utf8,''
      in if take (length pre) base = pre then percent_decode (drop (length pre) base) else None)"

fun node_svg :: "head_node \<Rightarrow> jstring option" where
  "node_svg (LinkNode l) = data_url_body (href l)"
| "node_svg (OtherNode x) = None"

subsection \<open>The brand corner\<close>

text \<open>
  The corner renders \<open>"blue"\<close> first, for a stable server render; its effect then sets
  the state to the pick.
\<close>

definition corner_initial :: "variant option" where
  "corner_initial = Some Blue"

definition corner_effect :: "real \<Rightarrow> window \<Rightarrow> variant option \<times> window" where
  "corner_effect rnd win =
     (case pickBrandVariant rnd (Some win) of (v, w') \<Rightarrow> (v, case w' of None \<Rightarrow> win | Some x \<Rightarrow> x))"

text \<open>
  The corner's render: a link home carrying the style of the current variant (the tile is
  \<open>relative\<close>, not fixed, so it scrolls with the page) and the \<open>.ap\<close> mark.
\<close>

record corner_view =
  corner_link :: jstring
  corner_aria :: jstring
  corner_class :: jstring
  corner_background :: jstring
  corner_color :: jstring
  corner_border :: jstring
  corner_mark :: jstring

definition BrandCorner_view :: "css_env option \<Rightarrow> variant \<Rightarrow> corner_view" where
  "BrandCorner_view env v =
     (let sty = corner_style env v
      in \<lparr>corner_link = ''/#header'', corner_aria = ''Home'',
          corner_class = ''left-4 top-4 z-50 select-none block h-12 w-12 md:h-12 md:w-12 rounded-2xl '' @
                         ''border shadow-lg theme-fade transition-transform hover:scale-[1.03] active:scale-[0.99] relative'',
          corner_background = bg sty, corner_color = fg sty, corner_border = border sty,
          corner_mark = ''.ap''\<rparr>)"

subsection \<open>Lemmas\<close>

lemma hex_roundtrip_all: "\<forall>k<16. hex_value (hex_digit k) = Some k"
  by code_simp

lemma hex_value_hex_digit: "k < 16 \<Longrightarrow> hex_value (hex_digit k) = Some k"
  using hex_roundtrip_all by blast

lemma hex_digit_in: "k < 16 \<Longrightarrow> hex_digit k \<in> set ''0123456789ABCDEF''"
  unfolding hex_digit_def by (rule nth_mem) simp

lemma percent_not_unreserved: "\<not> uri_unreserved CHR ''%''"
  by (simp add: uri_unreserved_def)

lemma percent_decode_byte:
  "percent_decode (percent_byte c @ rest) = map_option (Cons c) (percent_decode rest)"
proof -
  let ?n = "of_char c :: nat"
  have hi: "hex_value (hex_digit (?n div 16)) = Some (?n div 16)"
    using nat_of_char_less_256 [of c] by (intro hex_value_hex_digit) linarith
  have lo: "hex_value (hex_digit (?n mod 16)) = Some (?n mod 16)"
    by (intro hex_value_hex_digit) simp
  have "char_of (16 * (?n div 16) + ?n mod 16) = c"
    by simp
  with hi lo show ?thesis by (simp add: percent_byte_def)
qed

lemma hash_not_in_encoding: "CHR ''#'' \<notin> set (encodeURIComponent s)"
proof -
  have "CHR ''#'' \<notin> set (percent_byte c)" for c
  proof -
    have "of_char c div 16 < (16::nat)" using nat_of_char_less_256 [of c] by linarith
    then have "hex_digit (of_char c div 16) \<in> set ''0123456789ABCDEF''" by (rule hex_digit_in)
    moreover have "hex_digit (of_char c mod 16) \<in> set ''0123456789ABCDEF''" by (rule hex_digit_in) simp
    ultimately show ?thesis unfolding percent_byte_def by auto
  qed
  moreover have "\<not> uri_unreserved CHR ''#''" by (simp add: uri_unreserved_def)
  ultimately show ?thesis by (auto simp: encodeURIComponent_def split: if_splits)
qed

lemma percent_decode_encode: "percent_decode (encodeURIComponent s) = Some s"
proof (induction s)
  case Nil
  then show ?case by (simp add: encodeURIComponent_def)
next
  case (Cons c s)
  have enc: "encodeURIComponent (c # s) =
      (if uri_unreserved c then [c] else percent_byte c) @ encodeURIComponent s"
    by (simp add: encodeURIComponent_def)
  show ?case
  proof (cases "uri_unreserved c")
    case True
    then have "c \<noteq> CHR ''%''" using percent_not_unreserved by blast
    with True Cons.IH show ?thesis by (simp add: enc)
  next
    case False
    with Cons.IH show ?thesis by (simp add: enc percent_decode_byte)
  qed
qed

lemma data_url_body_fragment:
  "data_url_body (svg_data_url svg @ ''#'' @ x) = Some svg"
proof -
  have nohash: "\<forall>c\<in>set (svg_data_url svg). c \<noteq> CHR ''#''"
    using hash_not_in_encoding [of svg] by (auto simp: svg_data_url_def)
  then have "takeWhile (\<lambda>c. c \<noteq> CHR ''#'') (svg_data_url svg @ ''#'' @ x) = svg_data_url svg"
    by (simp add: takeWhile_append2)
  then show ?thesis
    by (simp add: data_url_body_def svg_data_url_def percent_decode_encode)
qed

lemma data_url_body_fragment':
  "data_url_body (svg_data_url svg @ CHR ''#'' # x) = Some svg"
  using data_url_body_fragment by simp

lemma new_links_are_icons:
  "icon_selector \<lparr>rel = ''icon'', link_type = ty, href = x\<rparr>"
  "icon_selector \<lparr>rel = ''shortcut icon'', link_type = ty, href = x\<rparr>"
  "icon_selector \<lparr>rel = ''apple-touch-icon'', link_type = ty, href = x\<rparr>"
  by (simp_all add: icon_selector_def js_lower_def)

lemma replace_icons_filter:
  "filter is_icon_node (replaceAllIcons u (t1, t2, t3) head) =
     [LinkNode \<lparr>rel = ''icon'', link_type = Some ''image/svg+xml'', href = u @ ''#'' @ show_nat t1\<rparr>,
      LinkNode \<lparr>rel = ''shortcut icon'', link_type = Some ''image/svg+xml'', href = u @ ''#'' @ show_nat t2\<rparr>,
      LinkNode \<lparr>rel = ''apple-touch-icon'', link_type = None, href = u @ ''#'' @ show_nat t3\<rparr>]"
  by (simp add: replaceAllIcons_def add_link_def new_links_are_icons)

lemma pick_slot:
  "pickBrandVariant r (Some win) = (Some v, w') \<Longrightarrow> \<exists>win'. w' = Some win' \<and> brand_slot win' = Some v"
  by (cases "brand_slot win") (auto simp del: js_index_Some_iff simp: pickBrandVariant_def Let_def)

lemma pick_defined:
  assumes "0 \<le> r" and "r < 1"
  shows "\<exists>v win'. pickBrandVariant r (Some win) = (Some v, Some win')"
proof (cases "brand_slot win")
  case None
  have "0 \<le> \<lfloor>r * 4\<rfloor>" and "\<lfloor>r * 4\<rfloor> < 4"
    using assms by (simp_all add: floor_less_iff)
  with None show ?thesis
    by (simp add: pickBrandVariant_def pool_def Let_def js_index_def)
next
  case (Some v)
  then show ?thesis by (simp add: pickBrandVariant_def)
qed

lemma pick_filled_slot [simp]:
  "brand_slot win = Some v \<Longrightarrow> pickBrandVariant r (Some win) = (Some v, Some win)"
  by (simp add: pickBrandVariant_def)

lemma favicon_run_Some:
  "favicon_run r env st win head = Some (win', head') \<Longrightarrow>
   \<exists>v. pickBrandVariant r (Some win) = (Some v, Some win') \<and>
        head' = replaceAllIcons (svg_data_url (buildSVG env v)) st head"
  unfolding favicon_run_def by (auto split: prod.splits option.splits)

lemma server_pick_is_first_render:
  "pickBrandVariant r None = (corner_initial, None)"
  by (simp add: pickBrandVariant_def corner_initial_def)

lemma variant_of_str_str [simp]: "variant_of_str (variant_str v) = Some v"
  by (cases v) (simp_all add: variant_of_str_def variant_str_def pool_def)

subsection \<open>Properties of the brand components\<close>

text \<open>
  C19. The favicon shows the page's variant: after \<open>run\<close>, the window slot holds a
  variant \<open>v\<close>, and each of the three icon links in the head renders exactly the SVG
  built for \<open>v\<close> (its \<open>data:\<close> URL, cut at the cache-busting fragment and
  percent-decoded, is that SVG).
\<close>

theorem favicon_installs_svg:
  assumes "favicon_run r env st win head = Some (win', head')"
  shows "\<exists>v. brand_slot win' = Some v \<and>
             map node_svg (filter is_icon_node head') = replicate 3 (Some (buildSVG env v))"
proof -
  obtain v where p: "pickBrandVariant r (Some win) = (Some v, Some win')"
    and h: "head' = replaceAllIcons (svg_data_url (buildSVG env v)) st head"
    using favicon_run_Some [OF assms] by blast
  obtain t1 t2 t3 where st: "st = (t1, t2, t3)" by (cases st) auto
  let ?u = "svg_data_url (buildSVG env v)"
  have f: "filter is_icon_node head' =
     [LinkNode \<lparr>rel = ''icon'', link_type = Some ''image/svg+xml'', href = ?u @ ''#'' @ show_nat t1\<rparr>,
      LinkNode \<lparr>rel = ''shortcut icon'', link_type = Some ''image/svg+xml'', href = ?u @ ''#'' @ show_nat t2\<rparr>,
      LinkNode \<lparr>rel = ''apple-touch-icon'', link_type = None, href = ?u @ ''#'' @ show_nat t3\<rparr>]"
    unfolding h st by (rule replace_icons_filter)
  have "map node_svg (filter is_icon_node head') = replicate 3 (Some (buildSVG env v))"
    unfolding f by (simp only: list.map node_svg.simps link_el.select_convs data_url_body_fragment
      numeral_3_eq_3 replicate.simps)
  moreover from pick_slot [OF p] have "brand_slot win' = Some v" by simp
  ultimately show ?thesis by blast
qed

theorem favicon_installs_svg_witness:
  "\<exists>w h. favicon_run (1 / 2) (\<lambda>_. []) (1, 2, 3) \<lparr>brand_slot = None, dataset_brand = None\<rparr> [] = Some (w, h) \<and>
     (\<exists>v. brand_slot w = Some v \<and> map node_svg (filter is_icon_node h) = replicate 3 (Some (buildSVG (\<lambda>_. []) v)))"
proof -
  obtain w h where r: "favicon_run (1 / 2) (\<lambda>_. []) (1, 2, 3) \<lparr>brand_slot = None, dataset_brand = None\<rparr> [] = Some (w, h)"
    using pick_defined [of "1 / 2" "\<lparr>brand_slot = None, dataset_brand = None\<rparr>"]
    by (auto simp: favicon_run_def)
  from r favicon_installs_svg [OF r] show ?thesis by blast
qed


text \<open>
  C21. \<open>replaceAllIcons\<close> leaves exactly its three icon links (icon, shortcut icon,
  apple-touch-icon, in that order, each with its own time stamp) and keeps every other
  node of the head in order; so repeated runs never accumulate icons.
\<close>

theorem replace_icons_exact:
  "filter is_icon_node (replaceAllIcons u (t1, t2, t3) head) =
     [LinkNode \<lparr>rel = ''icon'', link_type = Some ''image/svg+xml'', href = u @ ''#'' @ show_nat t1\<rparr>,
      LinkNode \<lparr>rel = ''shortcut icon'', link_type = Some ''image/svg+xml'', href = u @ ''#'' @ show_nat t2\<rparr>,
      LinkNode \<lparr>rel = ''apple-touch-icon'', link_type = None, href = u @ ''#'' @ show_nat t3\<rparr>] \<and>
   filter (\<lambda>n. \<not> is_icon_node n) (replaceAllIcons u (t1, t2, t3) head) = filter (\<lambda>n. \<not> is_icon_node n) head"
  by (simp add: replace_icons_filter) (simp add: replaceAllIcons_def add_link_def new_links_are_icons)

text \<open>
  C22. The pick is memoised: on the client, with \<open>Math.random()\<close> in \<open>[0, 1)\<close>, the
  pick is a variant, and every later call returns the same variant and leaves the window
  as it is, whatever its own random draw.
\<close>

theorem pick_memoised:
  assumes "0 \<le> r" and "r < 1" and "pickBrandVariant r (Some win) = (v, w')"
  shows "v \<noteq> None \<and> pickBrandVariant r' w' = (v, w')"
proof -
  from pick_defined [OF assms(1,2), of win] assms(3) obtain x win' where
    vx: "v = Some x" and w: "w' = Some win'" by auto
  with assms(3) pick_slot have "brand_slot win' = Some x" by fastforce
  with vx w show ?thesis by (simp add: pickBrandVariant_def)
qed

theorem pick_memoised_witness:
  "(0::real) \<le> 1 / 2 \<and> (1 / 2 :: real) < 1 \<and>
   pickBrandVariant (1 / 2) (Some \<lparr>brand_slot = None, dataset_brand = None\<rparr>) =
     (Some Banana, Some \<lparr>brand_slot = Some Banana, dataset_brand = Some ''banana''\<rparr>) \<and>
   Some Banana \<noteq> None \<and>
   pickBrandVariant (9 / 10) (Some \<lparr>brand_slot = Some Banana, dataset_brand = Some ''banana''\<rparr>) =
     (Some Banana, Some \<lparr>brand_slot = Some Banana, dataset_brand = Some ''banana''\<rparr>)"
proof -
  have h: "(0::real) \<le> 1 / 2" "(1 / 2 :: real) < 1" by simp_all
  have p: "pickBrandVariant (1 / 2) (Some \<lparr>brand_slot = None, dataset_brand = None\<rparr>) =
     (Some Banana, Some \<lparr>brand_slot = Some Banana, dataset_brand = Some ''banana''\<rparr>)"
    by (simp add: pickBrandVariant_def pool_def js_index_def variant_str_def Let_def)
  from h p pick_memoised [OF h p, of "9 / 10"] show ?thesis by simp
qed

text \<open>
  C23. Each variant has an equal share of \<open>Math.random()\<close>: a draw in
  \<open>[i/4, (i+1)/4)\<close> picks the \<open>i\<close>-th variant of the pool.
\<close>

theorem pick_uniform:
  assumes "i < length pool" and "real i / 4 \<le> r" and "r < real (Suc i) / 4" and "brand_slot win = None"
  shows "fst (pickBrandVariant r (Some win)) = Some (pool ! i)"
proof -
  have "\<lfloor>r * 4\<rfloor> = int i"
    using assms(2,3) by (simp add: floor_eq_iff field_simps)
  with assms(1,4) show ?thesis
    by (simp add: pickBrandVariant_def pool_def Let_def js_index_def)
qed

theorem pick_uniform_witness:
  "2 < length pool \<and> real 2 / 4 \<le> (3 / 5 :: real) \<and> (3 / 5 :: real) < real (Suc 2) / 4 \<and>
   brand_slot \<lparr>brand_slot = None, dataset_brand = None\<rparr> = None \<and>
   fst (pickBrandVariant (3 / 5) (Some \<lparr>brand_slot = None, dataset_brand = None\<rparr>)) = Some (pool ! 2)"
proof -
  have h: "2 < length pool" "real 2 / 4 \<le> (3 / 5 :: real)" "(3 / 5 :: real) < real (Suc 2) / 4"
    "brand_slot \<lparr>brand_slot = None, dataset_brand = None\<rparr> = None"
    by (simp_all add: pool_def)
  from h pick_uniform [OF h] show ?thesis by blast
qed



text \<open>
  C25. The two components agree on colours: for every variant and every stylesheet, the
  favicon's background and text colours are the brand corner's.
\<close>

theorem brand_colours_agree:
  "favicon_colours env v = (bg (corner_style (Some env) v), fg (corner_style (Some env) v))"
  by (cases v) (simp_all add: favicon_colours_def corner_style_def favicon_cssVar_def corner_cssVar_def Let_def)

text \<open>
  C26. The five selectors of \<open>replaceAllIcons\<close> amount to one: a link is removed exactly
  when its \<open>rel\<close>, ignoring ASCII case, contains \<open>icon\<close>.
\<close>

theorem icon_selector_iff: "icon_selector l \<longleftrightarrow> sublist ''icon'' (js_lower (rel l))"
  by (auto simp: icon_selector_def Let_def sublist_code)

text \<open>
  C31. The window stays well-typed: on the client, with \<open>Math.random()\<close> in
  \<open>[0, 1)\<close>, a pick on a conforming window returns a \<open>Variant\<close> (never
  \<open>undefined\<close>), stores it in the slot, and leaves the \<open>data-brand-variant\<close> attribute
  the literal that reads back as that variant.
\<close>

theorem pick_keeps_window_typed:
  assumes "0 \<le> r" and "r < 1" and "window_conforms w"
    and "pickBrandVariant r (Some w) = (v, w')"
  shows "\<exists>x win. v = Some x \<and> w' = Some win \<and> window_conforms win \<and> brand_slot win = Some x \<and>
                 map_option variant_of_str (dataset_brand win) = Some (Some x)"
proof -
  obtain x win where p: "pickBrandVariant r (Some w) = (Some x, Some win)"
    using pick_defined [OF assms(1,2)] by blast
  with assms(4) have v: "v = Some x" "w' = Some win" by simp_all
  from p pick_slot have slot: "brand_slot win = Some x" by fastforce
  have "dataset_brand win = Some (variant_str x)"
  proof (cases "brand_slot w")
    case None
    with p slot show ?thesis
      by (auto simp: pickBrandVariant_def Let_def simp del: js_index_Some_iff split: option.splits)
  next
    case (Some y)
    with p assms(3) show ?thesis by (simp add: pickBrandVariant_def window_conforms_def)
  qed
  with v slot show ?thesis by (simp add: window_conforms_def)
qed
theorem pick_keeps_window_typed_witness:
  "(0::real) \<le> 1 / 2 \<and> (1 / 2 :: real) < 1 \<and> window_conforms \<lparr>brand_slot = None, dataset_brand = None\<rparr> \<and>
   pickBrandVariant (1 / 2) (Some \<lparr>brand_slot = None, dataset_brand = None\<rparr>) =
     (Some Banana, Some \<lparr>brand_slot = Some Banana, dataset_brand = Some ''banana''\<rparr>) \<and>
   window_conforms \<lparr>brand_slot = Some Banana, dataset_brand = Some ''banana''\<rparr> \<and>
   map_option variant_of_str (Some ''banana'') = Some (Some Banana)"
proof -
  have h: "(0::real) \<le> 1 / 2" "(1 / 2 :: real) < 1" "window_conforms \<lparr>brand_slot = None, dataset_brand = None\<rparr>"
    by (simp_all add: window_conforms_def)
  have p: "pickBrandVariant (1 / 2) (Some \<lparr>brand_slot = None, dataset_brand = None\<rparr>) =
     (Some Banana, Some \<lparr>brand_slot = Some Banana, dataset_brand = Some ''banana''\<rparr>)"
    by (simp add: pickBrandVariant_def pool_def js_index_def variant_str_def Let_def)
  from h p pick_keeps_window_typed [OF h p] show ?thesis by auto
qed

end
