(* ===== verification/Ring.thy ===== *)
theory Ring
  imports Prelude
begin

text \<open>
  The rotating text rings of the intro pill, the experience, projects and contact sections.
  Each component draws a \<open>motion.svg\<close> with \<open>viewBox="0 0 120 120"\<close> that rotates by 360
  degrees forever, a \<open>path\<close> in its \<open>defs\<close> whose \<open>d\<close> attribute is
  \<open>"M60,60 m-48,0 a48,48 0 1,1 96,0 a48,48 0 1,1 -96,0"\<close>, and \<open>textPath\<close> elements that
  reference that path by \<open>href="#id"\<close>.  The browser's reading of the \<open>d\<close> attribute is
  modelled from the SVG path grammar, restricted to integer coordinates (all the site uses):
  a lexer into command letters and numbers, a parser into segments with the implicit
  repetition of argument groups, and the evaluation of relative segments into absolute
  ones.  \<open>full_circle\<close> states what a ring needs of its path: a move followed by two arcs of
  the same radius between antipodal points, swept in the same direction, so the text
  wraps round one closed circle.
\<close>

subsection \<open>Lexing a path string\<close>

datatype svg_tok = Cmd char | Num int

definition is_digit :: "char \<Rightarrow> bool" where
  "is_digit c \<longleftrightarrow> c \<in> set ''0123456789''"

definition digits_val :: "jstring \<Rightarrow> nat" where
  "digits_val ds = foldl (\<lambda>n d. 10 * n + (of_char d - 48)) 0 ds"

text \<open>The number being read, as its sign and its digits; a sign with no digit is an error.\<close>

definition flush :: "(bool \<times> jstring) option \<Rightarrow> svg_tok list option" where
  "flush cur = (case cur of None \<Rightarrow> Some []
                 | Some (neg, ds) \<Rightarrow> if ds = [] then None
                     else Some [Num (if neg then - int (digits_val ds) else int (digits_val ds))])"

definition path_cmds :: jstring where "path_cmds = ''MmLlHhVvAaZz''"

fun svg_lex :: "(bool \<times> jstring) option \<Rightarrow> jstring \<Rightarrow> svg_tok list option" where
  "svg_lex cur [] = flush cur"
| "svg_lex cur (c # cs) =
     (if is_digit c then
        svg_lex (Some (case cur of None \<Rightarrow> (False, [c]) | Some (neg, ds) \<Rightarrow> (neg, ds @ [c]))) cs
      else if c = CHR ''-'' then
        (case flush cur of None \<Rightarrow> None | Some p \<Rightarrow> map_option ((@) p) (svg_lex (Some (True, [])) cs))
      else if c = CHR '' '' \<or> c = CHR '','' then
        (case flush cur of None \<Rightarrow> None | Some p \<Rightarrow> map_option ((@) p) (svg_lex None cs))
      else if c \<in> set path_cmds then
        (case flush cur of None \<Rightarrow> None | Some p \<Rightarrow> map_option (\<lambda>r. p @ Cmd c # r) (svg_lex None cs))
      else None)"

subsection \<open>Parsing the tokens into segments\<close>

text \<open>A command letter with the numbers that follow it, up to the next letter.\<close>

fun chunks :: "(char \<times> int list) option \<Rightarrow> svg_tok list \<Rightarrow> (char \<times> int list) list option" where
  "chunks None [] = Some []"
| "chunks (Some cn) [] = Some [cn]"
| "chunks None (Num n # ts) = None"
| "chunks (Some (c, ns)) (Num n # ts) = chunks (Some (c, ns @ [n])) ts"
| "chunks cur (Cmd c # ts) =
     map_option (\<lambda>r. case cur of None \<Rightarrow> r | Some cn \<Rightarrow> cn # r) (chunks (Some (c, [])) ts)"

type_synonym point = "int \<times> int"

datatype seg =
    MoveTo bool point
  | LineTo bool point
  | HLine bool int
  | VLine bool int
  | ArcTo bool int int int bool bool point
  | ClosePath

text \<open>The flag \<open>bool\<close> of a segment is true for the lower-case (relative) command.\<close>

fun pairs :: "int list \<Rightarrow> point list option" where
  "pairs [] = Some []"
| "pairs (x # y # r) = map_option ((#) (x, y)) (pairs r)"
| "pairs [_] = None"

fun arc_groups :: "int list \<Rightarrow> (int \<times> int \<times> int \<times> bool \<times> bool \<times> point) list option" where
  "arc_groups [] = Some []"
| "arc_groups (rx # ry # rot # la # sw # x # y # r) =
     (if la \<in> {0, 1} \<and> sw \<in> {0, 1}
      then map_option ((#) (rx, ry, rot, la = 1, sw = 1, (x, y))) (arc_groups r) else None)"
| "arc_groups _ = None"

definition nonempty :: "'a list option \<Rightarrow> 'a list option" where
  "nonempty r = (case r of Some [] \<Rightarrow> None | _ \<Rightarrow> r)"

text \<open>
  The segments of one command: a move's further coordinate pairs are line-tos, every
  other command repeats its own argument group, and \<open>Z\<close> takes none.
\<close>

definition chunk_segs :: "char \<times> int list \<Rightarrow> seg list option" where
  "chunk_segs cn = (let (c, ns) = cn; rel = (c \<in> set ''mlhvaz'') in
     if c \<in> {CHR ''M'', CHR ''m''} then
       map_option (\<lambda>ps. MoveTo rel (hd ps) # map (LineTo rel) (tl ps)) (nonempty (pairs ns))
     else if c \<in> {CHR ''L'', CHR ''l''} then map_option (map (LineTo rel)) (nonempty (pairs ns))
     else if c \<in> {CHR ''H'', CHR ''h''} then (if ns = [] then None else Some (map (HLine rel) ns))
     else if c \<in> {CHR ''V'', CHR ''v''} then (if ns = [] then None else Some (map (VLine rel) ns))
     else if c \<in> {CHR ''A'', CHR ''a''} then
       map_option (map (\<lambda>(rx, ry, rot, la, sw, p). ArcTo rel rx ry rot la sw p)) (nonempty (arc_groups ns))
     else if c \<in> {CHR ''Z'', CHR ''z''} then (if ns = [] then Some [ClosePath] else None)
     else None)"

fun concat_opt :: "'a list option list \<Rightarrow> 'a list option" where
  "concat_opt [] = Some []"
| "concat_opt (x # xs) = (case x of None \<Rightarrow> None | Some a \<Rightarrow> map_option ((@) a) (concat_opt xs))"

text \<open>A path must start with a move.\<close>

definition parse_path :: "jstring \<Rightarrow> seg list option" where
  "parse_path d = (case svg_lex None d of None \<Rightarrow> None | Some ts \<Rightarrow>
     (case chunks None ts of None \<Rightarrow> None | Some cs \<Rightarrow>
       (case concat_opt (map chunk_segs cs) of
          Some (MoveTo r p # segs) \<Rightarrow> Some (MoveTo r p # segs) | _ \<Rightarrow> None)))"

subsection \<open>Absolute segments\<close>

datatype aseg =
    AMove point
  | ALine point point
  | AArc point int int int bool bool point

definition padd :: "point \<Rightarrow> point \<Rightarrow> point" where
  "padd p q = (fst p + fst q, snd p + snd q)"

definition target :: "bool \<Rightarrow> point \<Rightarrow> point \<Rightarrow> point" where
  "target rel cur p = (if rel then padd cur p else p)"

text \<open>\<open>absolute cur start segs\<close>: \<open>cur\<close> is the current point, \<open>start\<close> the start of the subpath.\<close>

fun absolute :: "point \<Rightarrow> point \<Rightarrow> seg list \<Rightarrow> aseg list" where
  "absolute cur st [] = []"
| "absolute cur st (MoveTo rel p # ss) = (let q = target rel cur p in AMove q # absolute q q ss)"
| "absolute cur st (LineTo rel p # ss) = (let q = target rel cur p in ALine cur q # absolute q st ss)"
| "absolute cur st (HLine rel x # ss) =
     (let q = (if rel then fst cur + x else x, snd cur) in ALine cur q # absolute q st ss)"
| "absolute cur st (VLine rel y # ss) =
     (let q = (fst cur, if rel then snd cur + y else y) in ALine cur q # absolute q st ss)"
| "absolute cur st (ArcTo rel rx ry rot la sw p # ss) =
     (let q = target rel cur p in AArc cur rx ry rot la sw q # absolute q st ss)"
| "absolute cur st (ClosePath # ss) = ALine cur st # absolute st st ss"

definition path_abs :: "jstring \<Rightarrow> aseg list option" where
  "path_abs d = map_option (absolute (0, 0) (0, 0)) (parse_path d)"

text \<open>A move followed by another move draws nothing: only the last one starts the subpath.\<close>

fun strip_moves :: "aseg list \<Rightarrow> aseg list" where
  "strip_moves (AMove p # AMove q # ss) = strip_moves (AMove q # ss)"
| "strip_moves ss = ss"

subsection \<open>Rings\<close>

text \<open>
  A closed circle of centre \<open>c\<close> and radius \<open>r\<close>: a move to \<open>p\<close>, an arc of radius \<open>r\<close> to
  the antipode \<open>q\<close> of \<open>p\<close> and one back to \<open>p\<close>, both with the same sweep flag, so the
  second half continues the first instead of retracing it.
\<close>

fun full_circle :: "point \<Rightarrow> int \<Rightarrow> aseg list \<Rightarrow> bool" where
  "full_circle c r [AMove p, AArc p1 rx1 ry1 _ _ sw1 q, AArc q1 rx2 ry2 _ _ sw2 p2] \<longleftrightarrow>
     p1 = p \<and> q1 = q \<and> p2 = p \<and> rx1 = r \<and> ry1 = r \<and> rx2 = r \<and> ry2 = r \<and> sw1 = sw2 \<and> 0 < r \<and>
     padd p q = (2 * fst c, 2 * snd c) \<and> (fst p - fst c)\<^sup>2 + (snd p - snd c)\<^sup>2 = r\<^sup>2"
| "full_circle c r _ \<longleftrightarrow> False"

text \<open>The centre and radius of a path that is a full circle: the midpoint of the first arc's chord.\<close>

definition ring_circle :: "aseg list \<Rightarrow> (point \<times> int) option" where
  "ring_circle segs = (case segs of
      AMove p # AArc _ r _ _ _ _ q # _ \<Rightarrow>
        (let c = ((fst p + fst q) div 2, (snd p + snd q) div 2) in
         if full_circle c r segs then Some (c, r) else None)
    | _ \<Rightarrow> None)"

definition svg_ref :: "jstring \<Rightarrow> jstring option" where
  "svg_ref h = (if take 1 h = ''#'' then Some (drop 1 h) else None)"

record ring_text =
  rt_href :: jstring
  rt_offset :: jstring
  rt_length :: "nat option"
  rt_text :: jstring

record ring_view =
  ring_viewBox :: "int \<times> int \<times> int \<times> int"
  ring_path_id :: jstring
  ring_d :: jstring
  ring_pathLength :: "nat option"
  ring_rotate :: nat
  ring_duration :: nat
  ring_color :: jstring
  ring_texts :: "ring_text list"

definition RING_D :: jstring where
  "RING_D = ''M60,60 m-48,0 a48,48 0 1,1 96,0 a48,48 0 1,1 -96,0''"

text \<open>
  A ring is well formed when its path is a closed circle lying inside the view box, it
  turns a whole revolution, and every \<open>textPath\<close> references its path.
\<close>

definition ring_ok :: "ring_view \<Rightarrow> bool" where
  "ring_ok rv \<longleftrightarrow>
     (case (ring_viewBox rv, path_abs (ring_d rv)) of ((x0, y0, w, h), Some segs) \<Rightarrow>
        (case ring_circle (strip_moves segs) of
           Some ((cx, cy), r) \<Rightarrow> x0 \<le> cx - r \<and> cx + r \<le> x0 + w \<and> y0 \<le> cy - r \<and> cy + r \<le> y0 + h
         | None \<Rightarrow> False)
      | _ \<Rightarrow> False) \<and>
     ring_rotate rv = 360 \<and> ring_texts rv \<noteq> [] \<and>
     list_all (\<lambda>t. svg_ref (rt_href t) = Some (ring_path_id rv)) (ring_texts rv)"

subsection \<open>Lemmas\<close>

lemma ring_d_abs:
  "path_abs RING_D = Some [AMove (60, 60), AMove (12, 60), AArc (12, 60) 48 48 0 True True (108, 60),
                           AArc (108, 60) 48 48 0 True True (12, 60)]"
  by (simp add: path_abs_def parse_path_def RING_D_def is_digit_def path_cmds_def flush_def digits_val_def
                chunk_segs_def nonempty_def target_def padd_def Let_def)

lemma ring_circle_full: "ring_circle segs = Some (c, r) \<Longrightarrow> full_circle c r segs"
  by (auto simp: ring_circle_def Let_def split: list.splits aseg.splits if_splits)

text \<open>The shared path is the circle of radius 48 about the centre of the view box.\<close>

lemma ring_d_circle: "map_option (ring_circle \<circ> strip_moves) (path_abs RING_D) = Some (Some ((60, 60), 48))"
  by (simp add: ring_d_abs ring_circle_def padd_def power2_eq_square)

lemma ring_okI:
  "ring_viewBox rv = (0, 0, 120, 120) \<Longrightarrow> ring_d rv = RING_D \<Longrightarrow> ring_rotate rv = 360 \<Longrightarrow>
   ring_texts rv \<noteq> [] \<Longrightarrow> list_all (\<lambda>t. svg_ref (rt_href t) = Some (ring_path_id rv)) (ring_texts rv) \<Longrightarrow>
   ring_ok rv"
  by (simp add: ring_ok_def ring_d_abs ring_circle_def padd_def power2_eq_square)

end
