(* ===== verification/Contact.thy ===== *)
theory Contact
  imports Ring
begin

text \<open>
  The contact section of \<open>src/src/components/ContactSection.tsx\<close>: the quick-link chips,
  the send button derived from the Formspree form state (\<open>isSending\<close>, \<open>isSent\<close>,
  \<open>isDisabled\<close>, \<open>btnLabel\<close>), the validation messages and the success pill.  The
  form state itself belongs to \<open>@formspree/react\<close>'s \<open>useForm\<close>, which is not part of
  the repository; it is modelled from that library's documented behaviour as the step
  relation \<open>form_step\<close> (a submission sets \<open>submitting\<close>; the response clears it and
  sets \<open>succeeded\<close> or the field errors).  A submission reaches the form only through the
  submit button, and a disabled default button blocks implicit submission too, so
  \<open>Submit\<close> is guarded by the code's \<open>disabled={isDisabled}\<close>.
\<close>

subsection \<open>Quick links\<close>

definition EMAIL :: jstring where "EMAIL = ''abhi96dayni@gmail.com''"
definition GITHUB :: jstring where "GITHUB = ''https://github.com/pandeyg33?tab=repositories''"
definition LINKEDIN :: jstring where "LINKEDIN = ''https://www.linkedin.com/in/pandeyg33''"
definition RESUME :: jstring where "RESUME = ''/docs/Abhimanyu_Pandey_Resume_SE.pdf''"
definition INSTAGRAM :: jstring where "INSTAGRAM = ''https://instagram.com/akamanyu''"

record chip =
  chip_href :: jstring
  chip_label :: jstring
  chip_new_tab :: bool
  chip_rel :: "jstring option"
  chip_delay :: real

text \<open>The five chips in document order, with the delay of their \<open>fade(d)\<close> preset.\<close>

definition contact_chips :: "chip list" where
  "contact_chips = [
     \<lparr>chip_href = ''mailto:'' @ EMAIL @ ''?subject=Let%27s%20work%20together'', chip_label = EMAIL,
      chip_new_tab = False, chip_rel = None, chip_delay = 1 / 10\<rparr>,
     \<lparr>chip_href = GITHUB, chip_label = ''GitHub'', chip_new_tab = True, chip_rel = Some ''noreferrer'', chip_delay = 22 / 100\<rparr>,
     \<lparr>chip_href = LINKEDIN, chip_label = ''LinkedIn'', chip_new_tab = True, chip_rel = Some ''noreferrer'', chip_delay = 28 / 100\<rparr>,
     \<lparr>chip_href = INSTAGRAM, chip_label = ''Instagram'', chip_new_tab = True, chip_rel = Some ''noreferrer'', chip_delay = 34 / 100\<rparr>,
     \<lparr>chip_href = RESUME, chip_label = ''Resume'', chip_new_tab = True, chip_rel = Some ''noreferrer'', chip_delay = 16 / 100\<rparr>]"

subsection \<open>Motion presets and the header slab\<close>

record fade_preset =
  fade_from_opacity :: real
  fade_from_y :: real
  fade_from_blur :: jstring
  fade_to_opacity :: real
  fade_to_y :: real
  fade_to_blur :: jstring
  fade_duration :: real
  fade_delay :: real

text \<open>\<open>fade(d = 0)\<close>: the entrance preset the slab and the chips spread into their props.\<close>

definition fade :: "real option \<Rightarrow> fade_preset" where
  "fade d = \<lparr>fade_from_opacity = 0, fade_from_y = 12, fade_from_blur = ''blur(3px)'',
             fade_to_opacity = 1, fade_to_y = 0, fade_to_blur = ''blur(0px)'',
             fade_duration = 1 / 2, fade_delay = (case d of None \<Rightarrow> 0 | Some x \<Rightarrow> x)\<rparr>"

text \<open>
  framer-motion's \<open>useTransform(v, [a, b], [c, d])\<close> maps \<open>v\<close> linearly from
  \<open>[a, b]\<close> to \<open>[c, d]\<close> and, by default, clamps outside the input range.
\<close>

definition use_transform :: "real \<times> real \<Rightarrow> real \<times> real \<Rightarrow> real \<Rightarrow> real" where
  "use_transform inp out v =
     (let (a, b) = inp; (c, d) = out; t = min 1 (max 0 ((v - a) / (b - a))) in c + t * (d - c))"

record slab_style =
  slab_scaleX :: real
  slab_origin :: jstring
  slab_border :: jstring

text \<open>
  The header slab's style for a scroll progress \<open>p\<close>: \<open>widthScaleRaw\<close>; the spring that
  smooths it settles on the same value and is not modelled.
\<close>

definition widthScaleRaw :: "real \<Rightarrow> real" where
  "widthScaleRaw p = use_transform (0, 1) (94 / 100, 1) p"

definition slabStyle :: "real \<Rightarrow> slab_style" where
  "slabStyle p = \<lparr>slab_scaleX = widthScaleRaw p, slab_origin = ''center'', slab_border = ''rgba(234,179,8,.25)''\<rparr>"

subsection \<open>The ring\<close>

definition Contact_ring :: ring_view where
  "Contact_ring =
     \<lparr>ring_viewBox = (0, 0, 120, 120), ring_path_id = ''contactPath'', ring_d = RING_D,
      ring_pathLength = None, ring_rotate = 360, ring_duration = 18, ring_color = ''var(--pill-banana)'',
      ring_texts = [\<lparr>rt_href = ''#contactPath'', rt_offset = ''0'', rt_length = None,
                     rt_text = ''WHERE TO FIND ME '' @ BULLET @ '' WHERE TO FIND ME '' @ BULLET @ '' WHERE TO FIND ME '' @ BULLET\<rparr>]\<rparr>"

text \<open>The down arrow drawn at the centre of the ring, in its own \<open>0 0 24 24\<close> view box.\<close>

definition ARROW_D :: jstring where "ARROW_D = ''M12 5v14m0 0l-6-6m6 6l6-6''"

subsection \<open>The form state and the send button\<close>

text \<open>The part of Formspree's form state the section reads: \<open>{ submitting, succeeded, errors }\<close>.\<close>

record form_state =
  submitting :: bool
  succeeded :: bool
  errors :: "(jstring \<times> jstring) list"

definition form_init :: form_state where
  "form_init = \<lparr>submitting = False, succeeded = False, errors = []\<rparr>"

definition isDisabled :: "form_state \<Rightarrow> bool" where
  "isDisabled st \<longleftrightarrow> submitting st \<or> succeeded st"

definition btnLabel :: "form_state \<Rightarrow> jstring" where
  "btnLabel st = (if succeeded st then ''Sent'' else if submitting st then ''Sending'' @ ELLIPSIS else ''Send'')"

definition btnBase :: jstring where
  "btnBase = ''rounded-[calc(var(--radius)+4px)] w-full h-full min-h-[140px] '' @
             ''font-medium tracking-wide border pill-shadow '' @
             ''flex items-center justify-center gap-2 transition-transform will-change-transform''"

definition btnIdle :: jstring where
  "btnIdle = ''bg-[color:var(--pill-banana)] text-[color:var(--pill-ink)] '' @
             ''border-[color:var(--pill-banana)]/40 hover:scale-[1.02] active:scale-[0.99]''"

definition btnSent :: jstring where
  "btnSent = ''bg-[color:var(--card-pastel-red)] text-[color:var(--pill-ink)] '' @
             ''border-[color:var(--card-pastel-red)]/40 opacity-90 cursor-not-allowed''"

record button_view =
  b_disabled :: bool
  b_aria_disabled :: bool
  b_class :: jstring
  b_aria_label :: jstring
  b_icon :: bool
  b_text :: jstring

definition send_button :: "form_state \<Rightarrow> button_view" where
  "send_button st =
     \<lparr>b_disabled = isDisabled st, b_aria_disabled = isDisabled st,
      b_class = btnBase @ '' '' @ (if succeeded st then btnSent else btnIdle),
      b_aria_label = btnLabel st, b_icon = (\<not> succeeded st), b_text = btnLabel st\<rparr>"

declare isDisabled_def [view_defs] btnLabel_def [view_defs] send_button_def [view_defs]

subsection \<open>The form fields\<close>

definition pillBase :: jstring where
  "pillBase = ''rounded-[var(--radius)] border pill-shadow w-full '' @
              ''bg-[var(--intro-pill-color)] '' @
              ''border-[color:var(--pill-banana)]/25 '' @
              ''text-[color:var(--pill-banana)] '' @
              ''placeholder-[color:var(--pill-banana)]/80 '' @
              ''px-5 py-4 md:py-5 focus:outline-none focus:ring-0''"

record form_field =
  field_id :: jstring
  field_name :: jstring
  field_type :: "jstring option"
  field_placeholder :: jstring
  field_aria :: jstring
  field_class :: jstring

text \<open>The inputs in document order; the message is a \<open>textarea\<close> (no \<open>type\<close>).\<close>

definition contact_fields :: "form_field list" where
  "contact_fields =
     [\<lparr>field_id = ''name'', field_name = ''name'', field_type = Some ''text'', field_placeholder = ''Name'',
       field_aria = ''Name'', field_class = pillBase\<rparr>,
      \<lparr>field_id = ''email'', field_name = ''email'', field_type = Some ''email'', field_placeholder = ''E-mail'',
       field_aria = ''Email'', field_class = pillBase\<rparr>,
      \<lparr>field_id = ''subject'', field_name = ''subject'', field_type = Some ''text'', field_placeholder = ''Subject'',
       field_aria = ''Subject'', field_class = pillBase\<rparr>,
      \<lparr>field_id = ''message'', field_name = ''message'', field_type = None, field_placeholder = ''Message'',
       field_aria = ''Message'', field_class = pillBase @ '' resize-y''\<rparr>]"

text \<open>The fields the two \<open>ValidationError\<close> components report on.\<close>

definition validated_fields :: "jstring list" where
  "validated_fields = [''email'', ''message'']"

subsection \<open>Validation messages and the success pill\<close>

text \<open>
  Formspree's \<open>ValidationError\<close> renders, for the errors of its \<open>field\<close>, the prefix
  and the message.
\<close>

definition validation_error :: "jstring \<Rightarrow> jstring \<Rightarrow> (jstring \<times> jstring) list \<Rightarrow> jstring list" where
  "validation_error pfx field errs = map (\<lambda>(f, m). pfx @ '' '' @ m) (filter (\<lambda>(f, m). f = field) errs)"

definition success_pill :: "form_state \<Rightarrow> jstring option" where
  "success_pill st =
     (if succeeded st then Some (''Thanks '' @ EM_DASH @ '' your message is on its way! '' @ SPARKLES) else None)"

declare success_pill_def [view_defs]

record contact_view =
  cv_chips :: "chip list"
  cv_fields :: "form_field list"
  cv_email_errors :: "jstring list"
  cv_message_errors :: "jstring list"
  cv_button :: button_view
  cv_success :: "jstring option"

definition ContactSection :: "form_state \<Rightarrow> contact_view" where
  "ContactSection st =
     \<lparr>cv_chips = contact_chips, cv_fields = contact_fields,
      cv_email_errors = validation_error ''Email'' (validated_fields ! 0) (errors st),
      cv_message_errors = validation_error ''Message'' (validated_fields ! 1) (errors st),
      cv_button = send_button st,
      cv_success = success_pill st\<rparr>"

subsection \<open>The form's life cycle\<close>

datatype form_event = Submit | Respond_ok | Respond_error "(jstring \<times> jstring) list"

inductive form_step :: "form_state \<Rightarrow> form_event \<Rightarrow> form_state \<Rightarrow> bool" where
  submit: "\<not> b_disabled (send_button st) \<Longrightarrow> form_step st Submit (st\<lparr>submitting := True\<rparr>)"
| respond_ok: "submitting st \<Longrightarrow>
    form_step st Respond_ok (st\<lparr>submitting := False, succeeded := True, errors := []\<rparr>)"
| respond_error: "submitting st \<Longrightarrow>
    form_step st (Respond_error es) (st\<lparr>submitting := False, succeeded := False, errors := es\<rparr>)"

inductive form_reach :: "form_state \<Rightarrow> bool" where
  init: "form_reach form_init"
| step: "form_reach st \<Longrightarrow> form_step st e st' \<Longrightarrow> form_reach st'"

inductive_cases form_stepE: "form_step st e st'"

text \<open>The same steps as a function, for running event sequences.\<close>

fun form_next :: "form_state \<Rightarrow> form_event \<Rightarrow> form_state option" where
  "form_next st Submit = (if b_disabled (send_button st) then None else Some (st\<lparr>submitting := True\<rparr>))"
| "form_next st Respond_ok =
     (if submitting st then Some (st\<lparr>submitting := False, succeeded := True, errors := []\<rparr>) else None)"
| "form_next st (Respond_error es) =
     (if submitting st then Some (st\<lparr>submitting := False, succeeded := False, errors := es\<rparr>) else None)"

fun form_run :: "form_event list \<Rightarrow> form_state \<Rightarrow> form_state option" where
  "form_run [] st = Some st"
| "form_run (e # es) st = (case form_next st e of None \<Rightarrow> None | Some st' \<Rightarrow> form_run es st')"

text \<open>A run that fails validation once, is resubmitted and succeeds.\<close>

definition sent_demo :: form_state where
  "sent_demo = the (form_run [Submit, Respond_error [(''email'', ''should be an email'')], Submit, Respond_ok] form_init)"

subsection \<open>Lemmas\<close>

lemma form_next_iff: "form_next st e = Some st' \<longleftrightarrow> form_step st e st'"
proof
  show "form_next st e = Some st' \<Longrightarrow> form_step st e st'"
    by (cases e) (auto split: if_splits intro: form_step.intros)
  show "form_step st e st' \<Longrightarrow> form_next st e = Some st'"
    by (erule form_step.cases) simp_all
qed

lemma form_run_reach: "form_reach st \<Longrightarrow> form_run es st = Some st' \<Longrightarrow> form_reach st'"
proof (induction es arbitrary: st)
  case Nil
  then show ?case by simp
next
  case (Cons e es)
  from Cons.prems(2) obtain s1 where n: "form_next st e = Some s1" and r: "form_run es s1 = Some st'"
    by (auto split: option.splits)
  have "form_reach s1" using Cons.prems(1) n by (auto simp: form_next_iff intro: form_reach.step)
  then show ?case using r by (rule Cons.IH)
qed

lemma form_inv: "form_reach st \<Longrightarrow> \<not> (submitting st \<and> succeeded st)"
  by (induction rule: form_reach.induct)
     (auto simp: form_init_def view_defs elim: form_stepE)

text \<open>The header slab's width scale stays in \<open>[0.94, 1]\<close> for every scroll progress, in range or not.\<close>

lemma slab_scale_bounds: "94 / 100 \<le> slab_scaleX (slabStyle p) \<and> slab_scaleX (slabStyle p) \<le> 1"
proof -
  have "0 \<le> min 1 (max 0 p) \<and> min 1 (max (0::real) p) \<le> 1" by simp
  then show ?thesis by (simp add: slabStyle_def widthScaleRaw_def use_transform_def)
qed

text \<open>
  Both validation messages report on inputs the form has, under the same name; the
  input ids are distinct, and every input has an accessible label.
\<close>

lemma validated_fields_exist:
  "set validated_fields \<subseteq> field_name ` set contact_fields \<and> distinct (map field_id contact_fields) \<and>
   list_all (\<lambda>f. field_aria f \<noteq> []) contact_fields"
  by (simp add: validated_fields_def contact_fields_def)

text \<open>
  The arrow is a vertical shaft from \<open>(12, 5)\<close> to \<open>(12, 19)\<close> and two head strokes that
  both start at the shaft's tip and are mirror images of each other about \<open>x = 12\<close>.
\<close>

lemma arrow_glyph:
  "path_abs ARROW_D = Some [AMove (12, 5), ALine (12, 5) (12, 19), AMove (12, 19), ALine (12, 19) (6, 13),
                            AMove (12, 19), ALine (12, 19) (18, 13)]"
  by (simp add: path_abs_def parse_path_def ARROW_D_def is_digit_def path_cmds_def flush_def digits_val_def
                chunk_segs_def nonempty_def target_def padd_def Let_def)

subsection \<open>Properties of the contact section\<close>

text \<open>
  C39. The send button has exactly three reachable states: idle (\<open>Send\<close>, enabled),
  sending (\<open>Sending...\<close>, disabled) and sent (\<open>Sent\<close>, disabled, without the
  paper-plane icon, with the success pill); the fourth combination of Formspree's flags,
  submitting and succeeded at once, never occurs.
\<close>

theorem send_button_states:
  assumes "form_reach st"
  shows "(\<not> submitting st \<and> \<not> succeeded st \<and> b_text (send_button st) = ''Send'' \<and> \<not> b_disabled (send_button st)) \<or>
         (submitting st \<and> \<not> succeeded st \<and> b_text (send_button st) = ''Sending'' @ ELLIPSIS \<and> b_disabled (send_button st)) \<or>
         (\<not> submitting st \<and> succeeded st \<and> b_text (send_button st) = ''Sent'' \<and> b_disabled (send_button st) \<and>
            \<not> b_icon (send_button st) \<and> success_pill st \<noteq> None)"
  using form_inv [OF assms]
  by (auto simp: view_defs)

theorem send_button_states_witness:
  "form_reach (the (form_run [Submit] form_init)) \<and>
   ((\<not> submitting (the (form_run [Submit] form_init)) \<and> \<not> succeeded (the (form_run [Submit] form_init)) \<and>
      b_text (send_button (the (form_run [Submit] form_init))) = ''Send'' \<and> \<not> b_disabled (send_button (the (form_run [Submit] form_init)))) \<or>
    (submitting (the (form_run [Submit] form_init)) \<and> \<not> succeeded (the (form_run [Submit] form_init)) \<and>
      b_text (send_button (the (form_run [Submit] form_init))) = ''Sending'' @ ELLIPSIS \<and> b_disabled (send_button (the (form_run [Submit] form_init)))) \<or>
    (\<not> submitting (the (form_run [Submit] form_init)) \<and> succeeded (the (form_run [Submit] form_init)) \<and>
      b_text (send_button (the (form_run [Submit] form_init))) = ''Sent'' \<and> b_disabled (send_button (the (form_run [Submit] form_init))) \<and>
      \<not> b_icon (send_button (the (form_run [Submit] form_init))) \<and> success_pill (the (form_run [Submit] form_init)) \<noteq> None))"
proof -
  have r: "form_reach (the (form_run [Submit] form_init))"
    by (rule form_run_reach [OF form_reach.init, of "[Submit]"]) (simp add: form_init_def view_defs)
  from r send_button_states [OF r] show ?thesis by blast
qed

text \<open>
  C40. Sent is final: once the submission has succeeded, the form admits no further step
  (in particular no second submission), and the button stays disabled and labelled
  \<open>Sent\<close>.
\<close>

theorem sent_is_final:
  assumes "form_reach st" and "succeeded st"
  shows "\<not> form_step st e st' \<and> b_disabled (send_button st) \<and> b_text (send_button st) = ''Sent''"
  using form_inv [OF assms(1)] assms(2)
  by (auto simp: view_defs elim: form_stepE)

theorem sent_is_final_witness:
  "form_reach sent_demo \<and> succeeded sent_demo \<and>
   \<not> form_step sent_demo Submit (sent_demo\<lparr>submitting := True\<rparr>) \<and>
   b_disabled (send_button sent_demo) \<and> b_text (send_button sent_demo) = ''Sent''"
proof -
  have r: "form_reach sent_demo" unfolding sent_demo_def
    by (rule form_run_reach [OF form_reach.init,
          of "[Submit, Respond_error [(''email'', ''should be an email'')], Submit, Respond_ok]"])
       (simp add: form_init_def view_defs)
  have s: "succeeded sent_demo"
    by (simp add: sent_demo_def form_init_def view_defs)
  from r s sent_is_final [OF r s, of Submit "sent_demo\<lparr>submitting := True\<rparr>"] show ?thesis by blast
qed
end
