(* ===== verification/Skills.thy ===== *)
theory Skills
  imports Prelude
begin

text \<open>
  The skills marquees of \<open>src/src/components/SkillsMarquees.tsx\<close>: the \<open>SKILLS\<close> list,
  the three theme colours, and \<open>Row\<close>, which renders two identical copies of the list
  (keyed \<open>0\<close> and \<open>1\<close>, each span keyed \<open>copy-skill\<close>) in a track scrolling left or
  right, with the defaults \<open>start = "0%"\<close> and \<open>speed = "26s"\<close> for omitted props.
  \<open>SkillsMarquees\<close> is the three rows.  The scrolling itself is CSS (not in the
  repository) and is not modelled; the lemmas are about the rendered content and keys.
\<close>

definition SKILLS :: "jstring list" where
  "SKILLS = [''Python'', ''Java'', ''JavaScript'', ''TypeScript'', ''React'', ''Angular'', ''Node.js'',
    ''Spring Boot'', ''REST APIs'', ''Microservices'', ''Caching'', ''PyTorch'', ''timm'', ''EfficientNetV2'',
    ''GANs (ProGAN, StyleGAN)'', ''RAG'', ''Semantic Search'', ''sentence-transformers'', ''Cosine Similarity'',
    ''Ollama'', ''Gemma'', ''Qwen'', ''Whisper STT'', ''HeyGen Avatars'', ''Pandas'', ''DuckDB'',
    ''Parquet (ETL)'', ''Altair'', ''Ag-Grid'', ''Analytics Dashboards'', ''Streamlit'',
    ''Chrome Extension (MV3)'', ''MongoDB'', ''SQL / NoSQL'', ''Docker'', ''Pharmacovigilance (PRR/ROR)'']"

definition COLORS_straw :: jstring where "COLORS_straw = ''var(--marquee-straw)''"
definition COLORS_vanilla :: jstring where "COLORS_vanilla = ''var(--marquee-vanilla)''"
definition COLORS_melon :: jstring where "COLORS_melon = ''var(--marquee-melon)''"

datatype direction = Dir_left | Dir_right

record skill_span =
  sk_key :: jstring
  sk_text :: jstring
  sk_colour :: jstring

record row_view =
  rv_track_class :: jstring
  rv_start :: jstring
  rv_speed :: jstring
  rv_copies :: "(nat \<times> skill_span list) list"

definition Row :: "direction \<Rightarrow> jstring option \<Rightarrow> jstring option \<Rightarrow> jstring \<Rightarrow> row_view" where
  "Row dir start speed color =
     \<lparr>rv_track_class = ''marquee-track '' @ (if dir = Dir_right then ''marquee-right'' else ''marquee-left''),
      rv_start = (case start of None \<Rightarrow> ''0%'' | Some x \<Rightarrow> x),
      rv_speed = (case speed of None \<Rightarrow> ''26s'' | Some x \<Rightarrow> x),
      rv_copies = map (\<lambda>copy. (copy, map (\<lambda>s. \<lparr>sk_key = show_nat copy @ ''-'' @ s, sk_text = s, sk_colour = color\<rparr>) SKILLS)) [0, 1]\<rparr>"

definition SkillsMarquees :: "row_view list" where
  "SkillsMarquees =
     [Row Dir_left (Some ''0%'') (Some ''70s'') COLORS_straw,
      Row Dir_right (Some ''-22%'') (Some ''95s'') COLORS_vanilla,
      Row Dir_left (Some ''-44%'') (Some ''83s'') COLORS_melon]"

definition row_keys :: "row_view \<Rightarrow> jstring list" where
  "row_keys r = concat (map (\<lambda>(c, xs). map sk_key xs) (rv_copies r))"

subsection \<open>Lemmas\<close>

lemma distinct_SKILLS: "distinct SKILLS"
  by (simp add: SKILLS_def)

lemma row_keys_Row:
  "row_keys (Row dir st sp c) = map (\<lambda>s. ''0-'' @ s) SKILLS @ map (\<lambda>s. ''1-'' @ s) SKILLS"
  by (simp add: row_keys_def Row_def comp_def del: show_nat.simps)

lemma row_keys_distinct: "distinct (row_keys (Row dir st sp c))"
proof -
  have "inj_on (\<lambda>s. ''0-'' @ s) (set SKILLS)" "inj_on (\<lambda>s. ''1-'' @ s) (set SKILLS)"
    by (simp_all add: inj_on_def)
  then show ?thesis
    using distinct_SKILLS by (auto simp: row_keys_Row distinct_map)
qed

lemma row_copies_identical:
  "\<exists>xs ys. rv_copies (Row dir st sp c) = [(0, xs), (1, ys)] \<and> map sk_text xs = SKILLS \<and> map sk_text ys = SKILLS"
  by (simp add: Row_def comp_def)

end
