(* ===== verification/Motion.thy ===== *)
theory Motion
  imports Prelude
begin

text \<open>
  The scroll-triggered entrances of framer-motion used by the intro pill, the experience
  rows and the project cards: a \<open>motion\<close> element with \<open>initial\<close>, \<open>whileInView\<close> and
  \<open>viewport={{ amount, once }}\<close> shows its \<open>whileInView\<close> pose while at least the fraction
  \<open>amount\<close> of it is visible, and its \<open>initial\<close> pose otherwise; with \<open>once\<close> it keeps the
  \<open>whileInView\<close> pose after the first entry, since the observer is then disconnected.
  Scrolling is a sequence of observed visible fractions.  This is the library's
  documented behaviour, modelled from its documentation, not code of the repository.
\<close>

record viewport_opts =
  vp_amount :: real
  vp_once :: bool

definition in_view_step :: "viewport_opts \<Rightarrow> bool \<Rightarrow> real \<Rightarrow> bool" where
  "in_view_step vp shown ratio = (if vp_once vp \<and> shown then True else vp_amount vp \<le> ratio)"

definition in_view_run :: "viewport_opts \<Rightarrow> bool \<Rightarrow> real list \<Rightarrow> bool" where
  "in_view_run vp shown rs = fold (\<lambda>r s. in_view_step vp s r) rs shown"

text \<open>The pose an element shows: its \<open>whileInView\<close> target while in view, its \<open>initial\<close> otherwise.\<close>

definition pose :: "'a \<Rightarrow> 'a \<Rightarrow> bool \<Rightarrow> 'a" where
  "pose initial target shown = (if shown then target else initial)"

subsection \<open>Lemmas\<close>

lemma in_view_run_simps [simp]:
  "in_view_run vp s [] = s"
  "in_view_run vp s (r # rs) = in_view_run vp (in_view_step vp s r) rs"
  by (simp_all add: in_view_run_def)

lemma in_view_run_append [simp]:
  "in_view_run vp s (rs @ ts) = in_view_run vp (in_view_run vp s rs) ts"
  by (simp add: in_view_run_def)

text \<open>With \<open>once\<close>, an element that has been shown stays shown whatever the scrolling.\<close>

lemma in_view_once_stays:
  "vp_once vp \<Longrightarrow> in_view_run vp True rs"
  by (induction rs) (simp_all add: in_view_step_def)

lemma in_view_once_iff:
  "vp_once vp \<Longrightarrow> in_view_run vp s rs \<longleftrightarrow> s \<or> (\<exists>r\<in>set rs. vp_amount vp \<le> r)"
proof (induction rs arbitrary: s)
  case (Cons r rs)
  then show ?case
    using in_view_once_stays [OF Cons.prems] by (auto simp: in_view_step_def)
qed simp

text \<open>Without \<open>once\<close>, the element follows the last observation: it hides again when scrolled out.\<close>

lemma in_view_repeat_last:
  "\<not> vp_once vp \<Longrightarrow> rs \<noteq> [] \<Longrightarrow> in_view_run vp s rs \<longleftrightarrow> vp_amount vp \<le> last rs"
  by (induction rs arbitrary: s rule: induct_list012) (simp_all add: in_view_step_def)

end
