(* ===== verification/Experience.thy ===== *)
theory Experience
  imports Ring Motion
begin

text \<open>
  The experience timeline of \<open>src/src/components/ExperienceSequence.tsx\<close>: the \<open>Role\<close>
  type, the \<open>ROLES\<close> array string for string (dashes as UTF-8 bytes), each row's rendered
  text (company, role, the \<open>tag Experience\<close> caption, the bullets prefixed with a
  bullet) and the React keys: a row is keyed \<open>company-role-dates\<close>, a bullet by its
  text.
\<close>

datatype role_icon = ChartBarIcon | WrenchScrewdriverIcon | BoltIcon_exp

record role =
  tag :: jstring
  company :: jstring
  role_name :: jstring
  dates :: jstring
  role_title :: jstring
  bullets :: "jstring list"
  role_icon :: role_icon

definition ROLES :: "role list" where
  "ROLES = [
    \<lparr>tag = ''03.'', company = ''Virtuous Transactional Analytics'', role_name = ''Senior Software Engineer (Full-Stack)'',
     dates = ''Oct 2021 '' @ EN_DASH @ '' May 2023'', role_title = ''Led data-driven pharma platforms'',
     bullets = [''Led a 6-member team building compliance & adverse-event apps; increased discrepancy-resolution throughput by ~90%.'',
       ''Cut mission-critical API latency by ~71% via log-driven optimization & caching; shipped a caching layer that reduced load times by ~95% for real-time analytics.'',
       ''Built a live analytics dashboard for microservices'' @ EM_DASH @ ''monitoring, visualization, and anomaly signals to drive proactive fixes.'',
       ''Mentored juniors/interns; earned the OrionStars award for shipping high-impact features under tight deadlines.''],
     role_icon = ChartBarIcon\<rparr>,
    \<lparr>tag = ''02.'', company = ''Virtuous Transactional Analytics'', role_name = ''Software Engineer (Full-Stack)'',
     dates = ''Mar 2020 '' @ EN_DASH @ '' Sep 2021'', role_title = ''Modernized & scaled core services'',
     bullets = [''Migrated legacy apps to cloud-ready frameworks for scalable storage & retrieval used by analytics workflows.'',
       ''Created plug-and-play modules that accelerated client integration and shortened delivery times.'',
       ''Hardened microservices with real-time production monitoring and targeted optimizations.'',
       ''Trained interns on Spring Boot'' @ EM_DASH @ ''productive within one week.''],
     role_icon = WrenchScrewdriverIcon\<rparr>,
    \<lparr>tag = ''01.'', company = ''Philips Healthcare'', role_name = ''Software Developer I'',
     dates = ''Jun 2018 '' @ EN_DASH @ '' Feb 2020'', role_title = ''Healthcare data & interoperability'',
     bullets = [''Built a custom client solution across 3 org teams; received the Take Ownership to Win and Deliver award.'',
       ''Integrated disparate healthcare systems into a centralized platform'' @ EM_DASH @ ''better data quality & analytics-readiness.'',
       ''Contributed to Hospital-to-Home telehealth apps enabling remote monitoring and real-time support.'',
       ''Top-4 in a 3-month Java stack bootcamp; strong fundamentals and fast ramp-up.''],
     role_icon = BoltIcon_exp\<rparr>]"

record role_row =
  row_key :: jstring
  row_company :: jstring
  row_role :: jstring
  row_caption :: jstring
  row_title :: jstring
  row_bullets :: "(jstring \<times> jstring) list"

definition experience_row :: "role \<Rightarrow> role_row" where
  "experience_row r =
     \<lparr>row_key = company r @ ''-'' @ role_name r @ ''-'' @ dates r,
      row_company = company r, row_role = role_name r,
      row_caption = tag r @ '' Experience'', row_title = role_title r,
      row_bullets = map (\<lambda>b. (b, BULLET @ '' '' @ b)) (bullets r)\<rparr>"

definition ExperienceSequence :: "role_row list" where
  "ExperienceSequence = map experience_row ROLES"

subsection \<open>Motion and the ring\<close>

record hover_props =
  hover_scale :: real
  hover_y :: real
  tap_scale :: real

text \<open>\<open>hoverProps\<close>, spread into the header slab and both halves of every row.\<close>

definition hoverProps :: hover_props where
  "hoverProps = \<lparr>hover_scale = 102 / 100, hover_y = -2, tap_scale = 995 / 1000\<rparr>"

record slide_pose =
  sp_x :: int
  sp_opacity :: real

definition row_viewport :: viewport_opts where
  "row_viewport = \<lparr>vp_amount = 1 / 2, vp_once = False\<rparr>"

text \<open>The role pill slides in from the left, the details from the right; both come to rest at \<open>x = 0\<close>.\<close>

definition row_pill_initial :: slide_pose where "row_pill_initial = \<lparr>sp_x = -60, sp_opacity = 6 / 10\<rparr>"
definition row_details_initial :: slide_pose where "row_details_initial = \<lparr>sp_x = 60, sp_opacity = 6 / 10\<rparr>"
definition row_in_view :: slide_pose where "row_in_view = \<lparr>sp_x = 0, sp_opacity = 1\<rparr>"

text \<open>The poses of a row's two halves after the visible fractions \<open>rs\<close> have been observed.\<close>

definition row_poses_after :: "real list \<Rightarrow> slide_pose \<times> slide_pose" where
  "row_poses_after rs =
     (let shown = in_view_run row_viewport False rs
      in (pose row_pill_initial row_in_view shown, pose row_details_initial row_in_view shown))"

definition exp_ring_text :: ring_text where
  "exp_ring_text = \<lparr>rt_href = ''#expPath'', rt_offset = ''0%'', rt_length = None, rt_text = ''EXPERIENCE '' @ BULLET\<rparr>"

text \<open>Three copies of the text, started at a third of the path from each other.\<close>

definition Experience_ring :: ring_view where
  "Experience_ring =
     \<lparr>ring_viewBox = (0, 0, 120, 120), ring_path_id = ''expPath'', ring_d = RING_D,
      ring_pathLength = None, ring_rotate = 360, ring_duration = 18, ring_color = ''var(--accent-cyan)'',
      ring_texts = [exp_ring_text, exp_ring_text\<lparr>rt_offset := ''33.33%''\<rparr>, exp_ring_text\<lparr>rt_offset := ''66.66%''\<rparr>]\<rparr>"

subsection \<open>Lemmas\<close>

lemma experience_keys_distinct:
  "distinct (map row_key ExperienceSequence) \<and>
   list_all (\<lambda>r. distinct (map fst (row_bullets r))) ExperienceSequence"
  by (simp add: ExperienceSequence_def ROLES_def experience_row_def comp_def EN_DASH_def EM_DASH_def)

lemma experience_tags: "map row_caption ExperienceSequence = [''03. Experience'', ''02. Experience'', ''01. Experience'']"
  by (simp add: ExperienceSequence_def ROLES_def experience_row_def)

text \<open>A row whose halves are scrolled out of view returns both to their initial offsets, on opposite sides.\<close>

lemma row_hides_again:
  "rs \<noteq> [] \<Longrightarrow> last rs < 1 / 2 \<Longrightarrow> row_poses_after rs = (row_pill_initial, row_details_initial) \<and>
   sp_x row_pill_initial = - sp_x row_details_initial"
  by (simp add: row_poses_after_def in_view_repeat_last row_viewport_def pose_def row_pill_initial_def
                row_details_initial_def)

end
