(* ===== verification/Hero.thy ===== *)
theory Hero
  imports Prelude
begin

text \<open>
  The hero grid of \<open>src/src/components/HeroTiles.tsx\<close> (rendered by \<open>Hero.tsx\<close>):
  the \<open>Tile\<close> helper with its default props, the in-tile \<open>Marquee\<close> (ten copies of a
  text animated from \<open>x = 0%\<close> to \<open>x = -50%\<close>), the split Projects/Skills cell and the
  four tiles of \<open>HeroTiles\<close>.  A tile is a link when its \<open>href\<close> is truthy; its caption
  is shown when its \<open>label\<close> is truthy.  Of a tile's children only the marquees are
  modelled; the static icons and captions are markup.
\<close>

definition SPEED_blue :: nat where "SPEED_blue = 60"
definition SPEED_projects :: nat where "SPEED_projects = 42"
definition SPEED_skills :: nat where "SPEED_skills = 48"
definition SPEED_contact :: nat where "SPEED_contact = 45"

datatype tile_variant = Tile_blue | Tile_white | Tile_ink | Tile_banana
datatype tile_align = Align_start | Align_center | Align_end
datatype corner_icon = MoonIcon | ArrowIcon

definition variants :: "tile_variant \<Rightarrow> jstring" where
  "variants v = (case v of
      Tile_blue \<Rightarrow> ''bg-[var(--pill-blue)] text-white''
    | Tile_white \<Rightarrow> ''bg-white text-black''
    | Tile_ink \<Rightarrow> ''bg-[var(--pill-ink)] text-white''
    | Tile_banana \<Rightarrow> ''bg-[var(--pill-banana)] text-black'')"

record hero_marquee =
  hm_speed :: nat
  hm_spans :: "(nat \<times> jstring) list"

text \<open>\<open>Marquee({ text, speed = 60 })\<close>: ten spans keyed \<open>0..9\<close>.\<close>

definition Marquee :: "jstring \<Rightarrow> nat option \<Rightarrow> hero_marquee" where
  "Marquee text speed =
     \<lparr>hm_speed = (case speed of None \<Rightarrow> 60 | Some x \<Rightarrow> x), hm_spans = map (\<lambda>i. (i, text)) [0..<10]\<rparr>"

record tile_view =
  tile_class :: jstring
  tile_icon_class :: jstring
  tile_icon :: corner_icon
  tile_align_class :: jstring
  tile_label :: "jstring option"
  tile_label_blur :: bool
  tile_decorations :: bool
  tile_link :: "(jstring \<times> bool) option"
  tile_marquees :: "hero_marquee list"

text \<open>
  \<open>Tile\<close>: omitted props are \<open>None\<close> and take their defaults (\<open>align = "start"\<close>,
  \<open>replace = false\<close>, \<open>blurLabelOnHover = false\<close>); \<open>label && ...\<close> and
  \<open>href ? ... : ...\<close> test truthiness, so the empty string counts as absent.
\<close>

definition Tile ::
  "tile_variant \<Rightarrow> jstring option \<Rightarrow> jstring option \<Rightarrow> tile_align option \<Rightarrow> bool option \<Rightarrow> bool option \<Rightarrow>
   hero_marquee list \<Rightarrow> tile_view" where
  "Tile variant label href align replace blur children =
     (let al = (case align of None \<Rightarrow> Align_start | Some a \<Rightarrow> a);
          rp = (case replace of None \<Rightarrow> False | Some b \<Rightarrow> b);
          bl = (case blur of None \<Rightarrow> False | Some b \<Rightarrow> b)
      in \<lparr>tile_class = variants variant,
          tile_icon_class = (if variant = Tile_white \<or> variant = Tile_banana then ''bg-black/5 text-black'' else ''bg-white/15 text-white''),
          tile_icon = (if variant = Tile_blue then MoonIcon else ArrowIcon),
          tile_align_class = (if al = Align_center then ''items-center'' else if al = Align_end then ''items-end'' else ''items-start''),
          tile_label = (case label of Some l \<Rightarrow> if l = [] then None else Some l | None \<Rightarrow> None),
          tile_label_blur = bl,
          tile_decorations = (variant = Tile_blue),
          tile_link = (case href of Some h \<Rightarrow> if h = [] then None else Some (h, rp) | None \<Rightarrow> None),
          tile_marquees = children\<rparr>)"

definition SplitProjectsSkills :: "tile_view list" where
  "SplitProjectsSkills =
     [Tile Tile_white (Some ''Projects'') (Some ''#projects'') (Some Align_center) (Some True) (Some True)
        [Marquee (''See what I'' @ [CHR 0x27] @ ''ve built'') (Some SPEED_projects)],
      Tile Tile_ink (Some ''Skills'') (Some ''#skills'') (Some Align_center) (Some True) (Some True)
        [Marquee (''AI '' @ BULLET @ '' Full-stack '' @ BULLET @ '' Data '' @ BULLET) (Some SPEED_skills)]]"

definition bannerText :: jstring where
  "bannerText = ''MS in Information Science: Machine Learning | Former Senior Software Engineer | Analytics Enthusiasts |''"

definition HeroTiles :: "tile_view list" where
  "HeroTiles =
     [Tile Tile_blue (Some ''Work experience'') (Some ''#experience'') (Some Align_center) (Some True) None
        [Marquee bannerText (Some SPEED_blue)]] @
     SplitProjectsSkills @
     [Tile Tile_banana (Some ''Where to reach me'') (Some ''#contact'') (Some Align_center) (Some True) (Some True)
        [Marquee (''Email '' @ BULLET @ '' Github '' @ BULLET @ '' Linkedin '' @ BULLET @ '' Instagram '' @ BULLET) (Some SPEED_contact)]]"

declare Tile_def [view_defs] Marquee_def [view_defs]

record hero_view =
  hero_section_id :: jstring
  hero_from_opacity :: real
  hero_to_opacity :: real
  hero_tiles :: "tile_view list"

text \<open>\<open>Hero\<close> (\<open>Hero.tsx\<close>): the section \<open>#hero\<close>, fading the tiles in from opacity 0.\<close>

definition Hero_view :: hero_view where
  "Hero_view = \<lparr>hero_section_id = ''hero'', hero_from_opacity = 0, hero_to_opacity = 1, hero_tiles = HeroTiles\<rparr>"

definition hero_links :: "jstring list" where
  "hero_links = map fst (List.map_filter tile_link (hero_tiles Hero_view))"

subsection \<open>Lemmas\<close>

lemma upt_10: "[0..<10] = [0::nat, 1, 2, 3, 4, 5, 6, 7, 8, 9]"
  by (simp add: upt_rec)

text \<open>
  The marquee loops seamlessly: the track moves by half its width per cycle, and the
  second half of the spans shows the same texts as the first.
\<close>

lemma marquee_halves:
  "map snd (drop 5 (hm_spans (Marquee t sp))) = map snd (take 5 (hm_spans (Marquee t sp))) \<and>
   distinct (map fst (hm_spans (Marquee t sp)))"
  by (simp add: view_defs upt_10)

lemma hero_links_eq: "hero_links = [''#experience'', ''#projects'', ''#skills'', ''#contact'']"
  by (simp add: hero_links_def Hero_view_def HeroTiles_def SplitProjectsSkills_def view_defs Let_def map_filter_simps)

lemma hero_links_replace: "list_all (\<lambda>t. case tile_link t of None \<Rightarrow> True | Some (h, r) \<Rightarrow> r) HeroTiles"
  by (simp add: HeroTiles_def SplitProjectsSkills_def view_defs Let_def)

end
