(* ===== verification/Projects.thy ===== *)
theory Projects
  imports Prelude
begin

text \<open>
  The static project data of \<open>src/src/data/projects.ts\<close>: the \<open>Tone\<close> union, the
  \<open>Project\<close> type as a record (the optional \<open>results\<close> and \<open>links\<close> of its
  \<open>details\<close> as options), and the \<open>projects\<close> array, string for string.  The icon
  components are a datatype of the Heroicons the site imports.  Non-ASCII characters of the
  data (dashes, the middle dot, the arrow) are written as their UTF-8 bytes (Prelude).  The lemmas
  state the facts about the data that the gallery and the detail page rely on.
\<close>

subsection \<open>Types\<close>

datatype tone = Lavender | PastelBlue | Phthalo | Lime | PastelRed | Tone_white | Tone_dark

text \<open>The Heroicons components used by the gallery and the detail page.\<close>

datatype icon =
  CommandLineIcon | CpuChipIcon | ChatBubbleLeftRightIcon | BeakerIcon | RocketLaunchIcon
| BoltIcon | SparklesIcon | PuzzlePieceIcon | LightBulbIcon

record project_links =
  github :: "jstring option"
  demo :: "jstring option"

record project_details =
  overview :: jstring
  highlights :: "jstring list"
  results :: "jstring list option"
  links :: "project_links option"

record project =
  slug :: jstring
  title :: jstring
  blurb :: jstring
  tone :: tone
  icon :: icon
  stack :: "jstring list"
  details :: project_details

text \<open>
  The inline style object \<open>{ bg, text, border }\<close> that both \<open>toneStyle\<close> helpers
  (of the gallery and of the detail page) return for a tone.
\<close>

record tone_colours =
  tone_bg :: jstring
  tone_text :: jstring
  tone_border :: jstring

subsection \<open>The projects array\<close>

definition projects :: "project list" where
  "projects = [
    \<lparr>slug = ''skipscout'', title = ''SkipScout'',
     blurb = ''Chrome extension that extracts YouTube transcripts and runs local LLM summarization & Q&A via Ollama'' @ EM_DASH @ ''privacy-first and fast.'',
     tone = Lavender, icon = CommandLineIcon,
     stack = [''Chrome MV3'', ''TypeScript'', ''Ollama'', ''LLM'', ''Vite''],
     details = \<lparr>overview = ''Manifest V3 extension that fetches/scrapes transcripts, summarizes, and answers questions using locally hosted LLMs (Gemma/Qwen) through Ollama'' @ EM_DASH @ ''no data leaves your machine.'',
       highlights = [''Content scripts + service worker + declarativeNetRequest'',
                     ''Robust transcript extraction (DOM or timedtext API)'',
                     ''Summarization & Q&A pipelines with caching and prompts'',
                     ''Responsive panel UI with FAB & tooltips''],
       results = Some [''~2'' @ EN_DASH @ ''3s local response'', ''Privacy-first, low latency''],
       links = Some \<lparr>github = Some ''https://github.com/your/skipscout'', demo = None\<rparr>\<rparr>\<rparr>,
    \<lparr>slug = ''gan-detector'', title = ''GAN/CNN Image Detector'',
     blurb = ''EfficientNetV2 + GAN discriminators to classify AI-generated vs real images; tuned for accuracy, cost, and latency.'',
     tone = PastelBlue, icon = CpuChipIcon,
     stack = [''PyTorch'', ''timm'', ''Python''],
     details = \<lparr>overview = ''Trained multiple architectures (EfficientNetV2, StyleGAN/ProGAN discriminators) on a 10k+ image dataset to detect synthetic imagery.'',
       highlights = [''Transfer learning, dropout, heavy augmentation'',
                     ''Evaluation with ROC/AUC, PR curves and confusion matrices''],
       results = Some [''97% acc '' @ MIDDOT @ '' 0.973 F1 '' @ MIDDOT @ '' 0.997 AUC (EffNetV2)''],
       links = Some \<lparr>github = Some ''https://github.com/your/gan-detector'', demo = None\<rparr>\<rparr>\<rparr>,
    \<lparr>slug = ''interviewmate'', title = ''InterviewMate'',
     blurb = ''AI-powered interview automation with Whisper STT, HeyGen avatars, and cosine-similarity scoring for explainable feedback.'',
     tone = Phthalo, icon = RocketLaunchIcon,
     stack = [''React'', ''Node'', ''MongoDB'', ''Whisper'', ''HeyGen''],
     details = \<lparr>overview = ''End-to-end interview system with real-time transcription, avatar-led prompts, and transparent response scoring.'',
       highlights = [''React frontend + Node backend (REST)'',
                     ''Auth, scheduling, session persistence'',
                     ''Cosine-similarity scoring with rationales''],
       results = None, links = None\<rparr>\<rparr>,
    \<lparr>slug = ''pv-signal'', title = ''AI PV Reporting'',
     blurb = ''FAERS/MedDRA analytics with PRR/ROR + CIs, dashboards, and LLM insights to surface adverse-event signals.'',
     tone = Lime, icon = BeakerIcon,
     stack = [''Python'', ''DuckDB'', ''Pandas'', ''Altair'', ''Ollama''],
     details = \<lparr>overview = ''Built a full pipeline: ETL JSON'' @ RARROW @ ''Parquet, signal detection (PRR/ROR with continuity correction), and interactive dashboards.'',
       highlights = [''DuckDB + Parquet for fast local analytics'',
                     ''Altair dashboards & Ag-Grid explorer'',
                     ''LLM notes via Gemma (Ollama)''],
       results = None, links = None\<rparr>\<rparr>,
    \<lparr>slug = ''pharmaai'', title = ''PharmaAI'',
     blurb = ''Local, privacy-preserving RAG for medication info'' @ EM_DASH @ ''Gemma 3 + sentence embeddings; accurate and fast on consumer hardware.'',
     tone = PastelRed, icon = ChatBubbleLeftRightIcon,
     stack = [''Ollama'', ''Embeddings'', ''RAG'', ''Streamlit'', ''Docker''],
     details = \<lparr>overview = ''RAG answers grounded in a curated medication DB; designed for offline/local use with low energy footprint.'',
       highlights = [''Sentence-embedding search + context packing'',
                     ''Prompt templates to reduce hallucinations'',
                     ''Streamlit conversational UI; Dockerized''],
       results = Some [''92% response accuracy '' @ MIDDOT @ '' ~2.8s median latency '' @ MIDDOT @ '' 3% hallucination''],
       links = None\<rparr>\<rparr>]"

subsection \<open>Facts about the data\<close>

lemma length_projects [simp]: "length projects = 5"
  by (simp add: projects_def)

lemma slugs_projects:
  "map slug projects = [''skipscout'', ''gan-detector'', ''interviewmate'', ''pv-signal'', ''pharmaai'']"
  by (simp add: projects_def)

lemma distinct_slugs [simp]: "distinct (map slug projects)"
  by (simp add: slugs_projects)

end
