(* ===== verification/Gallery.thy ===== *)
theory Gallery
  imports Projects Ring Motion
begin

text \<open>
  The project gallery of \<open>src/src/components/ProjectsGallery.tsx\<close>: its \<open>toneStyle\<close>
  helper, the hover marquee \<open>PillMarquee\<close> (two identical copies of six spans, which
  the CSS track scrolls by half its width for a seamless loop), the cards of the grid
  with their link, colours, entrance direction and the odd-count layout, and the
  scroll effect that keeps the location hash at \<open>#projects\<close>.  The gallery is a
  function of the project list, so that its layout lemmas hold for any list; the page
  renders it for \<open>projects\<close>.
\<close>

subsection \<open>Colours\<close>

definition MARQUEE_desktop :: jstring where "MARQUEE_desktop = ''60s''"
definition MARQUEE_mobile :: jstring where "MARQUEE_mobile = ''70s''"

text \<open>
  The \<open>switch\<close> covers all seven tones, so its \<open>default\<close> branch (the dark style) is
  unreachable; the \<open>case\<close> below has exactly the seven reachable branches.
\<close>

definition toneStyle :: "tone \<Rightarrow> tone_colours" where
  "toneStyle t = (case t of
      Tone_white \<Rightarrow> \<lparr>tone_bg = ''var(--card-white)'', tone_text = ''#0a0a0b'', tone_border = ''rgba(10,10,11,.12)''\<rparr>
    | Tone_dark \<Rightarrow> \<lparr>tone_bg = ''var(--card-dark)'', tone_text = ''white'', tone_border = ''rgba(255,255,255,.10)''\<rparr>
    | Lime \<Rightarrow> \<lparr>tone_bg = ''var(--card-lime)'', tone_text = ''#0a0a0b'', tone_border = ''rgba(10,10,11,.12)''\<rparr>
    | Lavender \<Rightarrow> \<lparr>tone_bg = ''var(--card-lavender)'', tone_text = ''#0a0a0b'', tone_border = ''rgba(10,10,11,.12)''\<rparr>
    | PastelBlue \<Rightarrow> \<lparr>tone_bg = ''var(--card-pastel-blue)'', tone_text = ''#0a0a0b'', tone_border = ''rgba(10,10,11,.12)''\<rparr>
    | Phthalo \<Rightarrow> \<lparr>tone_bg = ''var(--card-phthalo)'', tone_text = ''white'', tone_border = ''rgba(255,255,255,.10)''\<rparr>
    | PastelRed \<Rightarrow> \<lparr>tone_bg = ''var(--card-pastel-red)'', tone_text = ''#0a0a0b'', tone_border = ''rgba(255,105,97,.12)''\<rparr>)"

subsection \<open>The hover marquee\<close>

record marquee_span =
  span_key :: jstring
  span_class :: jstring
  span_text :: jstring

record marquee_view =
  m_speed :: jstring
  m_copies :: "(nat \<times> marquee_span list) list"

text \<open>
  \<open>PillMarquee\<close>: the default parameter \<open>sizeClass = "text-[32px]"\<close> applies when the
  argument is \<open>undefined\<close> (\<open>None\<close>); each span holds the text, a space, two
  no-break spaces, a bar and a no-break space.
\<close>

definition PillMarquee :: "jstring \<Rightarrow> jstring \<Rightarrow> jstring option \<Rightarrow> marquee_view" where
  "PillMarquee text speed sizeClass =
     (let sc = (case sizeClass of None \<Rightarrow> ''text-[32px]'' | Some c \<Rightarrow> c)
      in \<lparr>m_speed = speed,
          m_copies = map (\<lambda>copy. (copy, map (\<lambda>i.
              \<lparr>span_key = show_nat copy @ ''-'' @ show_nat i,
               span_class = sc @ '' font-semibold leading-none mr-10'',
               span_text = text @ '' '' @ NBSP @ NBSP @ ''|'' @ NBSP\<rparr>) [0..<6])) [0, 1]\<rparr>)"

subsection \<open>The cards\<close>

record card_view =
  card_key :: jstring
  card_href :: jstring
  card_aria :: jstring
  card_title :: jstring
  card_style :: tone_colours
  deco_colour :: jstring
  wide :: bool
  enter_x :: int
  desktop_marquee :: marquee_view
  mobile_marquee :: marquee_view

text \<open>\<open>oddLastIdx\<close>: the index of the last card when the count is odd, \<open>-1\<close> otherwise.\<close>

definition oddLastIdx :: "'a list \<Rightarrow> int" where
  "oddLastIdx ps = (if length ps mod 2 = 1 then int (length ps) - 1 else -1)"

definition project_card :: "int \<Rightarrow> nat \<Rightarrow> project \<Rightarrow> card_view" where
  "project_card lastOdd i p =
     (let sty = toneStyle (tone p)
      in \<lparr>card_key = slug p,
          card_href = ''/projects/'' @ slug p,
          card_aria = ''Open '' @ title p,
          card_title = title p,
          card_style = sty,
          deco_colour = (if tone_text sty = ''white'' then ''rgba(255,255,255,0.18)'' else ''rgba(0,0,0,0.22)''),
          wide = (int i = lastOdd),
          enter_x = (if i mod 2 = 0 then -40 else 40),
          desktop_marquee = PillMarquee (blurb p) MARQUEE_desktop None,
          mobile_marquee = PillMarquee (blurb p) MARQUEE_mobile (Some ''text-2xl'')\<rparr>)"

definition gallery_cards_of :: "project list \<Rightarrow> card_view list" where
  "gallery_cards_of ps = map (\<lambda>(i, p). project_card (oddLastIdx ps) i p) (enumerate 0 ps)"

definition gallery_cards :: "card_view list" where
  "gallery_cards = gallery_cards_of projects"

subsection \<open>The scroll effect\<close>

text \<open>
  The effect observes the section (returning early when the ref is empty); when the
  observer reports it intersecting, \<open>history.replaceState\<close> sets the hash to
  \<open>#projects\<close>, and otherwise the location is left as it is.
\<close>

definition gallery_on_intersect :: "bool \<Rightarrow> bool \<Rightarrow> jstring \<Rightarrow> jstring" where
  "gallery_on_intersect has_section is_intersecting hash =
     (if \<not> has_section then hash else if is_intersecting then ''#projects'' else hash)"

subsection \<open>The cards' entrance and the ring\<close>

text \<open>
  A card starts transparent and shifted by its \<open>enter_x\<close>, and comes to rest while 35% of
  it is visible, again every time it scrolls back in (\<open>once: false\<close>); it grows by 3% on hover.
\<close>

definition card_viewport :: viewport_opts where
  "card_viewport = \<lparr>vp_amount = 35 / 100, vp_once = False\<rparr>"

definition card_hover_scale :: real where "card_hover_scale = 103 / 100"

definition card_pose_after :: "card_view \<Rightarrow> real list \<Rightarrow> real \<times> int" where
  "card_pose_after c rs = pose (0, enter_x c) (1, 0) (in_view_run card_viewport False rs)"

definition Projects_ring :: ring_view where
  "Projects_ring =
     \<lparr>ring_viewBox = (0, 0, 120, 120), ring_path_id = ''projPath'', ring_d = RING_D,
      ring_pathLength = None, ring_rotate = 360, ring_duration = 18, ring_color = ''var(--accent-cyan)'',
      ring_texts = [\<lparr>rt_href = ''#projPath'', rt_offset = ''0'', rt_length = None,
                     rt_text = ''PROJECTS '' @ BULLET @ '' PROJECTS '' @ BULLET @ '' PROJECTS '' @ BULLET\<rparr>]\<rparr>"

subsection \<open>Lemmas\<close>

lemma length_gallery_cards_of [simp]: "length (gallery_cards_of ps) = length ps"
  by (simp add: gallery_cards_of_def)

lemma nth_gallery_cards_of [simp]:
  "i < length ps \<Longrightarrow> gallery_cards_of ps ! i = project_card (oddLastIdx ps) i (ps ! i)"
  by (simp add: gallery_cards_of_def nth_enumerate_eq)

lemma map_card_key [simp]: "map card_key (gallery_cards_of ps) = map slug ps"
  by (rule nth_equalityI) (simp_all add: project_card_def Let_def)

lemma card_wide_iff:
  "i < length ps \<Longrightarrow> wide (project_card (oddLastIdx ps) i p) \<longleftrightarrow> odd (length ps) \<and> i = length ps - 1"
  by (auto simp: project_card_def Let_def oddLastIdx_def odd_iff_mod_2_eq_one)

text \<open>Neighbouring cards of the grid enter from opposite sides, and every card comes to rest at \<open>x = 0\<close>.\<close>

lemma cards_alternate_sides:
  "Suc i < length ps \<Longrightarrow>
   enter_x (gallery_cards_of ps ! Suc i) = - enter_x (gallery_cards_of ps ! i) \<and>
   (\<forall>rs. rs \<noteq> [] \<longrightarrow> 35 / 100 \<le> last rs \<longrightarrow> card_pose_after (gallery_cards_of ps ! i) rs = (1, 0))"
  by (auto simp: project_card_def Let_def card_pose_after_def pose_def in_view_repeat_last card_viewport_def mod_Suc)

lemma upt_6: "[0..<6] = [0::nat, 1, 2, 3, 4, 5]"
  by (simp add: upt_rec)

subsection \<open>Properties of the gallery\<close>

text \<open>
  C30. The odd-count layout: a card spans both columns exactly when the number of
  projects is odd and it is the last card; for the five projects of the data that is the
  fifth card alone.
\<close>

theorem odd_count_layout:
  "map wide (gallery_cards_of ps) = map (\<lambda>i. odd (length ps) \<and> i = length ps - 1) [0..<length ps]"
  by (rule nth_equalityI) (simp_all add: card_wide_iff)

text \<open>
  The hover marquee loops seamlessly: two copies, keyed 0 and 1, of the same six spans,
  with twelve distinct keys.
\<close>

lemma marquee_seamless:
  "\<exists>xs ys. m_copies (PillMarquee t sp c) = [(0, xs), (1, ys)] \<and>
     map span_text xs = map span_text ys \<and> map span_class xs = map span_class ys \<and>
     length xs = 6 \<and> distinct (map span_key (xs @ ys))"
  by (simp add: PillMarquee_def Let_def upt_6)

end
