(* ===== verification/Project_Page.thy ===== *)
theory Project_Page
  imports Projects "HOL-Library.Multiset"
begin

text \<open>
  The detail page of \<open>src/src/app/projects/[slug]/page.tsx\<close>.  Its own copy of
  \<open>toneStyle\<close>; the icon pool and the three fixed positions; the random sample of three
  icons drawn with \<open>pool.splice(Math.floor(Math.random() * pool.length), 1)[0]\<close>
  (\<open>js_splice1\<close> writes out \<open>splice\<close> for every integer index, negative and past the
  end included); \<open>Math.round\<close>; the lookup of the project by slug; and the page,
  whose \<open>notFound()\<close> is the error value \<open>Inl NotFound\<close>.  \<open>Math.random()\<close> is the
  function \<open>rs\<close>: \<open>rs k\<close> is the value of its \<open>k\<close>-th call during the render, in
  the order the code makes them (three for the sample, then a size and a duration for
  each icon).
\<close>

subsection \<open>Colours\<close>

text \<open>As in the gallery, the \<open>default\<close> branch of the exhaustive \<open>switch\<close> is unreachable.\<close>

definition page_toneStyle :: "tone \<Rightarrow> tone_colours" where
  "page_toneStyle t = (case t of
      Tone_white \<Rightarrow> \<lparr>tone_bg = ''var(--card-white)'', tone_text = ''#0a0a0b'', tone_border = ''rgba(10,10,11,.12)''\<rparr>
    | Tone_dark \<Rightarrow> \<lparr>tone_bg = ''var(--card-dark)'', tone_text = ''white'', tone_border = ''rgba(255,255,255,.10)''\<rparr>
    | Lime \<Rightarrow> \<lparr>tone_bg = ''var(--card-lime)'', tone_text = ''#0a0a0b'', tone_border = ''rgba(10,10,11,.12)''\<rparr>
    | Lavender \<Rightarrow> \<lparr>tone_bg = ''var(--card-lavender)'', tone_text = ''#0a0a0b'', tone_border = ''rgba(10,10,11,.12)''\<rparr>
    | PastelBlue \<Rightarrow> \<lparr>tone_bg = ''var(--card-pastel-blue)'', tone_text = ''#0a0a0b'', tone_border = ''rgba(10,10,11,.12)''\<rparr>
    | Phthalo \<Rightarrow> \<lparr>tone_bg = ''var(--card-phthalo)'', tone_text = ''white'', tone_border = ''rgba(255,255,255,.10)''\<rparr>
    | PastelRed \<Rightarrow> \<lparr>tone_bg = ''var(--card-pastel-red)'', tone_text = ''#0a0a0b'', tone_border = ''rgba(255,105,97,.12)''\<rparr>)"

subsection \<open>The random triangle of icons\<close>

definition ICON_POOL :: "icon list" where
  "ICON_POOL = [BoltIcon, CpuChipIcon, BeakerIcon, CommandLineIcon, RocketLaunchIcon,
                SparklesIcon, PuzzlePieceIcon, LightBulbIcon]"

definition TRI_POS :: "(jstring \<times> jstring) list" where
  "TRI_POS = [(''10%'', ''7%''), (''26%'', ''15%''), (''38%'', ''9%'')]"

text \<open>
  \<open>xs.splice(k, 1)\<close>: a negative start counts from the end (clamped at \<open>0\<close>), a start
  past the end is clamped to the length; it returns the removed elements (here the first
  of them, \<open>[0]\<close>, which is \<open>undefined\<close> when nothing was removed) and the shortened
  array.
\<close>

definition js_splice1 :: "'a list \<Rightarrow> int \<Rightarrow> 'a option \<times> 'a list" where
  "js_splice1 xs k =
     (let n = int (length xs);
          start = nat (if k < 0 then max (n + k) 0 else min k n)
      in (js_at xs start, take start xs @ drop (Suc start) xs))"

text \<open>
  \<open>sample(n)\<close>: \<open>Array.from({ length: n }, f)\<close> calls \<open>f\<close> \<open>n\<close> times in order,
  each call consuming one \<open>Math.random()\<close> and shrinking the pool.  \<open>k\<close> is the index
  of the next random value.
\<close>

fun sample :: "(nat \<Rightarrow> real) \<Rightarrow> nat \<Rightarrow> 'a list \<Rightarrow> nat \<Rightarrow> 'a option list \<times> 'a list" where
  "sample rs k pool 0 = ([], pool)"
| "sample rs k pool (Suc n) =
     (let (x, pool') = js_splice1 pool \<lfloor>rs k * real (length pool)\<rfloor>;
          (xs, pool'') = sample rs (Suc k) pool' n
      in (x # xs, pool''))"

text \<open>\<open>Math.round\<close> rounds halves up.\<close>

definition js_round :: "real \<Rightarrow> int" where
  "js_round x = \<lfloor>x + 1 / 2\<rfloor>"

definition rnd :: "real \<Rightarrow> real \<Rightarrow> real \<Rightarrow> int" where
  "rnd r lo hi = js_round (lo + r * (hi - lo))"

record triangle =
  tri_icon :: "icon option"
  tri_pos :: "(jstring \<times> jstring) option"
  tri_size :: int
  tri_duration :: real

text \<open>
  \<open>triangleIcons\<close>: the sample of three, then for the \<open>i\<close>-th icon its position, a size
  (random call \<open>3 + 2 i\<close>) and a duration (call \<open>4 + 2 i\<close>), in the order the object
  literal evaluates them.
\<close>

definition triangleIcons :: "(nat \<Rightarrow> real) \<Rightarrow> triangle list" where
  "triangleIcons rs =
     (let picked = fst (sample rs 0 ICON_POOL 3)
      in map (\<lambda>(i, ic). \<lparr>tri_icon = ic, tri_pos = js_at TRI_POS i,
                          tri_size = rnd (rs (3 + 2 * i)) 28 96,
                          tri_duration = 3 + rs (4 + 2 * i) * 3 / 2\<rparr>) (enumerate 0 picked))"

subsection \<open>Entrance presets\<close>

record fade_up =
  fu_from_opacity :: real
  fu_from_y :: real
  fu_from_blur :: jstring
  fu_to_opacity :: real
  fu_to_y :: real
  fu_to_blur :: jstring
  fu_duration :: real
  fu_delay :: real

text \<open>\<open>fadeUp(delay = 0)\<close>, spread into the title, details and stack pills with delays 0, 0.12, 0.24.\<close>

definition fadeUp :: "real option \<Rightarrow> fade_up" where
  "fadeUp d = \<lparr>fu_from_opacity = 0, fu_from_y = 14, fu_from_blur = ''blur(3px)'',
               fu_to_opacity = 1, fu_to_y = 0, fu_to_blur = ''blur(0px)'',
               fu_duration = 1 / 2, fu_delay = (case d of None \<Rightarrow> 0 | Some x \<Rightarrow> x)\<rparr>"

definition page_fades :: "fade_up list" where
  "page_fades = [fadeUp (Some 0), fadeUp (Some (12 / 100)), fadeUp (Some (24 / 100))]"

subsection \<open>The page\<close>

text \<open>
  The route of the page: Next.js serves \<open>app/projects/[slug]/page.tsx\<close> for a path
  \<open>/projects/<segment>\<close> with a single non-empty segment, passing the segment as
  \<open>params.slug\<close> (the slugs of the data need no percent-decoding).
\<close>

definition route_slug :: "jstring \<Rightarrow> jstring option" where
  "route_slug path =
     (let pre = ''/projects/''; seg = drop (length pre) path
      in if take (length pre) path = pre \<and> seg \<noteq> [] \<and> CHR ''/'' \<notin> set seg then Some seg else None)"

definition find_project :: "jstring \<Rightarrow> project option" where
  "find_project s = find (\<lambda>p. slug p = s) projects"

datatype page_error = NotFound

record page_view =
  pv_title :: jstring
  pv_tone :: tone_colours
  pv_icon_colour :: jstring
  pv_triangles :: "triangle list"
  pv_overview :: jstring
  pv_highlights :: "jstring list"
  pv_results :: "jstring list option"
  pv_links :: "(jstring \<times> jstring) list"
  pv_stack :: "jstring list"
  pv_back :: jstring
  pv_fades :: "fade_up list"

text \<open>
  The links row: \<open>proj.details.links?.github && ...\<close> renders a link only for a present,
  non-empty string (the empty string is falsy).
\<close>

definition link_row :: "project_links option \<Rightarrow> (jstring \<times> jstring) list" where
  "link_row l =
     (case l of None \<Rightarrow> []
      | Some ls \<Rightarrow>
          (case github ls of Some g \<Rightarrow> if g = [] then [] else [(''GitHub'', g)] | None \<Rightarrow> []) @
          (case demo ls of Some d \<Rightarrow> if d = [] then [] else [(''Live demo'', d)] | None \<Rightarrow> []))"

text \<open>The back link of the stack pill, to the projects section of the home page.\<close>

definition BACK_HREF :: jstring where "BACK_HREF = ''/#projects''"

definition ProjectPage :: "jstring \<Rightarrow> (nat \<Rightarrow> real) \<Rightarrow> page_error + page_view" where
  "ProjectPage s rs =
     (let proj = find_project s; tris = triangleIcons rs
      in case proj of
           None \<Rightarrow> Inl NotFound
         | Some p \<Rightarrow>
             (let tn = page_toneStyle (tone p)
              in Inr \<lparr>pv_title = title p, pv_tone = tn, pv_icon_colour = tone_text tn,
                      pv_triangles = tris,
                      pv_overview = overview (details p),
                      pv_highlights = map (\<lambda>h. BULLET @ '' '' @ h) (highlights (details p)),
                      pv_results = map_option (map (\<lambda>r. BULLET @ '' '' @ r)) (results (details p)),
                      pv_links = link_row (links (details p)),
                      pv_stack = stack p,
                      pv_back = BACK_HREF, pv_fades = page_fades\<rparr>))"

subsection \<open>Lemmas\<close>

lemma js_splice1_in_range:
  "0 \<le> k \<Longrightarrow> k < int (length xs) \<Longrightarrow>
   js_splice1 xs k = (Some (xs ! nat k), take (nat k) xs @ drop (Suc (nat k)) xs)"
  by (simp add: js_splice1_def Let_def js_at_def)

lemma mset_take_drop_nth:
  "j < length xs \<Longrightarrow> add_mset (xs ! j) (mset (take j xs @ drop (Suc j) xs)) = mset xs"
  by (subst (3) id_take_nth_drop [of j xs]) simp_all

lemma random_index_bounds:
  assumes "0 \<le> r" and "r < 1" and "0 < n"
  shows "0 \<le> \<lfloor>r * real n\<rfloor>" and "\<lfloor>r * real n\<rfloor> < int n" and "nat \<lfloor>r * real n\<rfloor> < n"
proof -
  show "0 \<le> \<lfloor>r * real n\<rfloor>" using assms by simp
  have "r * real n < real n" using assms by simp
  then show "\<lfloor>r * real n\<rfloor> < int n" by (simp add: floor_less_iff)
  then show "nat \<lfloor>r * real n\<rfloor> < n" using assms by (simp add: nat_less_iff)
qed

lemma sample_mset:
  assumes "\<forall>k. 0 \<le> rs k \<and> rs k < 1"
  shows "n \<le> length pool \<Longrightarrow> sample rs k pool n = (xs, rest) \<Longrightarrow>
         \<exists>ys. xs = map Some ys \<and> mset ys + mset rest = mset pool \<and> length ys = n"
proof (induction n arbitrary: k pool xs rest)
  case 0
  then show ?case by simp
next
  case (Suc n)
  define j where "j = \<lfloor>rs k * real (length pool)\<rfloor>"
  have len: "0 < length pool" using Suc.prems(1) by linarith
  have j: "0 \<le> j" "j < int (length pool)" "nat j < length pool"
    using random_index_bounds [of "rs k" "length pool"] assms len unfolding j_def by auto
  define pool' where "pool' = take (nat j) pool @ drop (Suc (nat j)) pool"
  have sp: "js_splice1 pool j = (Some (pool ! nat j), pool')"
    unfolding pool'_def using j(1,2) by (rule js_splice1_in_range)
  obtain xs' where r: "sample rs (Suc k) pool' n = (xs', rest)" and x: "xs = Some (pool ! nat j) # xs'"
    using Suc.prems(2) by (auto simp: sp j_def [symmetric] split: prod.splits)
  have "n \<le> length pool'" using Suc.prems(1) j by (simp add: pool'_def)
  from Suc.IH [OF this r] obtain ys where
    ys: "xs' = map Some ys" "mset ys + mset rest = mset pool'" "length ys = n" by blast
  have "add_mset (pool ! nat j) (mset pool') = mset pool"
    unfolding pool'_def using j(3) by (rule mset_take_drop_nth)
  with ys x show ?case by (intro exI [of _ "pool ! nat j # ys"]) auto
qed

lemma sample_distinct:
  assumes "\<forall>k. 0 \<le> rs k \<and> rs k < 1" and "distinct pool" and "n \<le> length pool"
  shows "\<exists>ys. fst (sample rs k pool n) = map Some ys \<and> distinct ys \<and> set ys \<subseteq> set pool \<and> length ys = n"
proof -
  obtain xs rest where s: "sample rs k pool n = (xs, rest)" by fastforce
  from sample_mset [OF assms(1) assms(3) s] obtain ys where
    ys: "xs = map Some ys" "mset ys + mset rest = mset pool" "length ys = n" by blast
  then have m: "mset (ys @ rest) = mset pool" by simp
  then have "distinct ys" using assms(2) mset_eq_imp_distinct_iff [OF m] by simp
  moreover have "set ys \<subseteq> set pool" using mset_eq_setD [OF m] by auto
  ultimately show ?thesis using s ys by auto
qed

lemma length_sample [simp]: "length (fst (sample rs k pool n)) = n"
  by (induction n arbitrary: k pool) (simp_all add: case_prod_beta)

lemma length_TRI_POS [simp]: "length TRI_POS = 3"
  by (simp add: TRI_POS_def)

lemma length_triangleIcons [simp]: "length (triangleIcons rs) = 3"
  by (simp add: triangleIcons_def Let_def)

lemma rnd_bounds:
  assumes "0 \<le> r" and "r < 1" and "lo \<le> hi"
  shows "lo \<le> rnd r (of_int lo) (of_int hi) \<and> rnd r (of_int lo) (of_int hi) \<le> hi"
proof -
  have "0 \<le> r * (of_int hi - of_int lo)" using assms by simp
  moreover have "r * (of_int hi - of_int lo) \<le> of_int hi - of_int lo"
    using assms mult_left_le_one_le [of "of_int hi - of_int lo" r] by simp
  ultimately show ?thesis
    unfolding rnd_def js_round_def by (simp add: floor_le_iff le_floor_iff)
qed

lemma slugs_routable: "list_all (\<lambda>p. slug p \<noteq> [] \<and> CHR ''/'' \<notin> set (slug p)) projects"
  by (simp add: projects_def)

lemma route_slug_href: "s \<noteq> [] \<Longrightarrow> CHR ''/'' \<notin> set s \<Longrightarrow> route_slug (''/projects/'' @ s) = Some s"
  by (simp add: route_slug_def)

lemma find_project_slug [simp]: "p \<in> set projects \<Longrightarrow> find_project (slug p) = Some p"
  unfolding find_project_def by (rule find_unique_key) simp_all

lemma page_keys_distinct:
  "list_all (\<lambda>p. distinct (stack p) \<and> distinct (highlights (details p)) \<and>
                 distinct (case results (details p) of None \<Rightarrow> [] | Some r \<Rightarrow> r)) projects"
  by (simp add: projects_def EN_DASH_def MIDDOT_def)

text \<open>The links row of the data: only the first two projects have a link, to the placeholder account \<open>github.com/your\<close>.\<close>

lemma page_links:
  "map (\<lambda>p. link_row (links (details p))) projects =
     [[(''GitHub'', ''https://github.com/your/skipscout'')], [(''GitHub'', ''https://github.com/your/gan-detector'')], [], [], []]"
  by (simp add: projects_def link_row_def)

text \<open>The three pills of a project page enter in document order, 120 ms apart.\<close>

lemma page_fades_staggered:
  "map fu_delay page_fades = [0, 12 / 100, 24 / 100] \<and> sorted_wrt (<) (map fu_delay page_fades)"
  by (simp add: page_fades_def fadeUp_def)

subsection \<open>Properties of the detail page\<close>

text \<open>
  C32. The three icons of the title pill never repeat: when every \<open>Math.random()\<close> is in
  \<open>[0, 1)\<close>, the sample is three distinct icons of \<open>ICON_POOL\<close>, none of them
  \<open>undefined\<close>.
\<close>

theorem triangle_icons_distinct:
  assumes "\<forall>k. 0 \<le> rs k \<and> rs k < 1"
  shows "\<exists>ys. map tri_icon (triangleIcons rs) = map Some ys \<and> distinct ys \<and> set ys \<subseteq> set ICON_POOL \<and> length ys = 3"
proof -
  have "distinct ICON_POOL" "3 \<le> length ICON_POOL" by (simp_all add: ICON_POOL_def)
  from sample_distinct [OF assms this] obtain ys where
    ys: "fst (sample rs 0 ICON_POOL 3) = map Some ys" "distinct ys" "set ys \<subseteq> set ICON_POOL" "length ys = 3"
    by blast
  have "map tri_icon (triangleIcons rs) = fst (sample rs 0 ICON_POOL 3)"
    unfolding triangleIcons_def Let_def by (rule nth_equalityI) (simp_all add: nth_enumerate_eq)
  with ys show ?thesis by auto
qed

theorem triangle_icons_distinct_witness:
  "(\<forall>k. 0 \<le> (\<lambda>_. 0 :: real) k \<and> (\<lambda>_. 0 :: real) k < 1) \<and>
   (\<exists>ys. map tri_icon (triangleIcons (\<lambda>_. 0)) = map Some ys \<and> distinct ys \<and> set ys \<subseteq> set ICON_POOL \<and> length ys = 3)"
proof -
  have h: "\<forall>k. 0 \<le> (\<lambda>_. 0 :: real) k \<and> (\<lambda>_. 0 :: real) k < 1" by simp
  from h triangle_icons_distinct [OF h] show ?thesis by blast
qed

text \<open>
  C33. The icons sit at the three fixed positions of \<open>TRI_POS\<close>, each with a size in
  \<open>[28, 96]\<close> pixels and a jiggle duration in \<open>[3, 4.5)\<close> seconds.
\<close>

theorem triangle_layout_bounds:
  assumes "\<forall>k. 0 \<le> rs k \<and> rs k < 1"
  shows "map tri_pos (triangleIcons rs) = map Some TRI_POS \<and>
         list_all (\<lambda>t. 28 \<le> tri_size t \<and> tri_size t \<le> 96 \<and> 3 \<le> tri_duration t \<and> tri_duration t < 9 / 2)
           (triangleIcons rs)"
proof
  show "map tri_pos (triangleIcons rs) = map Some TRI_POS"
    unfolding triangleIcons_def Let_def
    by (rule nth_equalityI) (simp_all add: nth_enumerate_eq js_at_def)
next
  have "28 \<le> rnd (rs i) 28 96 \<and> rnd (rs i) 28 96 \<le> 96" for i
    using rnd_bounds [of "rs i" 28 96] assms by simp
  moreover have "3 \<le> 3 + rs i * 3 / 2 \<and> 3 + rs i * 3 / 2 < (9 / 2 :: real)" for i
    using assms by (auto simp: field_simps)
  ultimately show "list_all (\<lambda>t. 28 \<le> tri_size t \<and> tri_size t \<le> 96 \<and> 3 \<le> tri_duration t \<and> tri_duration t < 9 / 2)
           (triangleIcons rs)"
    by (simp add: triangleIcons_def Let_def list_all_iff case_prod_beta)
qed

theorem triangle_layout_bounds_witness:
  "(\<forall>k. 0 \<le> (\<lambda>_. 1 / 2 :: real) k \<and> (\<lambda>_. 1 / 2 :: real) k < 1) \<and>
   map tri_pos (triangleIcons (\<lambda>_. 1 / 2)) = map Some TRI_POS \<and>
   list_all (\<lambda>t. 28 \<le> tri_size t \<and> tri_size t \<le> 96 \<and> 3 \<le> tri_duration t \<and> tri_duration t < 9 / 2)
     (triangleIcons (\<lambda>_. 1 / 2))"
proof -
  have h: "\<forall>k. 0 \<le> (\<lambda>_. 1 / 2 :: real) k \<and> (\<lambda>_. 1 / 2 :: real) k < 1" by simp
  from h triangle_layout_bounds [OF h] show ?thesis by blast
qed

text \<open>
  C34. An unknown slug is an error: the page calls \<open>notFound()\<close> for every slug that is
  not the slug of a project.
\<close>

theorem page_not_found:
  assumes "s \<notin> slug ` set projects"
  shows "ProjectPage s rs = Inl NotFound"
proof -
  have "find_project s = None" using assms by (auto simp: find_project_def find_None_iff)
  then show ?thesis by (simp add: ProjectPage_def)
qed

theorem page_not_found_witness:
  "''nope'' \<notin> slug ` set projects \<and> ProjectPage ''nope'' (\<lambda>_. 0) = Inl NotFound"
proof -
  have h: "''nope'' \<notin> slug ` set projects"
    by (simp add: slugs_projects flip: set_map)
  from h page_not_found [OF h] show ?thesis by blast
qed

end
