(* ===== verification/Intro.thy ===== *)
theory Intro
  imports Ring Motion
begin

text \<open>
  The intro pill of \<open>src/src/components/IntroPill.tsx\<close>: a black pill that fades and rises
  into place the first time 30% of it is visible, with the profile photo on its right, the
  "What I do" copy, and a ring at its bottom-right corner whose text "WHAT I DO" is laid
  along the whole circle (\<open>textLength\<close> equal to \<open>pathLength\<close>).  Layout classes are markup.
\<close>

record intro_pose =
  ip_opacity :: real
  ip_y :: real
  ip_scale :: real

record intro_view =
  iv_initial :: intro_pose
  iv_in_view :: intro_pose
  iv_hover_scale :: real
  iv_viewport :: viewport_opts
  iv_duration :: real
  iv_image_src :: jstring
  iv_image_alt :: jstring
  iv_eyebrow :: jstring
  iv_heading :: jstring
  iv_copy :: jstring
  iv_ring :: ring_view

text \<open>
  The ring's text spans two source lines; JSX joins them with one space, so it reads
  "WHAT I DO \<bullet> " six times, without the last space.
\<close>

definition intro_ring_text :: jstring where
  "intro_ring_text =
     ''WHAT I DO '' @ BULLET @ '' WHAT I DO '' @ BULLET @ '' WHAT I DO '' @ BULLET @ '' WHAT I DO '' @ BULLET @
     '' WHAT I DO '' @ BULLET @ '' WHAT I DO '' @ BULLET"

definition IntroPill_ring :: ring_view where
  "IntroPill_ring =
     \<lparr>ring_viewBox = (0, 0, 120, 120), ring_path_id = ''ringPath'', ring_d = RING_D,
      ring_pathLength = Some 360, ring_rotate = 360, ring_duration = 16, ring_color = ''var(--accent)'',
      ring_texts = [\<lparr>rt_href = ''#ringPath'', rt_offset = ''0'', rt_length = Some 360, rt_text = intro_ring_text\<rparr>]\<rparr>"

definition intro_viewport :: viewport_opts where
  "intro_viewport = \<lparr>vp_amount = 3 / 10, vp_once = True\<rparr>"

definition IntroPill :: intro_view where
  "IntroPill =
     \<lparr>iv_initial = \<lparr>ip_opacity = 0, ip_y = 16, ip_scale = 985 / 1000\<rparr>,
      iv_in_view = \<lparr>ip_opacity = 1, ip_y = 0, ip_scale = 1\<rparr>,
      iv_hover_scale = 101 / 100,
      iv_viewport = intro_viewport,
      iv_duration = 1 / 2,
      iv_image_src = ''/me.jpg'', iv_image_alt = ''Profile photo'',
      iv_eyebrow = ''What I do'',
      iv_heading = ''I help teams ship ML-powered products, crafted with clarity & speed.'',
      iv_copy = ''I'' @ RSQUO @ ''m a data & machine learning practitioner with an MS in Information Science '' @
                ''(ML emphasis, 4.0 GPA) and 5+ years as a Senior Software Engineer. I build end-to-end systems'' @
                EM_DASH @ ''clean data pipelines, reliable APIs, and thoughtful UIs'' @ EM_DASH @
                '' then deploy them so they scale. Comfortable with supervised & unsupervised learning, deep nets, '' @
                ''and large-scale analytics; equally fluent in Java/Spring, React/Next, SQL/NoSQL, and cloud-ready '' @
                ''microservices. I care about performance, clarity, and making the product feel great to use.'',
      iv_ring = IntroPill_ring\<rparr>"

text \<open>The pose of the pill after the visible fractions \<open>rs\<close> have been observed.\<close>

definition intro_pose_after :: "real list \<Rightarrow> intro_pose" where
  "intro_pose_after rs = pose (iv_initial IntroPill) (iv_in_view IntroPill) (in_view_run (iv_viewport IntroPill) False rs)"

subsection \<open>Lemmas\<close>

lemma intro_ring_text_period:
  "intro_ring_text = butlast (concat (replicate 6 (''WHAT I DO '' @ BULLET @ '' '')))"
  by (simp add: intro_ring_text_def BULLET_def numeral_eq_Suc)

text \<open>The ring's text is stretched over exactly the length of its path: one full turn.\<close>

lemma intro_text_spans_circle:
  "list_all (\<lambda>t. rt_length t = ring_pathLength (iv_ring IntroPill) \<and> rt_offset t = ''0'') (ring_texts (iv_ring IntroPill))"
  by (simp add: IntroPill_def IntroPill_ring_def)

text \<open>
  Once 30% of the pill has been visible it keeps its final pose, whatever the scrolling
  before and after (\<open>once: true\<close>).
\<close>

lemma intro_stays_shown:
  "3 / 10 \<le> r \<Longrightarrow> intro_pose_after (rs @ r # ts) = iv_in_view IntroPill"
  by (simp add: intro_pose_after_def pose_def in_view_once_iff IntroPill_def intro_viewport_def in_view_step_def)

end
