(* ===== verification/Home.thy ===== *)
theory Home
  imports Hero Gallery Project_Page Brand Intro Experience Contact
begin

text \<open>
  The home page of \<open>src/src/app/page.tsx\<close> as the sequence of its sections (header,
  hero, intro pill, experience, projects, skills, contact), each with the element ids it
  renders, and the in-page anchors the site links to: the hero tiles, the brand corner's
  home link, the detail page's back link and the hash the gallery's observer writes.
  \<open>hash_target\<close> is how the browser resolves such a link on the home page (the fragment
  of \<open>#id\<close> or \<open>/#id\<close>).  The header's reduced-motion switch is modelled too.  The ids of the rings' paths and of
  the form fields are taken from the components that render them.
\<close>

subsection \<open>Element ids of the sections\<close>

definition header_ids :: "jstring list" where "header_ids = [''header'']"
definition hero_ids :: "jstring list" where "hero_ids = [hero_section_id Hero_view]"
definition intro_ids :: "jstring list" where "intro_ids = [ring_path_id (iv_ring IntroPill)]"
definition experience_ids :: "jstring list" where "experience_ids = [''experience'', ring_path_id Experience_ring]"
definition gallery_ids :: "jstring list" where "gallery_ids = [''projects'', ring_path_id Projects_ring]"
definition skills_ids :: "jstring list" where "skills_ids = [''skills'']"
definition contact_ids :: "jstring list" where
  "contact_ids = [''contact'', ring_path_id Contact_ring] @ map field_id contact_fields"

definition HomePage_ids :: "jstring list" where
  "HomePage_ids = header_ids @ hero_ids @ intro_ids @ experience_ids @ gallery_ids @ skills_ids @ contact_ids"

subsection \<open>In-page anchors\<close>

definition corner_href :: jstring where "corner_href = corner_link (BrandCorner_view None Blue)"

definition hash_target :: "jstring \<Rightarrow> jstring option" where
  "hash_target h =
     (if take 1 h = ''#'' then Some (drop 1 h)
      else if take 2 h = ''/#'' then Some (drop 2 h) else None)"

definition site_anchors :: "jstring list" where
  "site_anchors = hero_links @ [corner_href, BACK_HREF, gallery_on_intersect True True []]"

subsection \<open>The rings of the page\<close>

text \<open>The rotating rings in the order the page renders their sections.\<close>

definition site_rings :: "ring_view list" where
  "site_rings = [iv_ring IntroPill, Experience_ring, Projects_ring, Contact_ring]"

subsection \<open>The header's wobble\<close>

record wobble =
  wb_x :: "int list"
  wb_duration :: "real option"
  wb_delay :: real

text \<open>\<open>useReducedMotion()\<close> replaces both infinite wobbles by a static offset.\<close>

definition wobbleLeft :: "bool \<Rightarrow> wobble" where
  "wobbleLeft prefersReduced =
     (if prefersReduced then \<lparr>wb_x = [0], wb_duration = None, wb_delay = 0\<rparr>
      else \<lparr>wb_x = [-6, 6, -6], wb_duration = Some 5, wb_delay = 0\<rparr>)"

definition wobbleRight :: "bool \<Rightarrow> wobble" where
  "wobbleRight prefersReduced =
     (if prefersReduced then \<lparr>wb_x = [0], wb_duration = None, wb_delay = 0\<rparr>
      else \<lparr>wb_x = [7, -7, 7], wb_duration = Some (26 / 5), wb_delay = 1 / 5\<rparr>)"

record font_opts =
  font_subsets :: "jstring list"
  font_weight :: jstring
  font_display :: jstring

definition nanumPen :: font_opts where
  "nanumPen = \<lparr>font_subsets = [''latin''], font_weight = ''400'', font_display = ''swap''\<rparr>"

record name_line =
  nl_from_opacity :: real
  nl_from_x :: int
  nl_to_opacity :: real
  nl_to_x :: int
  nl_duration :: real
  nl_delay :: real
  nl_aria :: jstring
  nl_text :: jstring
  nl_wobble :: wobble

record header_view =
  hv_id :: jstring
  hv_font :: font_opts
  hv_lines :: "name_line list"

text \<open>
  \<open>Header\<close>: the two lines of the name, each in a wobbling wrapper; each line blurs in
  from 40px outside and settles 10px off centre, the second 80 ms after the first.
\<close>

definition Header_view :: "bool \<Rightarrow> header_view" where
  "Header_view prefersReduced =
     \<lparr>hv_id = ''header'', hv_font = nanumPen,
      hv_lines =
        [\<lparr>nl_from_opacity = 0, nl_from_x = -40, nl_to_opacity = 1, nl_to_x = -10, nl_duration = 7 / 10,
          nl_delay = 0, nl_aria = ''Abhimanyu'', nl_text = ''Abhimanyu'', nl_wobble = wobbleLeft prefersReduced\<rparr>,
         \<lparr>nl_from_opacity = 0, nl_from_x = 40, nl_to_opacity = 1, nl_to_x = 10, nl_duration = 7 / 10,
          nl_delay = 8 / 100, nl_aria = ''Pandey'', nl_text = ''Pandey'', nl_wobble = wobbleRight prefersReduced\<rparr>]\<rparr>"

subsection \<open>Lemmas\<close>

lemma site_anchors_eq:
  "site_anchors = [''#experience'', ''#projects'', ''#skills'', ''#contact'', ''/#header'', ''/#projects'', ''#projects'']"
  by (simp add: site_anchors_def hero_links_eq corner_href_def BrandCorner_view_def Let_def BACK_HREF_def gallery_on_intersect_def)

lemma HomePage_ids_eq:
  "HomePage_ids = [''header'', ''hero'', ''ringPath'', ''experience'', ''expPath'', ''projects'', ''projPath'', ''skills'',
                   ''contact'', ''contactPath'', ''name'', ''email'', ''subject'', ''message'']"
  by (simp add: HomePage_ids_def header_ids_def hero_ids_def intro_ids_def experience_ids_def gallery_ids_def
                skills_ids_def contact_ids_def Hero_view_def IntroPill_def IntroPill_ring_def Experience_ring_def Projects_ring_def
                Contact_ring_def contact_fields_def)

text \<open>
  Each line's accessible name is its visible text; the lines enter from opposite sides
  and settle symmetrically about the centre, whether or not motion is reduced.
\<close>

lemma header_lines_symmetric:
  "list_all (\<lambda>l. nl_aria l = nl_text l \<and> nl_to_opacity l = 1) (hv_lines (Header_view pr)) \<and>
   map nl_from_x (hv_lines (Header_view pr)) = [-40, 40] \<and> map nl_to_x (hv_lines (Header_view pr)) = [-10, 10] \<and>
   hv_id (Header_view pr) \<in> set header_ids"
  by (simp add: Header_view_def header_ids_def)

lemma reduced_motion_static:
  "wb_duration (wobbleLeft True) = None \<and> wb_duration (wobbleRight True) = None \<and>
   wb_x (wobbleLeft True) = [0] \<and> wb_x (wobbleRight True) = [0]"
  by (simp add: wobbleLeft_def wobbleRight_def)

end
