(* ===== verification/Layout.thy ===== *)
theory Layout
  imports Theme_Toggle
begin

text \<open>
  The root layout of \<open>src/src/app/layout.tsx\<close>: the data of its \<open>metadata\<close> and
  \<open>viewport\<close> exports, the props of the \<open>next-themes\<close> provider, and the order of
  the body's children.  Next.js's title template (\<open>%s\<close> replaced by a page's own
  title, the default for a page without one) is modelled from the framework's
  documentation, as \<open>page_title\<close>.
\<close>

subsection \<open>Metadata\<close>

definition metadataBase :: jstring where "metadataBase = ''https://your-domain.com''"

definition layout_keywords :: "jstring list" where
  "layout_keywords = [''Abhimanyu Pandey'', ''Machine Learning'', ''Data Science'', ''AI'', ''Software Engineer'',
     ''Software Developer'', ''Portfolio'', ''Projects'', ''Skills'', ''Contact'', ''Resume'', ''CV'', ''Python'',
     ''JavaScript'', ''TypeScript'', ''Node.js'', ''Django'', ''Flask'', ''AWS'', ''Docker'', ''Kubernetes'',
     ''TensorFlow'', ''PyTorch'', ''NLP'', ''Computer Vision'', ''React Native'', ''Vue.js'', ''Angular'',
     ''Golang'', ''Ruby on Rails'', ''DevOps'', ''Agile'', ''Scrum'', ''GitHub'', ''LinkedIn'', ''Instagram'',
     ''Tech Enthusiast'', ''Tech Blogger'', ''Hackathons'', ''Full-Stack'', ''React'', ''Next.js'', ''Java'',
     ''Spring Boot'', ''Portfolio'']"

record og_image =
  og_url :: jstring
  og_width :: nat
  og_height :: nat
  og_alt :: jstring

record site_metadata =
  applicationName :: jstring
  title_default :: jstring
  title_template :: jstring
  description :: jstring
  authors :: "jstring list"
  creator :: jstring
  publisher :: jstring
  og_type :: jstring
  og_site_url :: jstring
  og_siteName :: jstring
  og_title :: jstring
  og_description :: jstring
  og_images :: "og_image list"
  og_locale :: jstring
  manifest :: jstring

definition metadata :: site_metadata where
  "metadata =
     \<lparr>applicationName = ''Abhimanyu Pandey - Portfolio'',
      title_default = ''Abhimanyu Pandey - ML + Full-Stack'',
      title_template = ''%s '' @ BULLET @ '' Abhimanyu Pandey'',
      description = ''Portfolio of Abhimanyu Pandey - ML practitioner & full-stack engineer. Projects, skills, and contact.'',
      authors = [''Abhimanyu Pandey''], creator = ''Abhimanyu Pandey'', publisher = ''Abhimanyu Pandey'',
      og_type = ''website'', og_site_url = ''https://your-domain.com/'',
      og_siteName = ''Abhimanyu Pandey - Portfolio'', og_title = ''Abhimanyu Pandey - ML + Full-Stack'',
      og_description = ''Projects that blend ML with solid engineering. Explore skills and get in touch.'',
      og_images = [\<lparr>og_url = ''/og.png'', og_width = 1200, og_height = 630, og_alt = ''Abhimanyu Pandey''\<rparr>],
      og_locale = ''en_US'', manifest = ''/site.webmanifest''\<rparr>"

text \<open>
  The title of a page: the template with \<open>%s\<close> replaced by the page's own title, or
  the default title when the page exports none (the project pages are client components
  and export no metadata).
\<close>

fun subst_s :: "jstring \<Rightarrow> jstring \<Rightarrow> jstring" where
  "subst_s (CHR ''%'' # CHR ''s'' # rest) t = t @ subst_s rest t"
| "subst_s (c # rest) t = c # subst_s rest t"
| "subst_s [] t = []"

definition page_title :: "jstring option \<Rightarrow> jstring" where
  "page_title own = (case own of None \<Rightarrow> title_default metadata | Some t \<Rightarrow> subst_s (title_template metadata) t)"

subsection \<open>Viewport and theme provider\<close>

definition viewport_themeColor :: "(jstring \<times> jstring) list" where
  "viewport_themeColor = [(''(prefers-color-scheme: light)'', ''#f7f8fb''), (''(prefers-color-scheme: dark)'', ''#0b0b0e'')]"

record provider_props =
  attribute :: jstring
  defaultTheme :: jstring
  enableSystem :: bool
  disableTransitionOnChange :: bool

definition layout_provider :: provider_props where
  "layout_provider = \<lparr>attribute = ''class'', defaultTheme = ''dark'', enableSystem = True,
                      disableTransitionOnChange = False\<rparr>"

datatype layout_child = RandomFavicon_child | BrandCorner_child | Page_children | ThemeToggle_child | Theme_overlay

definition RootLayout_body :: "layout_child list" where
  "RootLayout_body = [RandomFavicon_child, BrandCorner_child, Page_children, ThemeToggle_child, Theme_overlay]"

subsection \<open>Lemmas\<close>

lemma layout_keywords_repeat: "count_list layout_keywords ''Portfolio'' = 2 \<and> length layout_keywords = 45"
  by (simp add: layout_keywords_def)

text \<open>
  The toggle's pre-mount assumption is the provider's default: before mount the toggle
  renders as if the theme were \<open>defaultTheme\<close>, whatever the store holds.
\<close>

lemma provider_default_is_premount_theme: "theme_str (current False st) = defaultTheme layout_provider"
  by (simp add: current_def theme_str_def layout_provider_def)

lemma page_title_cases:
  "page_title None = ''Abhimanyu Pandey - ML + Full-Stack'' \<and>
   page_title (Some ''Projects'') = ''Projects '' @ BULLET @ '' Abhimanyu Pandey''"
  by (simp add: page_title_def metadata_def BULLET_def)

text \<open>
  The address-bar colours the viewport declares are not the colours the theme ripple
  paints: the cover of a switch to dark is \<open>#000000\<close> while the dark theme colour is
  \<open>#0b0b0e\<close>, and likewise for light.
\<close>

lemma theme_colours_differ_from_ripple:
  "map snd viewport_themeColor = [''#f7f8fb'', ''#0b0b0e''] \<and>
   PAGE_COLOR Light = ''#ffffff'' \<and> PAGE_COLOR Dark = ''#000000''"
  by (simp add: viewport_themeColor_def PAGE_COLOR_def)

end
