(* ===== verification/Spec2Isabelle.thy ===== *)
theory Spec2Isabelle
  imports Toggle_Spec Toggle_Loop Brand Contact Skills Experience Home Layout
begin

text \<open>
  \<^bold>\<open>A verification development for the portfolio site (pandeyg33/portfolio).\<close>

  \<^bold>\<open>The program.\<close>  A Next.js site: one home page (\<open>src/src/app/page.tsx\<close>) that stacks
  presentational sections (header, hero tiles, intro pill, experience timeline, project
  gallery, skills marquees, contact form), per-project detail pages
  (\<open>src/src/app/projects/[slug]/page.tsx\<close>) that look a project up by its slug in the
  static data of \<open>src/src/data/projects.ts\<close>, and a root layout
  (\<open>src/src/app/layout.tsx\<close>) that mounts three client components on every page: the
  theme toggle, the randomised favicon and the brand corner.  The only component with
  state that evolves over time is the theme-ripple controller
  (\<open>src/src/components/ThemeToggle.tsx\<close>); the favicon and the brand corner share a
  process-wide memoised random pick (\<open>src/src/lib/brandVariant.ts\<close>).  Four sections
  (intro pill, experience, projects, contact) draw the same rotating SVG ring, and three
  (intro pill, experience rows, project cards) enter on scroll through framer-motion's
  \<open>whileInView\<close>.

  \<^bold>\<open>Theory graph.\<close>  Prelude; Theme_Toggle, then Toggle_Spec (its abstract
  specification) and Toggle_Loop (its timer loop run to quiescence); Brand; Projects,
  then Gallery and Project_Page; Ring and Motion (shared by the sections), then Intro,
  Experience and Contact; Skills, Hero; Layout (over Theme_Toggle); Home over the
  sections; this theory over all of them.

  \<^bold>\<open>Theory Prelude.\<close>  The JavaScript idioms the components use (\<open>??\<close>, \<open>||\<close> on
  strings, \<open>trim\<close>, ASCII lower-casing, reading an array past its end as
  \<open>undefined\<close>, numbers in template literals), the browser's percent-decoding, the UTF-8
  bytes of the non-ASCII characters in the sources, and generic list and multiset lemmas.
  Two collections carry the component proofs: \<open>queue_simps\<close> (removal from a timer
  queue by a unique key) and \<open>view_defs\<close> (the definitions of rendered views, unfolded
  together by the view lemmas of Contact and Hero).

  \<^bold>\<open>Theory Theme_Toggle\<close> models \<open>ThemeToggle.tsx\<close>.  The record
  \<open>toggle_state\<close> holds the component's state and refs (\<open>mounted\<close>, \<open>ripples\<close>,
  \<open>seq\<close>, \<open>timers\<close>) together with what the component drives: the \<open>next-themes\<close>
  preference store (\<open>theme_store\<close>, \<open>setTheme\<close>), whether it is still mounted in the
  tree (\<open>live\<close>), and the window's pending timeouts with their handles and the clock
  (\<open>queue\<close>, \<open>next_handle\<close>, \<open>now\<close>; \<open>set_timeout\<close>, \<open>clear_timeout\<close>).
  \<open>onClick\<close> is the click handler; \<open>run_callback\<close> runs the two closures the
  handler schedules (\<open>Flip\<close>: set the theme, add the reveal ripple, schedule the
  cleanup; \<open>Cleanup\<close>: drop both ripples of the pair); \<open>mount\<close> and \<open>unmount\<close> are
  the two effects.  \<open>fire\<close> is the event loop running the earliest due timeout (ties
  in scheduling order) and advancing the clock; \<open>tt_step\<close> is the labelled step
  relation of the page (click, timeout, mount, teardown, time passing, a foreign store
  change) and \<open>reach\<close> its reachable states; \<open>page_step\<close> and \<open>run_events\<close> are the
  same steps as executable functions, proved equivalent (\<open>page_step_iff\<close>).
  \<open>toggle_button\<close> and \<open>render_overlays\<close> are the rendered output;
  \<open>cover_radius\<close>/\<open>cover_covers\<close> give the geometry of the linear clip-path
  animation of a cover overlay.

  The invariant \<open>tt_inv\<close> says that ripple ids are strictly increasing and bounded by
  \<open>seq\<close>, that pending handles are distinct, below the next handle and due no earlier
  than now, that a mounted controller tracks every pending handle in \<open>timers\<close> and
  that the multiset of ripple keys equals the keys the pending callbacks will remove
  (\<open>pending_keys\<close>), and that an unmounted controller has nothing pending.
  \<open>ripple_inv\<close> adds the corner origin and the colours.  Both hold in every reachable
  state (\<open>reach_inv\<close>, \<open>reach_ripple_inv\<close>, by rule induction over \<open>reach\<close> and then
  \<open>tt_step\<close>).  From them: the theme changes only under a cover of the target colour
  (C1), no stale ripples (C2), teardown safety (C4), a cleanup removes exactly its pair
  (C5), unique ids (C6), the ripple count (C8) and the overlay layout (C17).  The run of
  one activation is computed symbolically (C3, C13, C18), and \<open>drain\<close> runs the
  pending timeouts out with fuel \<open>weight\<close> (two per pending flip, one per pending
  cleanup), which is enough because each firing lowers the weight by exactly one (C7).

  \<^bold>\<open>Theory Toggle_Loop\<close> runs the event loop without fuel: \<open>settle\<close> is
  \<open>while_option\<close> (HOL-Library.While_Combinator) firing timeouts while one is pending,
  so not returning would be \<open>None\<close>.  Since each firing lowers \<open>weight\<close> by one,
  \<open>settle\<close> agrees with \<open>drain\<close> at fuel \<open>weight\<close> and returns \<open>Some\<close> of a quiet,
  reachable state from every reachable state (C35, termination).

  \<^bold>\<open>Findings.\<close>  The theme flips 500 ms after the click while the cover grows for
  650 ms, so the flip is visible at the far corner of a square viewport (C11; the cover
  does cover any viewport once complete, C12); two quick clicks schedule the same
  target (C13); a click before mount always targets light (C14); the reveal overlay
  grows rather than shrinks (C15); the pre-mount placeholder is the switch-to-light dot
  (C16); the \<open>timers\<close> ref keeps fired handles until unmount (C18).

  \<^bold>\<open>Theory Brand\<close> models \<open>brandVariant.ts\<close>, \<open>RandomFavicon.tsx\<close> and
  \<open>BrandCorner.tsx\<close>.  The record \<open>window\<close> holds \<open>window.__brandVariant\<close> and the
  \<open>data-brand-variant\<close> attribute; the window is \<open>None\<close> on the server and
  \<open>Math.random()\<close> is a real argument.  \<open>pickBrandVariant\<close> is the memoised pick
  (reading \<open>pool\<close> past its end is \<open>undefined\<close>, \<open>None\<close>); \<open>favicon_cssVar\<close>,
  \<open>favicon_colours\<close> and \<open>buildSVG\<close> build the exact SVG text over a stylesheet
  environment; \<open>encodeURIComponent\<close> percent-encodes it (on ASCII, which the template
  and the fallback colours are); the document head is a list of nodes, and
  \<open>replaceAllIcons\<close> removes the nodes the five selectors match and appends the three
  new links; \<open>favicon_run\<close> is the body of the effect.  \<open>corner_style\<close>,
  \<open>corner_initial\<close> and \<open>corner_effect\<close> are the corner's colour map, initial state and
  mount effect.  To state what an icon shows, \<open>percent_decode\<close> and
  \<open>data_url_body\<close> read a \<open>data:\<close> URL back.  The lemmas prove that the favicon shows
  the window's variant (C19, via the encoding round trip C20 and the exact head C21),
  that the pick is memoised, uniform and total on \<open>[0, 1)\<close> (C22 to C24), that both
  components use the same colours (C25), and that, whichever effect runs first, both show
  the same variant (C29, in this theory).  \<open>window_conforms\<close> is the typing of the
  window (the dataset attribute is the string of the stored variant) and a pick keeps it,
  returning a variant, never \<open>undefined\<close> (C31).  \<open>BrandCorner_view\<close> is the corner's
  rendered link.

  \<^bold>\<open>Theories Projects, Gallery and Project_Page\<close> model \<open>data/projects.ts\<close> (the
  record \<open>project\<close> and the array \<open>projects\<close>, string for string),
  \<open>ProjectsGallery.tsx\<close> (\<open>toneStyle\<close>, \<open>PillMarquee\<close>, the cards of
  \<open>gallery_cards_of\<close> with the odd-count layout, the hash-keeping observer) and
  \<open>app/projects/[slug]/page.tsx\<close> (its copy \<open>page_toneStyle\<close>, the random
  triangle \<open>triangleIcons\<close> built from \<open>sample\<close> with \<open>splice\<close> and
  \<open>Math.round\<close> written out, \<open>find_project\<close>, and \<open>ProjectPage\<close>, whose
  \<open>notFound()\<close> is \<open>Inl NotFound\<close>).  \<open>Math.random()\<close> on the page is a sequence
  \<open>rs\<close> indexed by call order.  The sample keeps the multiset invariant \<open>picked +
  rest = pool\<close>, so the icons are distinct (C32) and their sizes and durations bounded
  (C33); the gallery spans its last card exactly for an odd count (C30) and its hover
  marquee loops seamlessly (\<open>Gallery.marquee_seamless\<close>); the cards enter from
  alternating sides (\<open>Gallery.cards_alternate_sides\<close>); the page's three \<open>fadeUp\<close>
  pills are staggered in document order; unknown slugs are errors (C34); every card's link routes to its own project with
  the same title and colours (C37, in this theory), and the two \<open>toneStyle\<close> copies
  are equal (C38).  The route of the page is modelled from Next.js's convention
  (\<open>route_slug\<close>).

  \<^bold>\<open>Theory Toggle_Spec\<close> is the abstract specification of the controller, after the
  spec's public contract: a spec state (\<open>tspec\<close>) is the theme store, the mounted and
  live flags and the multiset of transitions in flight, each covering (flip to a target
  pending) or revealing (cleanup pending); \<open>spec_step\<close> activates, flips, cleans up,
  mounts, tears down or takes a foreign store change.  \<open>abs_state\<close> reads each pending
  timeout of the code as one transition.  The simulation lemmas (\<open>sim_click\<close>,
  \<open>sim_fire\<close>, \<open>sim_unmount\<close>, \<open>sim_step\<close>) show that every page step is a spec step
  or leaves the abstraction unchanged, so the code refines the spec (C27), and the
  ripples on screen are exactly the spec's (from \<open>tt_inv\<close>).

  \<^bold>\<open>Theory Contact\<close> models \<open>ContactSection.tsx\<close>: the chips, \<open>isDisabled\<close>,
  \<open>btnLabel\<close> and the button (\<open>send_button\<close>), the validation messages and the
  success pill, as functions of Formspree's form state.  The form's life cycle, which
  belongs to \<open>@formspree/react\<close>, is the guarded step relation \<open>form_step\<close> (a
  submission needs the button enabled; a response needs a submission in flight).  The
  button has exactly three reachable states (C39) and \<open>Sent\<close> is final (C40).  The
  \<open>fade\<close> preset, the header slab's scroll-driven \<open>scaleX\<close> (\<open>useTransform\<close> as the
  clamped linear map, so it stays in \<open>[0.94, 1]\<close>: \<open>slab_scale_bounds\<close>), the four
  form fields and the ring with its arrow glyph are modelled as well.

  \<^bold>\<open>Theories Ring and Motion\<close> hold what the sections share.  \<open>Ring\<close> has the
  rings' path data \<open>RING_D\<close> and the browser's reading of an SVG \<open>d\<close> attribute,
  modelled from the SVG grammar for integer coordinates: \<open>svg_lex\<close> (numbers, signs
  that start a new number, command letters), \<open>chunks\<close> and \<open>chunk_segs\<close> (argument
  groups, implicit repetition, a move's extra pairs as line-tos), \<open>absolute\<close>
  (relative to absolute coordinates, the subpath start for \<open>Z\<close>), and \<open>ring_ok\<close>:
  after empty subpaths (\<open>strip_moves\<close>) the path is a move and two arcs of one radius
  between antipodal points with the same sweep (\<open>full_circle\<close>, centre computed by
  \<open>ring_circle\<close>) inside the view box, the ring turns 360 degrees, and every
  \<open>textPath\<close> references the ring's path.  \<open>Motion\<close> is framer-motion's documented
  \<open>whileInView\<close>/\<open>viewport\<close> behaviour over a scroll given as the sequence of observed
  visible fractions: with \<open>once\<close> a shown element stays shown
  (\<open>in_view_once_iff\<close>), without it the element follows the last observation
  (\<open>in_view_repeat_last\<close>).  The intro pill, the experience rows and the cards use it.
  Every ring of the page is well formed, with a path id carried by exactly one element
  of the page (C9, in this theory).

  \<^bold>\<open>Theory Intro\<close> models \<open>IntroPill.tsx\<close>: its entrance poses and viewport
  (once, at 30%), hover scale, image and copy, and its ring, whose text "WHAT I DO"
  (six periods, \<open>intro_ring_text_period\<close>) has \<open>textLength\<close> equal to the path's
  \<open>pathLength\<close>, so it spans the whole circle.

  \<^bold>\<open>Theory Layout\<close> models \<open>app/layout.tsx\<close>: the \<open>metadata\<close> export (the title
  template with its \<open>%s\<close> substitution as Next.js applies it, \<open>page_title\<close>;
  keywords; the Open Graph image), the \<open>viewport\<close> theme colours, the
  \<open>ThemeProvider\<close> props, whose \<open>defaultTheme\<close> is the theme the toggle assumes before
  mount (\<open>provider_default_is_premount_theme\<close>), and the order of the provider's
  children (\<open>RootLayout_body\<close>).

  \<^bold>\<open>Theory Skills\<close> models \<open>SkillsMarquees.tsx\<close>: \<open>SKILLS\<close>, \<open>Row\<close> (two keyed
  copies of the list, default props) and the three rows of \<open>SkillsMarquees\<close>.  With the
  gallery and the detail page it gives the uniqueness of every data-driven React key
  (C36, in this theory).

  \<^bold>\<open>Theories Hero, Experience and Home.\<close>  \<open>Hero\<close> models \<open>HeroTiles.tsx\<close>:
  \<open>Tile\<close> (default props, a link when \<open>href\<close> is truthy, a caption when \<open>label\<close>
  is), the in-tile \<open>Marquee\<close> (ten spans, animated by half its width, so its halves
  agree: \<open>marquee_halves\<close>) and the four tiles, faded in by \<open>Hero_view\<close> (\<open>Hero.tsx\<close>).  \<open>Experience\<close> holds the \<open>ROLES\<close>
  data of \<open>ExperienceSequence.tsx\<close> with its rows and keys, the shared
  \<open>hoverProps\<close>, the rows' slide-in from opposite sides (\<open>row_hides_again\<close>: they
  slide out again, \<open>once: false\<close>) and the ring with three copies of its text.
  \<open>Home\<close> gives the home page of \<open>app/page.tsx\<close> as its sections' element ids (the
  ring and field ids taken from the section models), the site's in-page anchors and how
  the browser resolves them (\<open>hash_target\<close>), the rings of the page in section order,
  and \<open>Header.tsx\<close> as \<open>Header_view\<close>: the font options, the two name lines with their
  entrance (symmetric about the centre, \<open>header_lines_symmetric\<close>) and their wobbles,
  which reduced motion makes static.  Every anchor resolves to
  exactly one element (C28, in this theory), and the data-driven React keys of the
  gallery, the skills rows, the experience rows and the detail pages are unique (C36, in
  this theory).

  \<^bold>\<open>Further findings.\<close>  The icon selectors reduce to \<open>rel\<close> containing
  \<open>icon\<close> (C26), so mask icons are removed and not re-added; the brand corner renders
  blue before mount (\<open>Brand.server_pick_is_first_render\<close>); the two GitHub links of the
  data point at the placeholder account \<open>github.com/your\<close>
  (\<open>Project_Page.page_links\<close>); the spec's four-state button label is three labels in
  the code (C39); the layout's \<open>metadataBase\<close> is a placeholder domain and its keywords
  repeat \<open>Portfolio\<close> (\<open>Layout.layout_keywords_repeat\<close>); the viewport's address-bar
  colours are not the page colours of the theme ripple
  (\<open>Layout.theme_colours_differ_from_ripple\<close>).

  \<^bold>\<open>Mount order.\<close>  The layout mounts \<open>RandomFavicon\<close> before \<open>BrandCorner\<close>, so
  React runs the favicon's effect first; it defers \<open>run\<close> with \<open>setTimeout\<close>, and the
  corner's effect picks first.  C29 covers both orders.

  \<^bold>\<open>Not modelled.\<close>  Markup, CSS classes and styling beyond what a property needs
  (the CSS of the marquees is not in the repository); framer-motion's interpolation
  beyond the linear clip-path of the cover; font loading; the \<open>next-themes\<close> provider
  beyond its \<open>theme\<close>/\<open>resolvedTheme\<close>/\<open>setTheme\<close> interface; Formspree's network
  protocol; rendering of the \<open>notFound\<close> page; the favicon's
  \<open>readyState\<close>/\<open>DOMContentLoaded\<close> scheduling, which only delays \<open>run\<close>; the
  spring smoothing of the slab (\<open>useSpring\<close>) and easing curves, which only shape
  transitions between the modelled poses; fractional SVG coordinates, which no path of
  the site uses; static markup, icons and captions.
\<close>

section \<open>Properties across components\<close>

text \<open>
  C29. The favicon and the brand corner show the same variant, whichever of their mount
  effects runs first: the first one to run draws the variant and stores it in the window,
  the second one reads it back, and the favicon's icons are built for that variant.
\<close>

theorem brand_same_variant:
  assumes "0 \<le> r1" and "r1 < 1" and "0 \<le> r2" and "r2 < 1"
  shows "(\<exists>v w. favicon_run r1 env st win head = Some (w, replaceAllIcons (svg_data_url (buildSVG env v)) st head) \<and>
            corner_effect r2 w = (Some v, w)) \<and>
         (\<exists>v w. corner_effect r1 win = (Some v, w) \<and>
            favicon_run r2 env st w head = Some (w, replaceAllIcons (svg_data_url (buildSVG env v)) st head))"
proof
  obtain v w where p: "pickBrandVariant r1 (Some win) = (Some v, Some w)"
    using pick_defined [OF assms(1,2)] by blast
  then have slot: "brand_slot w = Some v" using pick_slot by fastforce
  from p slot show "\<exists>v w. favicon_run r1 env st win head = Some (w, replaceAllIcons (svg_data_url (buildSVG env v)) st head) \<and>
            corner_effect r2 w = (Some v, w)"
    by (auto simp: favicon_run_def corner_effect_def)
  from p slot show "\<exists>v w. corner_effect r1 win = (Some v, w) \<and>
            favicon_run r2 env st w head = Some (w, replaceAllIcons (svg_data_url (buildSVG env v)) st head)"
    by (auto simp: favicon_run_def corner_effect_def)
qed

theorem brand_same_variant_witness:
  "(0::real) \<le> 1 / 2 \<and> (1 / 2 :: real) < 1 \<and> (0::real) \<le> 1 / 3 \<and> (1 / 3 :: real) < 1 \<and>
   (\<exists>v w. corner_effect (1 / 2) \<lparr>brand_slot = None, dataset_brand = None\<rparr> = (Some v, w) \<and>
      favicon_run (1 / 3) (\<lambda>_. []) (1, 2, 3) w [] = Some (w, replaceAllIcons (svg_data_url (buildSVG (\<lambda>_. []) v)) (1, 2, 3) []))"
proof -
  have h: "(0::real) \<le> 1 / 2" "(1 / 2 :: real) < 1" "(0::real) \<le> 1 / 3" "(1 / 3 :: real) < 1" by simp_all
  from h brand_same_variant [OF h, of "\<lambda>_. []" "(1, 2, 3)" "\<lparr>brand_slot = None, dataset_brand = None\<rparr>" "[]"]
  show ?thesis by blast
qed

text \<open>
  C37. Every card of the gallery opens its own project: the card's link is routed to the
  detail page with the project's slug, which renders (no \<open>notFound\<close>) with the card's
  title and the card's colours.
\<close>

theorem gallery_links_open_their_project:
  assumes "c \<in> set gallery_cards"
  shows "\<exists>s v. route_slug (card_href c) = Some s \<and> ProjectPage s rs = Inr v \<and>
           pv_title v = card_title c \<and> pv_tone v = card_style c"
proof -
  from assms obtain i where i: "i < length projects" and c: "c = project_card (oddLastIdx projects) i (projects ! i)"
    by (auto simp: gallery_cards_def in_set_conv_nth)
  define p where "p = projects ! i"
  have p: "p \<in> set projects" using i by (simp add: p_def)
  then have "slug p \<noteq> [] \<and> CHR ''/'' \<notin> set (slug p)" using slugs_routable by (simp add: list_all_iff)
  moreover have "card_href c = ''/projects/'' @ slug p"
    by (simp add: c p_def [symmetric] project_card_def Let_def)
  ultimately have r: "route_slug (card_href c) = Some (slug p)"
    using route_slug_href by simp
  have "page_toneStyle (tone p) = toneStyle (tone p)"
    by (cases "tone p") (simp_all add: page_toneStyle_def toneStyle_def)
  with p r show ?thesis by (simp add: ProjectPage_def c p_def [symmetric] project_card_def Let_def)
qed

theorem gallery_links_open_their_project_witness:
  "gallery_cards ! 0 \<in> set gallery_cards \<and>
   (\<exists>s v. route_slug (card_href (gallery_cards ! 0)) = Some s \<and> ProjectPage s (\<lambda>_. 0) = Inr v \<and>
      pv_title v = card_title (gallery_cards ! 0) \<and> pv_tone v = card_style (gallery_cards ! 0))"
proof -
  have h: "gallery_cards ! 0 \<in> set gallery_cards" by (rule nth_mem) (simp add: gallery_cards_def)
  from h gallery_links_open_their_project [OF h] show ?thesis by blast
qed

text \<open>
  C38. The two copies of \<open>toneStyle\<close>, in the gallery and in the detail page, are the
  same function, so a card and its page never disagree on a tone's colours.
\<close>

theorem tone_style_copies_agree: "page_toneStyle = toneStyle"
proof
  fix t show "page_toneStyle t = toneStyle t"
    by (cases t) (simp_all add: page_toneStyle_def toneStyle_def)
qed




end
